theory Spec2Isabelle
  imports Complex_Main "HOL-Library.Multiset"
begin

section \<open>The machine seen by both modules\<close>

text \<open>
  The repository holds two Klipper modules for the same task:
  \<^verbatim>\<open>auto_z_offset.py\<close> (called the full module below) and
  \<^verbatim>\<open>auto_z_offset_lite.py\<close> (the lite module). Python floats are
  modelled as real numbers, so rounding, NaN and the \<^verbatim>\<open>%.3f\<close> and
  \<^verbatim>\<open>%.6f\<close> formatting of numbers in commands and messages are idealised:
  a command or message carries the number itself.

  Everything outside the two files (toolhead, gcode dispatch, homing, configfile) is the
  machine. Its calls are recorded in a trace, oldest first. Two kinds of calls of the
  machine raise. A probing primitive raises on a probe fault: every outcome of a probing
  primitive is taken in order from the sequence \<open>outcomes\<close>, indexed by the
  number of probes made so far. A driver command (\<^verbatim>\<open>SET_TMC_CURRENT\<close>) raises
  when the machine refuses it, which \<open>refuses\<close> decides from the calls made so far
  and the command; a refused command is recorded as \<open>Refused\<close> and changes nothing
  else. Moves and the other gcode scripts built by the modules are taken to complete. A
  command of a module returns its result (an error for an exception) together with the
  state it leaves behind, since an exception does not undo the assignments made before it.
\<close>

datatype error =
    ProbeFault
  | SamplesExceedTolerance
  | ProbeStateError
  | ZeroDivisionError
  | AttributeError
  | CommandError

datatype gcode_cmd =
    SET_TMC_CURRENT string real
  | SET_GCODE_OFFSET real
  | M204 real
  | PREPARE_GCODE

datatype message =
    BedSensorMeasured string real
  | CalculatedTrueNozzleOffset string real
  | BedSensorTriggerZ string real
  | TrueNozzleOffset string real real real
  | AppliedCalibrated string real
  | StoredCalibrated string real
  | RetryingMsg

datatype event =
    Script gcode_cmd
  | Refused gcode_cmd
  | ProbeGcode
  | ManualMove "real option" "real option" "real option" real
  | GetMaxAccel
  | ProbingMove real real real real
  | SingleProbe string
  | RawProbe
  | WrappedPrepare
  | WrappedFinish
  | WrappedMultiBegin
  | RespondInfo message
  | ConfigSet string string real

record 'o machine =
  trace :: "event list"
  toolhead_position :: "real \<times> real \<times> real \<times> real"
  max_accel :: real
  outcomes :: "nat \<Rightarrow> error + 'o"
  probes_done :: nat
  refuses :: "event list \<Rightarrow> gcode_cmd \<Rightarrow> bool"

definition emit :: "event \<Rightarrow> 'o machine \<Rightarrow> 'o machine" where
  "emit e m = m\<lparr>trace := trace m @ [e]\<rparr>"

text \<open>
  \<^verbatim>\<open>gcode.run_script_from_command\<close> for the commands the modules build
  themselves. \<^verbatim>\<open>M204 S<a>\<close> sets the acceleration limit that
  \<^verbatim>\<open>toolhead.get_status(...)['max_accel']\<close> reports.
\<close>

definition run_script_from_command :: "gcode_cmd \<Rightarrow> 'o machine \<Rightarrow> 'o machine" where
  "run_script_from_command c m =
     (case c of
        M204 a \<Rightarrow> (emit (Script c) m)\<lparr>max_accel := a\<rparr>
      | _ \<Rightarrow> emit (Script c) m)"

definition get_max_accel :: "'o machine \<Rightarrow> real \<times> 'o machine" where
  "get_max_accel m = (max_accel m, emit GetMaxAccel m)"

definition get_z :: "'o machine \<Rightarrow> real" where
  "get_z m = (case toolhead_position m of (x, y, z, e) \<Rightarrow> z)"

text \<open>
  \<^verbatim>\<open>toolhead.manual_move(coord, speed)\<close>: a coordinate that is
  \<^verbatim>\<open>None\<close> keeps its value; the extruder coordinate is never changed by
  the modules.
\<close>

definition manual_move ::
  "real option \<Rightarrow> real option \<Rightarrow> real option \<Rightarrow> real \<Rightarrow> 'o machine \<Rightarrow> 'o machine" where
  "manual_move cx cy cz speed m =
     (case toolhead_position m of (x, y, z, e) \<Rightarrow>
        (emit (ManualMove cx cy cz speed) m)
          \<lparr>toolhead_position :=
             (case cx of None \<Rightarrow> x | Some v \<Rightarrow> v,
              case cy of None \<Rightarrow> y | Some v \<Rightarrow> v,
              case cz of None \<Rightarrow> z | Some v \<Rightarrow> v, e)\<rparr>)"

definition next_outcome :: "'o machine \<Rightarrow> (error + 'o) \<times> 'o machine" where
  "next_outcome m = (outcomes m (probes_done m), m\<lparr>probes_done := Suc (probes_done m)\<rparr>)"

section \<open>ZStepperCurrentHelper (the same class in both files)\<close>

text \<open>
  \<^verbatim>\<open>_saved_currents\<close> (\<^verbatim>\<open>_saved\<close> in the lite file) is a dict
  iterated in insertion order: an association list. \<^verbatim>\<open>probe_current_factor\<close>
  is called \<^verbatim>\<open>factor\<close> in the lite file.
\<close>

record current_helper =
  probe_current_factor :: real
  saved_currents :: "(string \<times> real) list"
  is_reduced :: bool
  hold :: bool

definition reduce_cmds :: "current_helper \<Rightarrow> gcode_cmd list" where
  "reduce_cmds h =
     map (\<lambda>(stepper_name, nominal). SET_TMC_CURRENT stepper_name (nominal * probe_current_factor h))
       (saved_currents h)"

definition restore_cmds :: "current_helper \<Rightarrow> gcode_cmd list" where
  "restore_cmds h =
     map (\<lambda>(stepper_name, nominal). SET_TMC_CURRENT stepper_name nominal) (saved_currents h)"

definition reduce :: "current_helper \<Rightarrow> 'o machine \<Rightarrow> current_helper \<times> 'o machine" where
  "reduce h m =
     (if is_reduced h then (h, m)
      else (h\<lparr>is_reduced := True\<rparr>, fold run_script_from_command (reduce_cmds h) m))"

definition restore :: "current_helper \<Rightarrow> 'o machine \<Rightarrow> current_helper \<times> 'o machine" where
  "restore h m =
     (if \<not> is_reduced h \<or> hold h then (h, m)
      else (h\<lparr>is_reduced := False\<rparr>, fold run_script_from_command (restore_cmds h) m))"

text \<open>
  \<open>reduce\<close> and \<open>restore\<close> describe the calls whose driver commands all complete.
  A driver command that the machine refuses raises out of
  \<^verbatim>\<open>gcode.run_script_from_command\<close>: the loop over the steppers stops at that
  command, and the assignment to \<^verbatim>\<open>_is_reduced\<close> after the loop is not reached.
  \<open>reduce_or_raise\<close> and \<open>restore_or_raise\<close> describe every call, with the state of
  the guard and of the machine that an exception leaves behind. They agree with
  \<open>reduce\<close> and \<open>restore\<close> whenever they return, and they return whenever the
  call issues no command.
\<close>

definition run_driver_command :: "gcode_cmd \<Rightarrow> 'o machine \<Rightarrow> (error + unit) \<times> 'o machine" where
  "run_driver_command c m =
     (if refuses m (trace m) c then (Inl CommandError, emit (Refused c) m)
      else (Inr (), run_script_from_command c m))"

fun run_driver_commands :: "gcode_cmd list \<Rightarrow> 'o machine \<Rightarrow> (error + unit) \<times> 'o machine" where
  "run_driver_commands [] m = (Inr (), m)"
| "run_driver_commands (c # cs) m =
     (case run_driver_command c m of
        (Inl e, m1) \<Rightarrow> (Inl e, m1)
      | (Inr u, m1) \<Rightarrow> run_driver_commands cs m1)"

definition reduce_or_raise ::
  "current_helper \<Rightarrow> 'o machine \<Rightarrow> (error + unit) \<times> current_helper \<times> 'o machine" where
  "reduce_or_raise h m =
     (if is_reduced h then (Inr (), h, m)
      else
        (case run_driver_commands (reduce_cmds h) m of
           (Inl e, m1) \<Rightarrow> (Inl e, h, m1)
         | (Inr u, m1) \<Rightarrow> (Inr (), h\<lparr>is_reduced := True\<rparr>, m1)))"

definition restore_or_raise ::
  "current_helper \<Rightarrow> 'o machine \<Rightarrow> (error + unit) \<times> current_helper \<times> 'o machine" where
  "restore_or_raise h m =
     (if \<not> is_reduced h \<or> hold h then (Inr (), h, m)
      else
        (case run_driver_commands (restore_cmds h) m of
           (Inl e, m1) \<Rightarrow> (Inl e, h, m1)
         | (Inr u, m1) \<Rightarrow> (Inr (), h\<lparr>is_reduced := False\<rparr>, m1)))"

section \<open>Probe positions (cross-version helpers of the full module)\<close>

text \<open>
  A probe position is either the old plain triple \<^verbatim>\<open>[x, y, z]\<close> or the
  \<^verbatim>\<open>ProbeResult\<close> named tuple
  \<^verbatim>\<open>(bed_x, bed_y, bed_z, test_x, test_y, test_z)\<close>.
\<close>

datatype position =
    Plain real real real
  | ProbeResult real real real real real real

fun get_pos_z :: "position \<Rightarrow> real" where
  "get_pos_z (ProbeResult bed_x bed_y bed_z test_x test_y test_z) = bed_z"
| "get_pos_z (Plain x y z) = z"

fun get_pos_xyz :: "position \<Rightarrow> real \<times> real \<times> real" where
  "get_pos_xyz (ProbeResult bed_x bed_y bed_z test_x test_y test_z) = (bed_x, bed_y, bed_z)"
| "get_pos_xyz (Plain x y z) = (x, y, z)"

fun adjust_pos_z_offset :: "position \<Rightarrow> real \<Rightarrow> position" where
  "adjust_pos_z_offset (ProbeResult bed_x bed_y bed_z test_x test_y test_z) z_off =
     ProbeResult bed_x bed_y (bed_z - z_off) test_x test_y test_z"
| "adjust_pos_z_offset (Plain x y z) z_off = Plain x y (z - z_off)"

text \<open>
  Where the toolhead rests after a probe of Klipper's probe module returned a position:
  at the test point of a \<^verbatim>\<open>ProbeResult\<close>, at the reported point of a plain
  triple. This is a property of the machine, not of the repository; no result below
  depends on it.
\<close>

fun halt_xyz :: "position \<Rightarrow> real \<times> real \<times> real" where
  "halt_xyz (ProbeResult bed_x bed_y bed_z test_x test_y test_z) = (test_x, test_y, test_z)"
| "halt_xyz (Plain x y z) = (x, y, z)"

definition halt_at :: "position \<Rightarrow> position machine \<Rightarrow> position machine" where
  "halt_at p m =
     (case (halt_xyz p, toolhead_position m) of
        ((x, y, z), (x0, y0, z0, e0)) \<Rightarrow> m\<lparr>toolhead_position := (x, y, z, e0)\<rparr>)"

text \<open>
  \<^verbatim>\<open>probe.run_single_probe(probe_obj, gcmd)\<close> of Klipper, for the object
  registered under the given name: returns a position or raises.
\<close>

definition run_single_probe ::
  "string \<Rightarrow> position machine \<Rightarrow> (error + position) \<times> position machine" where
  "run_single_probe who m =
     (case next_outcome (emit (SingleProbe who) m) of
        (Inl e, m1) \<Rightarrow> (Inl e, m1)
      | (Inr p, m1) \<Rightarrow> (Inr p, halt_at p m1))"

section \<open>The full module: AutoZOffsetEndstopWrapper\<close>

text \<open>
  \<^verbatim>\<open>probe_prepare\<close> and \<^verbatim>\<open>probe_finish\<close> are called by Klipper's
  homing code around each probing move; the calls they pass on to the wrapped
  \<^verbatim>\<open>ProbeEndstopWrapper\<close> are recorded in the trace. \<^verbatim>\<open>probe_finish\<close>
  reads the attribute \<^verbatim>\<open>old_max_accel\<close>, which exists only after a
  \<^verbatim>\<open>probe_prepare\<close> with a positive \<^verbatim>\<open>probe_accel\<close>.
\<close>

record endstop_wrapper =
  probe_accel :: real
  skip_prepare :: bool
  old_max_accel :: "real option"

definition run_prepare_gcode :: "'o machine \<Rightarrow> 'o machine" where
  "run_prepare_gcode m = run_script_from_command PREPARE_GCODE m"

definition multi_probe_begin :: "endstop_wrapper \<Rightarrow> 'o machine \<Rightarrow> 'o machine" where
  "multi_probe_begin w m =
     emit WrappedMultiBegin (if \<not> skip_prepare w then run_prepare_gcode m else m)"

definition probe_prepare :: "endstop_wrapper \<Rightarrow> 'o machine \<Rightarrow> endstop_wrapper \<times> 'o machine" where
  "probe_prepare w m =
     (let m1 = emit WrappedPrepare m in
        if probe_accel w > 0 then
          (case get_max_accel m1 of (a, m2) \<Rightarrow>
             (w\<lparr>old_max_accel := Some a\<rparr>, run_script_from_command (M204 (probe_accel w)) m2))
        else (w, m1))"

definition probe_finish :: "endstop_wrapper \<Rightarrow> 'o machine \<Rightarrow> (error + unit) \<times> 'o machine" where
  "probe_finish w m =
     (if probe_accel w > 0 then
        (case old_max_accel w of
           None \<Rightarrow> (Inl AttributeError, m)
         | Some a \<Rightarrow> (Inr (), emit WrappedFinish (run_script_from_command (M204 a) m)))
      else (Inr (), emit WrappedFinish m))"

section \<open>The full module: AutoZOffsetCommandHelper\<close>

text \<open>
  \<open>ind_xy_offsets\<close> is what \<^verbatim>\<open>_get_probe_xy_offsets(inductive_probe)\<close>
  returns and \<open>lift_speed\<close> is \<^verbatim>\<open>get_probe_params(gcmd)["lift_speed"]\<close>.
  \<^verbatim>\<open>config.getint("offset_samples", 3, minval=1)\<close> yields a positive integer.
\<close>

record full =
  name :: string
  z_offset :: real
  probe_hop :: real
  offset_samples :: nat
  calibrated_z_offset :: real
  bed_center_x :: real
  bed_center_y :: real
  last_probe_position :: "real \<times> real \<times> real"
  last_z_result :: real
  z_current_helper :: current_helper
  endstop :: endstop_wrapper
  ind_xy_offsets :: "real \<times> real"
  lift_speed :: real
  machine :: "position machine"

definition xy_move_speed :: real where
  "xy_move_speed = 50"

datatype status_value =
    StatusName string
  | StatusCoord "real \<times> real \<times> real"
  | StatusNumber real

definition get_status :: "full \<Rightarrow> (string \<times> status_value) list \<times> full" where
  "get_status s =
     ([(''name'', StatusName (name s)),
       (''last_probe_position'', StatusCoord (last_probe_position s)),
       (''last_z_result'', StatusNumber (last_z_result s))], s)"

definition move_to_center :: "full \<Rightarrow> full" where
  "move_to_center s =
     (let current_z = get_z (machine s)
      in s\<lparr>machine :=
            manual_move (Some (bed_center_x s)) (Some (bed_center_y s))
              (Some (max current_z (probe_hop s))) xy_move_speed (machine s)\<rparr>)"

definition lift_probe :: "full \<Rightarrow> full" where
  "lift_probe s =
     (case toolhead_position (machine s) of (x, y, z, e) \<Rightarrow>
        s\<lparr>machine :=
            manual_move (Some x) (Some y) (Some (z + probe_hop s)) (lift_speed s) (machine s)\<rparr>)"

definition store_z_offset :: "full \<Rightarrow> full" where
  "store_z_offset s =
     s\<lparr>machine :=
         emit (RespondInfo (StoredCalibrated (name s) (calibrated_z_offset s)))
           (emit (ConfigSet (name s) ''calibrated_z_offset'' (calibrated_z_offset s))
              (machine s))\<rparr>"

text \<open>
  \<^verbatim>\<open>cmd_AUTO_Z_PROBE\<close>: the \<^verbatim>\<open>finally\<close> clause runs
  \<open>restore\<close> on both paths, before the exception (if any) goes on.
\<close>

definition cmd_AUTO_Z_PROBE :: "full \<Rightarrow> (error + unit) \<times> full" where
  "cmd_AUTO_Z_PROBE s =
     (case reduce (z_current_helper s) (machine s) of (h1, m1) \<Rightarrow>
      case run_single_probe ''auto_z_offset'' m1 of (r, m2) \<Rightarrow>
      case restore h1 m2 of (h3, m3) \<Rightarrow>
        (case r of
           Inl e \<Rightarrow> (Inl e, s\<lparr>z_current_helper := h3, machine := m3\<rparr>)
         | Inr pos \<Rightarrow>
             (case get_pos_xyz pos of (x, y, z) \<Rightarrow>
                (Inr (),
                 s\<lparr>last_z_result := z + z_offset s,
                   last_probe_position := (x, y, z),
                   z_current_helper := h3,
                   machine :=
                     emit (RespondInfo (BedSensorMeasured (name s) ((z + z_offset s) * - 1))) m3\<rparr>))))"

definition cmd_AUTO_Z_MEASURE_OFFSET :: "full \<Rightarrow> (error + real) \<times> full" where
  "cmd_AUTO_Z_MEASURE_OFFSET s =
     (case cmd_AUTO_Z_PROBE (move_to_center s) of
        (Inl e, s1) \<Rightarrow> (Inl e, s1)
      | (Inr u, s1) \<Rightarrow>
          (let s2 = lift_probe s1;
               s3 = (case ind_xy_offsets s2 of (x_offset, y_offset) \<Rightarrow>
                       s2\<lparr>machine :=
                           manual_move (Some (bed_center_x s2 - x_offset))
                             (Some (bed_center_y s2 - y_offset))
                             (Some (get_z (machine s2))) xy_move_speed (machine s2)\<rparr>)
           in case run_single_probe ''probe'' (machine s3) of
                (Inl e, m4) \<Rightarrow> (Inl e, s3\<lparr>machine := m4\<rparr>)
              | (Inr position, m4) \<Rightarrow>
                  (let inductive_probe_result_z = get_pos_z position;
                       true_offset = last_z_result s3 - inductive_probe_result_z
                   in (Inr true_offset,
                       lift_probe
                         (s3\<lparr>machine :=
                             emit (RespondInfo
                                     (CalculatedTrueNozzleOffset (name s3) (true_offset * - 1)))
                               m4\<rparr>)))))"

definition cmd_AUTO_Z_LOAD_OFFSET :: "full \<Rightarrow> full" where
  "cmd_AUTO_Z_LOAD_OFFSET s =
     s\<lparr>machine :=
         emit (RespondInfo (AppliedCalibrated (name s) (calibrated_z_offset s)))
           (run_script_from_command (SET_GCODE_OFFSET (calibrated_z_offset s)) (machine s))\<rparr>"

text \<open>
  \<^verbatim>\<open>cmd_AUTO_Z_CALIBRATE\<close> in three parts: the statements before
  \<^verbatim>\<open>try\<close>, the \<^verbatim>\<open>for\<close> loop with its accumulator, and the
  \<^verbatim>\<open>finally\<close> clause. The two calls of the guard made by the command itself
  may raise. An exception of \<^verbatim>\<open>reduce()\<close> leaves the command before
  \<^verbatim>\<open>_hold = True\<close> and before \<^verbatim>\<open>try\<close>, with
  \<^verbatim>\<open>skip_prepare\<close> already set. An exception of \<^verbatim>\<open>restore()\<close> leaves
  the \<^verbatim>\<open>finally\<close> clause before \<^verbatim>\<open>skip_prepare = False\<close> and
  replaces the exception of the loop, if there is one. Inside the loop the guard is
  reduced and held, so that the calls of the guard made by
  \<^verbatim>\<open>cmd_AUTO_Z_PROBE\<close> issue no driver command.
\<close>

definition calibrate_begin :: "full \<Rightarrow> (error + unit) \<times> full" where
  "calibrate_begin s =
     (let m1 = run_script_from_command (SET_GCODE_OFFSET 0) (machine s);
          m2 = run_prepare_gcode m1;
          w = (endstop s)\<lparr>skip_prepare := True\<rparr>
      in case reduce_or_raise (z_current_helper s) m2 of
           (Inl e, h, m3) \<Rightarrow>
             (Inl e, s\<lparr>z_current_helper := h, endstop := w, machine := m3\<rparr>)
         | (Inr u, h, m3) \<Rightarrow>
             (Inr (), s\<lparr>z_current_helper := h\<lparr>hold := True\<rparr>, endstop := w, machine := m3\<rparr>))"

fun measure_loop :: "nat \<Rightarrow> real \<Rightarrow> full \<Rightarrow> (error + real) \<times> full" where
  "measure_loop 0 offset_total s = (Inr offset_total, s)"
| "measure_loop (Suc n) offset_total s =
     (case cmd_AUTO_Z_MEASURE_OFFSET s of
        (Inl e, s1) \<Rightarrow> (Inl e, s1)
      | (Inr r, s1) \<Rightarrow> measure_loop n (offset_total + r) s1)"

definition calibrate_finally :: "full \<Rightarrow> (error + unit) \<times> full" where
  "calibrate_finally s =
     (case restore_or_raise ((z_current_helper s)\<lparr>hold := False\<rparr>) (machine s) of
        (Inl e, h, m) \<Rightarrow> (Inl e, s\<lparr>z_current_helper := h, machine := m\<rparr>)
      | (Inr u, h, m) \<Rightarrow>
          (Inr (),
           s\<lparr>z_current_helper := h, endstop := (endstop s)\<lparr>skip_prepare := False\<rparr>,
             machine := m\<rparr>))"

definition cmd_AUTO_Z_CALIBRATE :: "full \<Rightarrow> (error + unit) \<times> full" where
  "cmd_AUTO_Z_CALIBRATE s =
     (case calibrate_begin s of
        (Inl e, s0) \<Rightarrow> (Inl e, s0)
      | (Inr u, s0) \<Rightarrow>
          (case measure_loop (offset_samples s) 0 s0 of (r, s1) \<Rightarrow>
             (case calibrate_finally s1 of
                (Inl e, s2) \<Rightarrow> (Inl e, s2)
              | (Inr u, s2) \<Rightarrow>
                  (case r of
                     Inl e \<Rightarrow> (Inl e, s2)
                   | Inr offset_total \<Rightarrow>
                       (let s3 = move_to_center s2 in
                          if offset_samples s3 = 0 then (Inl ZeroDivisionError, s3)
                          else
                            (let average_offset = offset_total / real (offset_samples s3);
                                 s4 = s3\<lparr>calibrated_z_offset := average_offset * - 1\<rparr>
                             in (Inr (), store_z_offset (cmd_AUTO_Z_LOAD_OFFSET s4))))))))"

text \<open>
  The values returned by the successive calls of \<^verbatim>\<open>cmd_AUTO_Z_MEASURE_OFFSET\<close>
  in a loop of \<open>n\<close> rounds, up to the first call that raises.
\<close>

fun measured_offsets :: "nat \<Rightarrow> full \<Rightarrow> real list" where
  "measured_offsets 0 s = []"
| "measured_offsets (Suc n) s =
     (case cmd_AUTO_Z_MEASURE_OFFSET s of
        (Inl e, s1) \<Rightarrow> []
      | (Inr r, s1) \<Rightarrow> r # measured_offsets n s1)"

section \<open>The full module: AutoZOffsetSessionHelper\<close>

datatype result_policy = Average | Median

record probe_params =
  samples :: int
  samples_tolerance :: real
  samples_tolerance_retries :: int
  sample_retract_dist :: real
  params_lift_speed :: real
  samples_result :: result_policy

text \<open>
  \<open>hw_probe_session\<close> tells whether the attribute is set (not \<^verbatim>\<open>None\<close>).
  \<open>probe_z_offset\<close> is the z offset of the printer's main probe object, read at
  construction. The result type of the external \<^verbatim>\<open>probe.calc_probe_z_average\<close>
  is left open; the function itself is an argument of \<open>run_probe\<close> below.
\<close>

record 'r session =
  probe_z_offset :: real
  hw_probe_session :: bool
  results :: "'r list"
  session_machine :: "position machine"

text \<open>\<^verbatim>\<open>self._probe(gcmd)\<close>, inherited from Klipper: one raw sample, or an exception.\<close>

definition probe :: "position machine \<Rightarrow> (error + position) \<times> position machine" where
  "probe m =
     (case next_outcome (emit RawProbe m) of
        (Inl e, m1) \<Rightarrow> (Inl e, m1)
      | (Inr p, m1) \<Rightarrow> (Inr p, halt_at p m1))"

definition spread :: "real list \<Rightarrow> real" where
  "spread z_positions = Max (set z_positions) - Min (set z_positions)"

definition retract ::
  "probe_params \<Rightarrow> real \<times> real \<Rightarrow> position list \<Rightarrow> position machine \<Rightarrow> position machine" where
  "retract params probexy positions m =
     (if int (length positions) < samples params then
        (let cur_z = get_z m
         in manual_move (Some (fst probexy)) (Some (snd probexy))
              (Some (cur_z + sample_retract_dist params)) (params_lift_speed params) m)
      else m)"

text \<open>
  The \<^verbatim>\<open>while\<close> loop of \<^verbatim>\<open>run_probe\<close>, with its variables
  \<^verbatim>\<open>retries\<close> and \<^verbatim>\<open>positions\<close> as arguments.
\<close>

function sample_loop ::
  "probe_params \<Rightarrow> real \<times> real \<Rightarrow> nat \<Rightarrow> position list \<Rightarrow> position machine \<Rightarrow>
     (error + position list) \<times> position machine" where
  "sample_loop params probexy retries positions m =
     (if int (length positions) < samples params then
        (case probe m of
           (Inl e, m1) \<Rightarrow> (Inl e, m1)
         | (Inr pos, m1) \<Rightarrow>
             (if spread (map get_pos_z (positions @ [pos])) > samples_tolerance params then
                (if int retries \<ge> samples_tolerance_retries params then
                   (Inl SamplesExceedTolerance, m1)
                 else
                   sample_loop params probexy (Suc retries) []
                     (retract params probexy [] (emit (RespondInfo RetryingMsg) m1)))
              else
                sample_loop params probexy retries (positions @ [pos])
                  (retract params probexy (positions @ [pos]) m1)))
      else (Inr positions, m))"
  by pat_completeness auto
termination
  by (relation "measures
        [\<lambda>(params, probexy, retries, positions, m).
            nat (samples_tolerance_retries params - int retries),
         \<lambda>(params, probexy, retries, positions, m).
            nat (samples params - int (length positions))]") auto

declare sample_loop.simps [simp del]

text \<open>
  \<^verbatim>\<open>positions.sort(key=_get_pos_z)\<close> is a stable sort, as \<open>sort_key\<close> is;
  \<^verbatim>\<open>positions[1:-1]\<close> drops the first and the last element and is empty for
  fewer than three.
\<close>

definition trim :: "position list \<Rightarrow> position list" where
  "trim positions = butlast (tl (sort_key get_pos_z positions))"

definition run_probe ::
  "(position list \<Rightarrow> result_policy \<Rightarrow> error + 'r) \<Rightarrow> probe_params \<Rightarrow> 'r session \<Rightarrow>
     (error + unit) \<times> 'r session" where
  "run_probe calc params s =
     (if \<not> hw_probe_session s then (Inl ProbeStateError, s)
      else
        (let probexy = (case toolhead_position (session_machine s) of (x, y, z, e) \<Rightarrow> (x, y))
         in case sample_loop params probexy 0 [] (session_machine s) of
              (Inl e, m1) \<Rightarrow> (Inl e, s\<lparr>session_machine := m1\<rparr>)
            | (Inr positions, m1) \<Rightarrow>
                (case calc (map (\<lambda>p. adjust_pos_z_offset p (probe_z_offset s)) (trim positions))
                        (samples_result params) of
                   Inl e \<Rightarrow> (Inl e, s\<lparr>session_machine := m1\<rparr>)
                 | Inr epos \<Rightarrow>
                     (Inr (), s\<lparr>results := results s @ [epos], session_machine := m1\<rparr>))))"

text \<open>
  Modelled from the spec: \<^verbatim>\<open>probe.calc_probe_z_average\<close> belongs to Klipper and
  is not part of the repository. Section 4.3, step 5 of the specification: the remaining
  samples are reduced to a single scalar by the configured result policy, the arithmetic
  mean by default, the median as the alternative. The mean divides the sum by the number
  of samples, which in Python raises \<^verbatim>\<open>ZeroDivisionError\<close> for no sample.
\<close>

definition mean :: "real list \<Rightarrow> error + real" where
  "mean zs = (if zs = [] then Inl ZeroDivisionError else Inr (sum_list zs / real (length zs)))"

definition median :: "real list \<Rightarrow> error + real" where
  "median zs =
     (let z_sorted = sort zs; middle = length zs div 2 in
        if odd (length zs) then Inr (z_sorted ! middle)
        else mean (take 2 (drop (middle - 1) z_sorted)))"

definition calc_probe_z_average :: "position list \<Rightarrow> result_policy \<Rightarrow> error + real" where
  "calc_probe_z_average positions policy =
     (case policy of
        Average \<Rightarrow> mean (map get_pos_z positions)
      | Median \<Rightarrow> median (map get_pos_z positions))"

section \<open>The lite module: AutoZOffset\<close>

text \<open>
  Fields that share a name with the full module carry the prefix \<open>lite_\<close>. The
  outcome of a probing primitive is the height at which the toolhead halts.
\<close>

record lite =
  lite_name :: string
  lite_z_offset :: real
  lite_probe_hop :: real
  probe_speed :: real
  lite_lift_speed :: real
  lite_probe_accel :: real
  lite_offset_samples :: nat
  lite_calibrated_z_offset :: real
  center_x :: real
  center_y :: real
  z_min :: real
  lite_skip_prepare :: bool
  z_current :: current_helper
  last_bed_z :: real
  ind_x_off :: real
  ind_y_off :: real
  lite_machine :: "real machine"

definition xy_speed :: real where
  "xy_speed = 50"

text \<open>\<^verbatim>\<open>phoming.probing_move(endstop, pos, speed)\<close> of Klipper.\<close>

definition probing_move ::
  "real \<times> real \<times> real \<times> real \<Rightarrow> real \<Rightarrow> real machine \<Rightarrow> (error + unit) \<times> real machine" where
  "probing_move pos speed m =
     (case pos of (x, y, z, e) \<Rightarrow>
        (case next_outcome (emit (ProbingMove x y z speed) m) of
           (Inl err, m1) \<Rightarrow> (Inl err, m1)
         | (Inr trigger_z, m1) \<Rightarrow>
             (case toolhead_position m1 of (x0, y0, z0, e0) \<Rightarrow>
                (Inr (), m1\<lparr>toolhead_position := (x0, y0, trigger_z, e0)\<rparr>))))"

text \<open>\<^verbatim>\<open>gcode.run_script_from_command('PROBE SAMPLES=1')\<close>: Klipper's own probe.\<close>

definition run_probe_gcode :: "real machine \<Rightarrow> (error + unit) \<times> real machine" where
  "run_probe_gcode m =
     (case next_outcome (emit ProbeGcode m) of
        (Inl err, m1) \<Rightarrow> (Inl err, m1)
      | (Inr trigger_z, m1) \<Rightarrow>
          (case toolhead_position m1 of (x0, y0, z0, e0) \<Rightarrow>
             (Inr (), m1\<lparr>toolhead_position := (x0, y0, trigger_z, e0)\<rparr>)))"

definition lite_move_to_center :: "lite \<Rightarrow> lite" where
  "lite_move_to_center s =
     (let z = max (get_z (lite_machine s)) (lite_probe_hop s)
      in s\<lparr>lite_machine :=
            manual_move (Some (center_x s)) (Some (center_y s)) (Some z) xy_speed
              (lite_machine s)\<rparr>)"

definition lift :: "lite \<Rightarrow> lite" where
  "lift s =
     s\<lparr>lite_machine :=
         manual_move None None (Some (get_z (lite_machine s) + lite_probe_hop s))
           (lite_lift_speed s) (lite_machine s)\<rparr>"

text \<open>
  \<^verbatim>\<open>_probe_bed_sensor\<close>: \<open>old_accel\<close> stays \<^verbatim>\<open>None\<close> unless
  \<^verbatim>\<open>probe_accel\<close> is positive; the \<^verbatim>\<open>finally\<close> clause runs on both
  paths.
\<close>

definition probe_bed_sensor :: "lite \<Rightarrow> (error + real) \<times> lite" where
  "probe_bed_sensor s =
     (case toolhead_position (lite_machine s) of (x, y, z, e) \<Rightarrow>
      let pos = (x, y, z_min s, e);
          (old_accel, m1) =
            (if lite_probe_accel s > 0 then
               (case get_max_accel (lite_machine s) of (a, m0) \<Rightarrow>
                  (Some a, run_script_from_command (M204 (lite_probe_accel s)) m0))
             else (None, lite_machine s))
      in case probing_move pos (probe_speed s) m1 of (r, m2) \<Rightarrow>
         let m3 = (case old_accel of
                     None \<Rightarrow> m2
                   | Some a \<Rightarrow> run_script_from_command (M204 a) m2)
         in (case r of
               Inl err \<Rightarrow> (Inl err, s\<lparr>lite_machine := m3\<rparr>)
             | Inr u \<Rightarrow> (Inr (get_z m3), s\<lparr>lite_machine := m3\<rparr>)))"

definition probe_inductive :: "lite \<Rightarrow> (error + real) \<times> lite" where
  "probe_inductive s =
     (case run_probe_gcode (lite_machine s) of
        (Inl err, m1) \<Rightarrow> (Inl err, s\<lparr>lite_machine := m1\<rparr>)
      | (Inr u, m1) \<Rightarrow> (Inr (get_z m1), s\<lparr>lite_machine := m1\<rparr>))"

definition cmd_probe :: "lite \<Rightarrow> (error + unit) \<times> lite" where
  "cmd_probe s =
     (let s0 = (if \<not> lite_skip_prepare s
                then s\<lparr>lite_machine := run_script_from_command PREPARE_GCODE (lite_machine s)\<rparr>
                else s)
      in case reduce (z_current s0) (lite_machine s0) of (h1, m1) \<Rightarrow>
         case probe_bed_sensor (s0\<lparr>z_current := h1, lite_machine := m1\<rparr>) of (r, s2) \<Rightarrow>
         case restore (z_current s2) (lite_machine s2) of (h3, m3) \<Rightarrow>
           (case r of
              Inl err \<Rightarrow> (Inl err, s2\<lparr>z_current := h3, lite_machine := m3\<rparr>)
            | Inr bed_z \<Rightarrow>
                (Inr (),
                 s2\<lparr>last_bed_z := bed_z, z_current := h3,
                    lite_machine :=
                      emit (RespondInfo (BedSensorTriggerZ (lite_name s2) bed_z)) m3\<rparr>)))"

definition cmd_measure_offset :: "lite \<Rightarrow> (error + real) \<times> lite" where
  "cmd_measure_offset s =
     (case cmd_probe (lite_move_to_center s) of
        (Inl err, s1) \<Rightarrow> (Inl err, s1)
      | (Inr u, s1) \<Rightarrow>
          (let s2 = lift s1;
               s3 = s2\<lparr>lite_machine :=
                       manual_move (Some (center_x s2 - ind_x_off s2))
                         (Some (center_y s2 - ind_y_off s2))
                         (Some (get_z (lite_machine s2))) xy_speed (lite_machine s2)\<rparr>
           in case probe_inductive s3 of
                (Inl err, s4) \<Rightarrow> (Inl err, s4)
              | (Inr inductive_z, s4) \<Rightarrow>
                  (let offset = last_bed_z s4 - inductive_z
                   in (Inr offset,
                       lift
                         (s4\<lparr>lite_machine :=
                             emit (RespondInfo
                                     (TrueNozzleOffset (lite_name s4) offset (last_bed_z s4)
                                        inductive_z))
                               (lite_machine s4)\<rparr>)))))"

definition cmd_load_offset :: "lite \<Rightarrow> lite" where
  "cmd_load_offset s =
     s\<lparr>lite_machine :=
         emit (RespondInfo (AppliedCalibrated (lite_name s) (lite_calibrated_z_offset s)))
           (run_script_from_command (SET_GCODE_OFFSET (lite_calibrated_z_offset s))
              (lite_machine s))\<rparr>"

definition store :: "lite \<Rightarrow> lite" where
  "store s =
     s\<lparr>lite_machine :=
         emit (RespondInfo (StoredCalibrated (lite_name s) (lite_calibrated_z_offset s)))
           (emit (ConfigSet (lite_name s) ''calibrated_z_offset'' (lite_calibrated_z_offset s))
              (lite_machine s))\<rparr>"

text \<open>
  \<^verbatim>\<open>cmd_calibrate\<close>, in the same three parts and with the same two calls of
  the guard that may raise as \<^verbatim>\<open>cmd_AUTO_Z_CALIBRATE\<close>.
\<close>

definition lite_calibrate_begin :: "lite \<Rightarrow> (error + unit) \<times> lite" where
  "lite_calibrate_begin s =
     (let m1 = run_script_from_command (SET_GCODE_OFFSET 0) (lite_machine s);
          m2 = run_script_from_command PREPARE_GCODE m1
      in case reduce_or_raise (z_current s) m2 of
           (Inl e, h, m3) \<Rightarrow>
             (Inl e, s\<lparr>lite_skip_prepare := True, z_current := h, lite_machine := m3\<rparr>)
         | (Inr u, h, m3) \<Rightarrow>
             (Inr (),
              s\<lparr>lite_skip_prepare := True, z_current := h\<lparr>hold := True\<rparr>,
                lite_machine := m3\<rparr>))"

fun lite_measure_loop :: "nat \<Rightarrow> real \<Rightarrow> lite \<Rightarrow> (error + real) \<times> lite" where
  "lite_measure_loop 0 total_z s = (Inr total_z, s)"
| "lite_measure_loop (Suc n) total_z s =
     (case cmd_measure_offset s of
        (Inl err, s1) \<Rightarrow> (Inl err, s1)
      | (Inr r, s1) \<Rightarrow> lite_measure_loop n (total_z + r) s1)"

definition lite_calibrate_finally :: "lite \<Rightarrow> (error + unit) \<times> lite" where
  "lite_calibrate_finally s =
     (case restore_or_raise ((z_current s)\<lparr>hold := False\<rparr>) (lite_machine s) of
        (Inl e, h, m) \<Rightarrow> (Inl e, s\<lparr>z_current := h, lite_machine := m\<rparr>)
      | (Inr u, h, m) \<Rightarrow>
          (Inr (), s\<lparr>lite_skip_prepare := False, z_current := h, lite_machine := m\<rparr>))"

definition cmd_calibrate :: "lite \<Rightarrow> (error + unit) \<times> lite" where
  "cmd_calibrate s =
     (case lite_calibrate_begin s of
        (Inl err, s0) \<Rightarrow> (Inl err, s0)
      | (Inr u, s0) \<Rightarrow>
          (case lite_measure_loop (lite_offset_samples s) 0 s0 of (r, s1) \<Rightarrow>
             (case lite_calibrate_finally s1 of
                (Inl err, s2) \<Rightarrow> (Inl err, s2)
              | (Inr u, s2) \<Rightarrow>
                  (case r of
                     Inl err \<Rightarrow> (Inl err, s2)
                   | Inr total_z \<Rightarrow>
                       (let s3 = lite_move_to_center s2 in
                          if lite_offset_samples s3 = 0 then (Inl ZeroDivisionError, s3)
                          else
                            (let s4 = s3\<lparr>lite_calibrated_z_offset :=
                                        - (total_z / real (lite_offset_samples s3))\<rparr>
                             in (Inr (), store (cmd_load_offset s4))))))))"

fun lite_measured_offsets :: "nat \<Rightarrow> lite \<Rightarrow> real list" where
  "lite_measured_offsets 0 s = []"
| "lite_measured_offsets (Suc n) s =
     (case cmd_measure_offset s of
        (Inl err, s1) \<Rightarrow> []
      | (Inr r, s1) \<Rightarrow> r # lite_measured_offsets n s1)"

definition lite_get_status :: "lite \<Rightarrow> (string \<times> status_value) list \<times> lite" where
  "lite_get_status s =
     ([(''last_bed_z'', StatusNumber (last_bed_z s)),
       (''calibrated_z_offset'', StatusNumber (lite_calibrated_z_offset s))], s)"

section \<open>Observations on traces and outcomes\<close>

text \<open>
  \<open>is_setting\<close> selects the events that change what the machine keeps: driver
  currents, the gcode offset, the prepare script and writes to the configuration.
  \<open>responses\<close> lists the messages sent with \<^verbatim>\<open>respond_info\<close>.
  \<open>bed_outcome\<close> and \<open>ind_outcome\<close> are the outcomes the machine holds for the
  next two probes: in a measurement the first is the bed sensor's, the second the
  inductive probe's.
\<close>

fun is_setting :: "event \<Rightarrow> bool" where
  "is_setting (Script (SET_TMC_CURRENT stepper_name current)) = True"
| "is_setting (Script (SET_GCODE_OFFSET z)) = True"
| "is_setting (Script PREPARE_GCODE) = True"
| "is_setting (ConfigSet section option v) = True"
| "is_setting e = False"

fun responses :: "event list \<Rightarrow> message list" where
  "responses [] = []"
| "responses (RespondInfo msg # es) = msg # responses es"
| "responses (e # es) = responses es"

definition bed_outcome :: "full \<Rightarrow> error + position" where
  "bed_outcome s = outcomes (machine s) (probes_done (machine s))"

definition ind_outcome :: "full \<Rightarrow> error + position" where
  "ind_outcome s = outcomes (machine s) (Suc (probes_done (machine s)))"

definition lite_bed_outcome :: "lite \<Rightarrow> error + real" where
  "lite_bed_outcome s = outcomes (lite_machine s) (probes_done (lite_machine s))"

definition lite_ind_outcome :: "lite \<Rightarrow> error + real" where
  "lite_ind_outcome s = outcomes (lite_machine s) (Suc (probes_done (lite_machine s)))"

fun is_tmc :: "event \<Rightarrow> bool" where
  "is_tmc (Script (SET_TMC_CURRENT stepper_name current)) = True"
| "is_tmc e = False"

fun is_apply_or_persist :: "event \<Rightarrow> bool" where
  "is_apply_or_persist (Script (SET_GCODE_OFFSET z)) = True"
| "is_apply_or_persist (ConfigSet section option v) = True"
| "is_apply_or_persist e = False"

fun reported_offset :: "message \<Rightarrow> real option" where
  "reported_offset (CalculatedTrueNozzleOffset section v) = Some v"
| "reported_offset (TrueNozzleOffset section v bed_z inductive_z) = Some v"
| "reported_offset msg = None"

section \<open>Concrete inputs\<close>

text \<open>A guard over one Z stepper, held by an outer loop, on a machine whose probes fault.\<close>

definition machine0 :: "real machine" where
  "machine0 =
     \<lparr>trace = [], toolhead_position = (0, 0, 10, 0), max_accel = 3000,
      outcomes = (\<lambda>n. Inl ProbeFault), probes_done = 0,
      refuses = (\<lambda>calls c. False)\<rparr>"

definition guard0 :: current_helper where
  "guard0 =
     \<lparr>probe_current_factor = 1 / 2, saved_currents = [(''stepper_z'', 1)],
      is_reduced = False, hold = True\<rparr>"

text \<open>
  A machine whose probes return the listed readings in order and fault afterwards; a
  full and a lite module configured for three runs on one Z stepper, with an earlier
  calibration of -0.05.
\<close>

definition scripted :: "'o list \<Rightarrow> nat \<Rightarrow> error + 'o" where
  "scripted readings n = (if n < length readings then Inr (readings ! n) else Inl ProbeFault)"

definition helper0 :: current_helper where
  "helper0 =
     \<lparr>probe_current_factor = 1 / 2, saved_currents = [(''stepper_z'', 1)],
      is_reduced = False, hold = False\<rparr>"

definition full_example :: "position list \<Rightarrow> full" where
  "full_example readings =
     \<lparr>name = ''auto_z_offset'', z_offset = 0.2, probe_hop = 5, offset_samples = 3,
      calibrated_z_offset = - 0.05, bed_center_x = 150, bed_center_y = 150,
      last_probe_position = (0, 0, 0), last_z_result = 0, z_current_helper = helper0,
      endstop = \<lparr>probe_accel = 0, skip_prepare = False, old_max_accel = None\<rparr>,
      ind_xy_offsets = (25, 0), lift_speed = 5,
      machine =
        \<lparr>trace = [], toolhead_position = (0, 0, 10, 0), max_accel = 3000,
         outcomes = scripted readings, probes_done = 0,
         refuses = (\<lambda>calls c. False)\<rparr>\<rparr>"

definition lite_example :: "real list \<Rightarrow> lite" where
  "lite_example readings =
     \<lparr>lite_name = ''auto_z_offset'', lite_z_offset = 0.2, lite_probe_hop = 5, probe_speed = 5,
      lite_lift_speed = 5, lite_probe_accel = 500, lite_offset_samples = 3,
      lite_calibrated_z_offset = - 0.05, center_x = 150, center_y = 150, z_min = - 2,
      lite_skip_prepare = False, z_current = helper0, last_bed_z = 0,
      ind_x_off = 25, ind_y_off = 0,
      lite_machine =
        \<lparr>trace = [], toolhead_position = (0, 0, 10, 0), max_accel = 3000,
         outcomes = scripted readings, probes_done = 0,
         refuses = (\<lambda>calls c. False)\<rparr>\<rparr>"

text \<open>
  The same two modules on a machine whose driver refuses to set the run current of
  \<^verbatim>\<open>stepper_z\<close> to the given value, at every call.
\<close>

definition refuses_current :: "real \<Rightarrow> event list \<Rightarrow> gcode_cmd \<Rightarrow> bool" where
  "refuses_current v calls c = (c = SET_TMC_CURRENT ''stepper_z'' v)"

definition full_refusing :: "real \<Rightarrow> position list \<Rightarrow> full" where
  "full_refusing v readings =
     (full_example readings)
       \<lparr>machine := (machine (full_example readings))\<lparr>refuses := refuses_current v\<rparr>\<rparr>"

definition lite_refusing :: "real \<Rightarrow> real list \<Rightarrow> lite" where
  "lite_refusing v readings =
     (lite_example readings)
       \<lparr>lite_machine := (lite_machine (lite_example readings))\<lparr>refuses := refuses_current v\<rparr>\<rparr>"

definition three_runs :: "position list" where
  "three_runs =
     [Plain 150 150 0, Plain 125 150 0.10, Plain 150 150 0, Plain 125 150 0.08,
      Plain 150 150 0, Plain 125 150 0.09]"

definition lite_three_runs :: "real list" where
  "lite_three_runs = [0.30, 0.20, 0.30, 0.18, 0.30, 0.19]"

text \<open>
  Readings for a calibration whose second run faults at the inductive probe, readings for
  a single measurement (bed sensor 0.30, inductive probe 0.25 for the full module, whose
  air gap of 0.2 is added to the bed reading, and 0.05 for the lite module), and an
  endstop wrapper with an acceleration override.
\<close>

definition faulty_runs :: "position list" where
  "faulty_runs = [Plain 150 150 0, Plain 125 150 0.10, Plain 150 150 0]"

definition lite_faulty_runs :: "real list" where
  "lite_faulty_runs = [0.30, 0.20, 0.30]"

definition one_run :: "position list" where
  "one_run = [Plain 150 150 0.30, Plain 125 150 0.25]"

definition lite_one_run :: "real list" where
  "lite_one_run = [0.30, 0.05]"

definition wrapper_example :: endstop_wrapper where
  "wrapper_example = \<lparr>probe_accel = 500, skip_prepare = False, old_max_accel = None\<rparr>"

text \<open>
  Probe parameters with the given sample count, tolerance and retry budget; a probing
  session with an open hardware session and a probe offset of 0; and the raw samples
  used below.
\<close>

definition params_example :: "int \<Rightarrow> real \<Rightarrow> int \<Rightarrow> probe_params" where
  "params_example n tolerance retries =
     \<lparr>samples = n, samples_tolerance = tolerance, samples_tolerance_retries = retries,
      sample_retract_dist = 2, params_lift_speed = 5, samples_result = Average\<rparr>"

definition session_example :: "position list \<Rightarrow> real session" where
  "session_example readings =
     \<lparr>probe_z_offset = 0, hw_probe_session = True, results = [],
      session_machine =
        \<lparr>trace = [], toolhead_position = (150, 150, 10, 0), max_accel = 3000,
         outcomes = scripted readings, probes_done = 0,
         refuses = (\<lambda>calls c. False)\<rparr>\<rparr>"

definition retry_samples :: "position list" where
  "retry_samples =
     [Plain 150 150 1.0, Plain 150 150 1.5, Plain 150 150 2.0, Plain 150 150 2.005,
      Plain 150 150 2.0]"

definition two_samples :: "position list" where
  "two_samples = [Plain 150 150 1.0, Plain 150 150 1.0]"

definition four_samples :: "position list" where
  "four_samples = [Plain 150 150 1.0, Plain 150 150 5.0, Plain 150 150 2.0, Plain 150 150 2.1]"

section \<open>Frame lemmas: machine, guard and the full module\<close>

lemma responses_append [simp]: "responses (xs @ ys) = responses xs @ responses ys"
  by (induction xs rule: responses.induct) simp_all

lemma responses_scripts [simp]: "responses (map Script cs) = []"
  by (induction cs) simp_all

lemma settings_reduce_cmds [simp]:
  "filter is_setting (map Script (reduce_cmds h)) = map Script (reduce_cmds h)"
  "filter is_setting (map Script (restore_cmds h)) = map Script (restore_cmds h)"
  by (simp_all add: reduce_cmds_def restore_cmds_def filter_map comp_def split_beta)

lemma tmc_setting: "is_tmc e \<Longrightarrow> is_setting e"
  by (induction e rule: is_tmc.induct) simp_all

lemma apply_setting: "is_apply_or_persist e \<Longrightarrow> is_setting e"
  by (induction e rule: is_apply_or_persist.induct) simp_all

lemma setting_and_tmc: "(\<lambda>x. is_setting x \<and> is_tmc x) = is_tmc"
  by (auto dest: tmc_setting)

lemma setting_and_apply: "(\<lambda>x. is_setting x \<and> is_apply_or_persist x) = is_apply_or_persist"
  by (auto dest: apply_setting)

lemma filter_cmds [simp]:
  "filter is_tmc (map Script (reduce_cmds h)) = map Script (reduce_cmds h)"
  "filter is_tmc (map Script (restore_cmds h)) = map Script (restore_cmds h)"
  "filter is_apply_or_persist (map Script (reduce_cmds h)) = []"
  "filter is_apply_or_persist (map Script (restore_cmds h)) = []"
  by (simp_all add: reduce_cmds_def restore_cmds_def filter_map comp_def split_beta)

lemma emit_frame [simp]:
  "trace (emit e m) = trace m @ [e]"
  "toolhead_position (emit e m) = toolhead_position m"
  "max_accel (emit e m) = max_accel m"
  "outcomes (emit e m) = outcomes m"
  "refuses (emit e m) = refuses m"
  "probes_done (emit e m) = probes_done m"
  by (simp_all add: emit_def)

lemma get_z_emit [simp]: "get_z (emit e m) = get_z m"
  by (simp add: get_z_def)

lemma run_script_frame [simp]:
  "trace (run_script_from_command c m) = trace m @ [Script c]"
  "toolhead_position (run_script_from_command c m) = toolhead_position m"
  "outcomes (run_script_from_command c m) = outcomes m"
  "refuses (run_script_from_command c m) = refuses m"
  "probes_done (run_script_from_command c m) = probes_done m"
  by (cases c; simp add: run_script_from_command_def)+

lemma run_script_accel [simp]:
  "max_accel (run_script_from_command (M204 a) m) = a"
  "max_accel (run_script_from_command (SET_TMC_CURRENT n c) m) = max_accel m"
  "max_accel (run_script_from_command (SET_GCODE_OFFSET z) m) = max_accel m"
  "max_accel (run_script_from_command PREPARE_GCODE m) = max_accel m"
  by (simp_all add: run_script_from_command_def)

lemma fold_script_frame [simp]:
  "trace (fold run_script_from_command cs m) = trace m @ map Script cs"
  "toolhead_position (fold run_script_from_command cs m) = toolhead_position m"
  "outcomes (fold run_script_from_command cs m) = outcomes m"
  "refuses (fold run_script_from_command cs m) = refuses m"
  "probes_done (fold run_script_from_command cs m) = probes_done m"
  by (induction cs arbitrary: m; simp)+

lemma manual_move_frame [simp]:
  "trace (manual_move cx cy cz speed m) = trace m @ [ManualMove cx cy cz speed]"
  "max_accel (manual_move cx cy cz speed m) = max_accel m"
  "outcomes (manual_move cx cy cz speed m) = outcomes m"
  "refuses (manual_move cx cy cz speed m) = refuses m"
  "probes_done (manual_move cx cy cz speed m) = probes_done m"
  by (simp_all add: manual_move_def split_beta)

lemma halt_at_frame [simp]:
  "trace (halt_at p m) = trace m"
  "max_accel (halt_at p m) = max_accel m"
  "outcomes (halt_at p m) = outcomes m"
  "refuses (halt_at p m) = refuses m"
  "probes_done (halt_at p m) = probes_done m"
  by (simp_all add: halt_at_def split_beta)

lemma reduce_fst [simp]: "fst (reduce h m) = h\<lparr>is_reduced := True\<rparr>"
  by (simp add: reduce_def)

lemma restore_fst [simp]:
  "fst (restore h m) = (if hold h then h else h\<lparr>is_reduced := False\<rparr>)"
  by (simp add: restore_def)

lemma reduce_frame [simp]:
  "trace (snd (reduce h m)) =
     trace m @ (if is_reduced h then [] else map Script (reduce_cmds h))"
  "toolhead_position (snd (reduce h m)) = toolhead_position m"
  "outcomes (snd (reduce h m)) = outcomes m"
  "refuses (snd (reduce h m)) = refuses m"
  "probes_done (snd (reduce h m)) = probes_done m"
  by (simp_all add: reduce_def)

lemma restore_frame [simp]:
  "trace (snd (restore h m)) =
     trace m @ (if \<not> is_reduced h \<or> hold h then [] else map Script (restore_cmds h))"
  "toolhead_position (snd (restore h m)) = toolhead_position m"
  "outcomes (snd (restore h m)) = outcomes m"
  "refuses (snd (restore h m)) = refuses m"
  "probes_done (snd (restore h m)) = probes_done m"
  by (simp_all add: restore_def)

lemma run_driver_commands_Cons:
  "run_driver_commands (c # cs) m =
     (if refuses m (trace m) c then (Inl CommandError, emit (Refused c) m)
      else run_driver_commands cs (run_script_from_command c m))"
  by (simp add: run_driver_command_def)

lemma run_driver_commands_frame [simp]:
  "toolhead_position (snd (run_driver_commands cs m)) = toolhead_position m"
  "outcomes (snd (run_driver_commands cs m)) = outcomes m"
  "refuses (snd (run_driver_commands cs m)) = refuses m"
  "probes_done (snd (run_driver_commands cs m)) = probes_done m"
  by (induction cs arbitrary: m;
      simp add: run_driver_commands_Cons del: run_driver_commands.simps(2))+

lemma run_driver_commands_returns:
  "fst (run_driver_commands cs m) = Inr () \<Longrightarrow>
     snd (run_driver_commands cs m) = fold run_script_from_command cs m"
  by (induction cs arbitrary: m)
    (simp_all add: run_driver_commands_Cons del: run_driver_commands.simps(2) split: if_splits)

lemma run_driver_commands_accepted:
  "(\<And>calls c. \<not> refuses m calls c) \<Longrightarrow>
     run_driver_commands cs m = (Inr (), fold run_script_from_command cs m)"
  by (induction cs arbitrary: m)
    (simp_all add: run_driver_commands_Cons del: run_driver_commands.simps(2))

lemma run_driver_commands_applied:
  "filter is_apply_or_persist (map Script cs) = [] \<Longrightarrow>
     filter is_apply_or_persist (trace (snd (run_driver_commands cs m))) =
       filter is_apply_or_persist (trace m)"
  by (induction cs arbitrary: m)
    (simp_all add: run_driver_commands_Cons del: run_driver_commands.simps(2) split: if_splits)

lemma reduce_or_raise_result:
  "fst (reduce_or_raise h m) =
     (if is_reduced h then Inr () else fst (run_driver_commands (reduce_cmds h) m))"
  "fst (snd (reduce_or_raise h m)) =
     (if fst (reduce_or_raise h m) = Inr () then h\<lparr>is_reduced := True\<rparr> else h)"
  "snd (snd (reduce_or_raise h m)) =
     (if is_reduced h then m else snd (run_driver_commands (reduce_cmds h) m))"
  by (simp_all add: reduce_or_raise_def split_beta split: sum.splits)

lemma restore_or_raise_result:
  "fst (restore_or_raise h m) =
     (if \<not> is_reduced h \<or> hold h then Inr ()
      else fst (run_driver_commands (restore_cmds h) m))"
  "fst (snd (restore_or_raise h m)) =
     (if fst (restore_or_raise h m) = Inr () \<and> \<not> hold h then h\<lparr>is_reduced := False\<rparr> else h)"
  "snd (snd (restore_or_raise h m)) =
     (if \<not> is_reduced h \<or> hold h then m else snd (run_driver_commands (restore_cmds h) m))"
  by (simp_all add: restore_or_raise_def split_beta split: sum.splits)

lemma reduce_or_raise_frame [simp]:
  "toolhead_position (snd (snd (reduce_or_raise h m))) = toolhead_position m"
  "outcomes (snd (snd (reduce_or_raise h m))) = outcomes m"
  "refuses (snd (snd (reduce_or_raise h m))) = refuses m"
  "probes_done (snd (snd (reduce_or_raise h m))) = probes_done m"
  "filter is_apply_or_persist (trace (snd (snd (reduce_or_raise h m)))) =
     filter is_apply_or_persist (trace m)"
  by (simp_all add: reduce_or_raise_result run_driver_commands_applied)

lemma restore_or_raise_frame [simp]:
  "toolhead_position (snd (snd (restore_or_raise h m))) = toolhead_position m"
  "outcomes (snd (snd (restore_or_raise h m))) = outcomes m"
  "refuses (snd (snd (restore_or_raise h m))) = refuses m"
  "probes_done (snd (snd (restore_or_raise h m))) = probes_done m"
  "filter is_apply_or_persist (trace (snd (snd (restore_or_raise h m)))) =
     filter is_apply_or_persist (trace m)"
  by (simp_all add: restore_or_raise_result run_driver_commands_applied)

lemma reduce_or_raise_returns:
  "fst (reduce_or_raise h m) = Inr () \<Longrightarrow> snd (reduce_or_raise h m) = reduce h m"
  by (auto simp: prod_eq_iff reduce_or_raise_result reduce_def run_driver_commands_returns
      split: if_splits)

lemma restore_or_raise_returns:
  "fst (restore_or_raise h m) = Inr () \<Longrightarrow> snd (restore_or_raise h m) = restore h m"
  by (auto simp: prod_eq_iff restore_or_raise_result restore_def run_driver_commands_returns
      split: if_splits)

lemma reduce_or_raise_accepted:
  "(\<And>calls c. \<not> refuses m calls c) \<Longrightarrow> reduce_or_raise h m = (Inr (), reduce h m)"
  by (simp add: reduce_or_raise_def reduce_def run_driver_commands_accepted)

lemma restore_or_raise_accepted:
  "(\<And>calls c. \<not> refuses m calls c) \<Longrightarrow> restore_or_raise h m = (Inr (), restore h m)"
  by (simp add: restore_or_raise_def restore_def run_driver_commands_accepted)

lemma run_single_probe_frame [simp]:
  "fst (run_single_probe who m) = outcomes m (probes_done m)"
  "trace (snd (run_single_probe who m)) = trace m @ [SingleProbe who]"
  "max_accel (snd (run_single_probe who m)) = max_accel m"
  "outcomes (snd (run_single_probe who m)) = outcomes m"
  "refuses (snd (run_single_probe who m)) = refuses m"
  "probes_done (snd (run_single_probe who m)) = Suc (probes_done m)"
  by (simp_all add: run_single_probe_def next_outcome_def split_beta split: sum.splits)


lemma restore_cmds_upd [simp]:
  "restore_cmds (h\<lparr>is_reduced := b\<rparr>) = restore_cmds h"
  "restore_cmds (h\<lparr>hold := b\<rparr>) = restore_cmds h"
  "reduce_cmds (h\<lparr>is_reduced := b\<rparr>) = reduce_cmds h"
  "reduce_cmds (h\<lparr>hold := b\<rparr>) = reduce_cmds h"
  by (simp_all add: restore_cmds_def reduce_cmds_def)

lemma move_to_center_frame [simp]:
  "name (move_to_center s) = name s"
  "z_offset (move_to_center s) = z_offset s"
  "probe_hop (move_to_center s) = probe_hop s"
  "offset_samples (move_to_center s) = offset_samples s"
  "calibrated_z_offset (move_to_center s) = calibrated_z_offset s"
  "bed_center_x (move_to_center s) = bed_center_x s"
  "bed_center_y (move_to_center s) = bed_center_y s"
  "last_probe_position (move_to_center s) = last_probe_position s"
  "last_z_result (move_to_center s) = last_z_result s"
  "z_current_helper (move_to_center s) = z_current_helper s"
  "endstop (move_to_center s) = endstop s"
  "ind_xy_offsets (move_to_center s) = ind_xy_offsets s"
  "lift_speed (move_to_center s) = lift_speed s"
  "outcomes (machine (move_to_center s)) = outcomes (machine s)"
  "refuses (machine (move_to_center s)) = refuses (machine s)"
  "probes_done (machine (move_to_center s)) = probes_done (machine s)"
  "max_accel (machine (move_to_center s)) = max_accel (machine s)"
  "trace (machine (move_to_center s)) =
     trace (machine s) @
       [ManualMove (Some (bed_center_x s)) (Some (bed_center_y s))
          (Some (max (get_z (machine s)) (probe_hop s))) xy_move_speed]"
  by (simp_all add: move_to_center_def)

lemma lift_probe_frame [simp]:
  "name (lift_probe s) = name s"
  "z_offset (lift_probe s) = z_offset s"
  "probe_hop (lift_probe s) = probe_hop s"
  "offset_samples (lift_probe s) = offset_samples s"
  "calibrated_z_offset (lift_probe s) = calibrated_z_offset s"
  "bed_center_x (lift_probe s) = bed_center_x s"
  "bed_center_y (lift_probe s) = bed_center_y s"
  "last_probe_position (lift_probe s) = last_probe_position s"
  "last_z_result (lift_probe s) = last_z_result s"
  "z_current_helper (lift_probe s) = z_current_helper s"
  "endstop (lift_probe s) = endstop s"
  "ind_xy_offsets (lift_probe s) = ind_xy_offsets s"
  "lift_speed (lift_probe s) = lift_speed s"
  "outcomes (machine (lift_probe s)) = outcomes (machine s)"
  "refuses (machine (lift_probe s)) = refuses (machine s)"
  "probes_done (machine (lift_probe s)) = probes_done (machine s)"
  "max_accel (machine (lift_probe s)) = max_accel (machine s)"
  by (simp_all add: lift_probe_def split_beta)

lemma get_pos_xyz_z [simp]: "snd (snd (get_pos_xyz p)) = get_pos_z p"
  by (cases p) simp_all

lemma cmd_AUTO_Z_PROBE_frame [simp]:
  "name (snd (cmd_AUTO_Z_PROBE s)) = name s"
  "z_offset (snd (cmd_AUTO_Z_PROBE s)) = z_offset s"
  "probe_hop (snd (cmd_AUTO_Z_PROBE s)) = probe_hop s"
  "offset_samples (snd (cmd_AUTO_Z_PROBE s)) = offset_samples s"
  "calibrated_z_offset (snd (cmd_AUTO_Z_PROBE s)) = calibrated_z_offset s"
  "bed_center_x (snd (cmd_AUTO_Z_PROBE s)) = bed_center_x s"
  "bed_center_y (snd (cmd_AUTO_Z_PROBE s)) = bed_center_y s"
  "endstop (snd (cmd_AUTO_Z_PROBE s)) = endstop s"
  "ind_xy_offsets (snd (cmd_AUTO_Z_PROBE s)) = ind_xy_offsets s"
  "lift_speed (snd (cmd_AUTO_Z_PROBE s)) = lift_speed s"
  "outcomes (machine (snd (cmd_AUTO_Z_PROBE s))) = outcomes (machine s)"
  "refuses (machine (snd (cmd_AUTO_Z_PROBE s))) = refuses (machine s)"
  "probes_done (machine (snd (cmd_AUTO_Z_PROBE s))) = Suc (probes_done (machine s))"
  by (simp_all add: cmd_AUTO_Z_PROBE_def split_beta split: sum.splits)

lemma cmd_AUTO_Z_PROBE_result:
  "fst (cmd_AUTO_Z_PROBE s) = (case bed_outcome s of Inl e \<Rightarrow> Inl e | Inr p \<Rightarrow> Inr ())"
  "last_z_result (snd (cmd_AUTO_Z_PROBE s)) =
     (case bed_outcome s of Inl e \<Rightarrow> last_z_result s | Inr p \<Rightarrow> get_pos_z p + z_offset s)"
  "z_current_helper (snd (cmd_AUTO_Z_PROBE s)) =
     (z_current_helper s)\<lparr>is_reduced := hold (z_current_helper s)\<rparr>"
  by (simp_all add: cmd_AUTO_Z_PROBE_def bed_outcome_def split_beta split: sum.splits)


lemma cmd_AUTO_Z_PROBE_trace:
  "filter is_setting (trace (machine (snd (cmd_AUTO_Z_PROBE s)))) =
     filter is_setting (trace (machine s)) @
       (if is_reduced (z_current_helper s) then [] else map Script (reduce_cmds (z_current_helper s))) @
       (if hold (z_current_helper s) then [] else map Script (restore_cmds (z_current_helper s)))"
  "responses (trace (machine (snd (cmd_AUTO_Z_PROBE s)))) =
     responses (trace (machine s)) @
       (case bed_outcome s of
          Inl e \<Rightarrow> []
        | Inr p \<Rightarrow> [BedSensorMeasured (name s) ((get_pos_z p + z_offset s) * - 1)])"
  by (simp_all add: cmd_AUTO_Z_PROBE_def bed_outcome_def split_beta split: sum.splits)

lemma bed_outcome_center [simp]: "bed_outcome (move_to_center s) = bed_outcome s"
  by (simp add: bed_outcome_def)

lemma cmd_AUTO_Z_MEASURE_OFFSET_frame [simp]:
  "name (snd (cmd_AUTO_Z_MEASURE_OFFSET s)) = name s"
  "z_offset (snd (cmd_AUTO_Z_MEASURE_OFFSET s)) = z_offset s"
  "probe_hop (snd (cmd_AUTO_Z_MEASURE_OFFSET s)) = probe_hop s"
  "offset_samples (snd (cmd_AUTO_Z_MEASURE_OFFSET s)) = offset_samples s"
  "calibrated_z_offset (snd (cmd_AUTO_Z_MEASURE_OFFSET s)) = calibrated_z_offset s"
  "bed_center_x (snd (cmd_AUTO_Z_MEASURE_OFFSET s)) = bed_center_x s"
  "bed_center_y (snd (cmd_AUTO_Z_MEASURE_OFFSET s)) = bed_center_y s"
  "endstop (snd (cmd_AUTO_Z_MEASURE_OFFSET s)) = endstop s"
  "ind_xy_offsets (snd (cmd_AUTO_Z_MEASURE_OFFSET s)) = ind_xy_offsets s"
  "lift_speed (snd (cmd_AUTO_Z_MEASURE_OFFSET s)) = lift_speed s"
  "outcomes (machine (snd (cmd_AUTO_Z_MEASURE_OFFSET s))) = outcomes (machine s)"
  "refuses (machine (snd (cmd_AUTO_Z_MEASURE_OFFSET s))) = refuses (machine s)"
  "z_current_helper (snd (cmd_AUTO_Z_MEASURE_OFFSET s)) =
     (z_current_helper s)\<lparr>is_reduced := hold (z_current_helper s)\<rparr>"
  by (simp_all add: cmd_AUTO_Z_MEASURE_OFFSET_def cmd_AUTO_Z_PROBE_result Let_def split_beta
      split: sum.splits)

lemma cmd_AUTO_Z_MEASURE_OFFSET_result:
  "fst (cmd_AUTO_Z_MEASURE_OFFSET s) =
     (case bed_outcome s of
        Inl e \<Rightarrow> Inl e
      | Inr p_bed \<Rightarrow>
          (case ind_outcome s of
             Inl e \<Rightarrow> Inl e
           | Inr p_ind \<Rightarrow> Inr (get_pos_z p_bed + z_offset s - get_pos_z p_ind)))"
  by (simp add: cmd_AUTO_Z_MEASURE_OFFSET_def cmd_AUTO_Z_PROBE_result Let_def split_beta
      ind_outcome_def split: sum.splits)


lemma lift_probe_trace_filter [simp]:
  "filter is_setting (trace (machine (lift_probe s))) = filter is_setting (trace (machine s))"
  "responses (trace (machine (lift_probe s))) = responses (trace (machine s))"
  by (simp_all add: lift_probe_def split_beta)

lemma cmd_AUTO_Z_MEASURE_OFFSET_trace:
  "filter is_setting (trace (machine (snd (cmd_AUTO_Z_MEASURE_OFFSET s)))) =
     filter is_setting (trace (machine s)) @
       (if is_reduced (z_current_helper s) then [] else map Script (reduce_cmds (z_current_helper s))) @
       (if hold (z_current_helper s) then [] else map Script (restore_cmds (z_current_helper s)))"
  by (simp add: cmd_AUTO_Z_MEASURE_OFFSET_def cmd_AUTO_Z_PROBE_trace Let_def split_beta
      split: sum.splits)

lemma cmd_AUTO_Z_MEASURE_OFFSET_responses:
  "responses (trace (machine (snd (cmd_AUTO_Z_MEASURE_OFFSET s)))) =
     responses (trace (machine s)) @
       (case bed_outcome s of
          Inl e \<Rightarrow> []
        | Inr p_bed \<Rightarrow>
            BedSensorMeasured (name s) ((get_pos_z p_bed + z_offset s) * - 1) #
            (case ind_outcome s of
               Inl e \<Rightarrow> []
             | Inr p_ind \<Rightarrow>
                 [CalculatedTrueNozzleOffset (name s)
                    ((get_pos_z p_bed + z_offset s - get_pos_z p_ind) * - 1)]))"
  by (simp add: cmd_AUTO_Z_MEASURE_OFFSET_def cmd_AUTO_Z_PROBE_trace cmd_AUTO_Z_PROBE_result
      Let_def split_beta ind_outcome_def split: sum.splits)


lemma calibrate_begin_frame [simp]:
  "name (snd (calibrate_begin s)) = name s"
  "z_offset (snd (calibrate_begin s)) = z_offset s"
  "offset_samples (snd (calibrate_begin s)) = offset_samples s"
  "calibrated_z_offset (snd (calibrate_begin s)) = calibrated_z_offset s"
  "endstop (snd (calibrate_begin s)) = (endstop s)\<lparr>skip_prepare := True\<rparr>"
  "outcomes (machine (snd (calibrate_begin s))) = outcomes (machine s)"
  "refuses (machine (snd (calibrate_begin s))) = refuses (machine s)"
  "probes_done (machine (snd (calibrate_begin s))) = probes_done (machine s)"
  "filter is_apply_or_persist (trace (machine (snd (calibrate_begin s)))) =
     filter is_apply_or_persist (trace (machine s)) @ [Script (SET_GCODE_OFFSET 0)]"
  by (simp_all add: calibrate_begin_def run_prepare_gcode_def Let_def split_beta
      split: sum.splits)

lemma calibrate_begin_result:
  "fst (calibrate_begin s) =
     fst (reduce_or_raise (z_current_helper s)
            (run_prepare_gcode (run_script_from_command (SET_GCODE_OFFSET 0) (machine s))))"
  "z_current_helper (snd (calibrate_begin s)) =
     (if fst (calibrate_begin s) = Inr ()
      then (z_current_helper s)\<lparr>is_reduced := True, hold := True\<rparr>
      else z_current_helper s)"
  by (simp_all add: calibrate_begin_def reduce_or_raise_result Let_def split_beta
      split: sum.splits)

lemma calibrate_begin_settings:
  "fst (calibrate_begin s) = Inr () \<Longrightarrow>
     filter is_setting (trace (machine (snd (calibrate_begin s)))) =
       filter is_setting (trace (machine s)) @
         [Script (SET_GCODE_OFFSET 0), Script PREPARE_GCODE] @
         (if is_reduced (z_current_helper s) then []
          else map Script (reduce_cmds (z_current_helper s)))"
  by (simp add: calibrate_begin_def reduce_or_raise_result run_driver_commands_returns
      run_prepare_gcode_def Let_def split_beta split: sum.splits if_splits)

lemma measure_loop_Suc:
  "measure_loop (Suc n) acc s =
     (case fst (cmd_AUTO_Z_MEASURE_OFFSET s) of
        Inl e \<Rightarrow> (Inl e, snd (cmd_AUTO_Z_MEASURE_OFFSET s))
      | Inr r \<Rightarrow> measure_loop n (acc + r) (snd (cmd_AUTO_Z_MEASURE_OFFSET s)))"
  by (simp add: split_beta split: sum.splits)

lemma measure_loop_frame [simp]:
  "name (snd (measure_loop n acc s)) = name s"
  "z_offset (snd (measure_loop n acc s)) = z_offset s"
  "offset_samples (snd (measure_loop n acc s)) = offset_samples s"
  "calibrated_z_offset (snd (measure_loop n acc s)) = calibrated_z_offset s"
  "endstop (snd (measure_loop n acc s)) = endstop s"
  "outcomes (machine (snd (measure_loop n acc s))) = outcomes (machine s)"
  "refuses (machine (snd (measure_loop n acc s))) = refuses (machine s)"
  by (induction n arbitrary: acc s; simp add: measure_loop_Suc del: measure_loop.simps(2) split: sum.splits)+

lemma measure_loop_held:
  "is_reduced (z_current_helper s) \<Longrightarrow> hold (z_current_helper s) \<Longrightarrow>
     z_current_helper (snd (measure_loop n acc s)) = z_current_helper s \<and>
     filter is_setting (trace (machine (snd (measure_loop n acc s)))) =
       filter is_setting (trace (machine s))"
proof (induction n arbitrary: acc s)
  case 0
  then show ?case by simp
next
  case (Suc n)
  let ?s1 = "snd (cmd_AUTO_Z_MEASURE_OFFSET s)"
  have h1: "z_current_helper ?s1 = z_current_helper s"
    using Suc.prems by simp
  have t1: "filter is_setting (trace (machine ?s1)) = filter is_setting (trace (machine s))"
    using Suc.prems by (simp add: cmd_AUTO_Z_MEASURE_OFFSET_trace)
  show ?case
  proof (cases "fst (cmd_AUTO_Z_MEASURE_OFFSET s)")
    case (Inl e)
    then show ?thesis using h1 t1 by (simp add: measure_loop_Suc del: measure_loop.simps(2))
  next
    case (Inr r)
    have "is_reduced (z_current_helper ?s1)" "hold (z_current_helper ?s1)"
      using Suc.prems h1 by simp_all
    from Suc.IH [OF this, of "acc + r"] show ?thesis
      using Inr h1 t1 by (simp add: measure_loop_Suc del: measure_loop.simps(2))
  qed
qed

lemma cmd_AUTO_Z_MEASURE_OFFSET_applied:
  "filter is_apply_or_persist (trace (machine (snd (cmd_AUTO_Z_MEASURE_OFFSET s)))) =
     filter is_apply_or_persist (trace (machine s))"
proof -
  have "filter is_apply_or_persist
          (filter is_setting (trace (machine (snd (cmd_AUTO_Z_MEASURE_OFFSET s))))) =
        filter is_apply_or_persist (filter is_setting (trace (machine s)))"
    by (simp add: cmd_AUTO_Z_MEASURE_OFFSET_trace)
  then show ?thesis
    by (simp add: setting_and_apply)
qed

lemma measure_loop_applied:
  "filter is_apply_or_persist (trace (machine (snd (measure_loop n acc s)))) =
     filter is_apply_or_persist (trace (machine s))"
  by (induction n arbitrary: acc s)
    (simp_all add: measure_loop_Suc cmd_AUTO_Z_MEASURE_OFFSET_applied
      del: measure_loop.simps(2) split: sum.splits)

lemma measure_loop_sum:
  "fst (measure_loop n acc s) = Inr t \<Longrightarrow>
     t = acc + sum_list (measured_offsets n s) \<and> length (measured_offsets n s) = n"
proof (induction n arbitrary: acc s)
  case 0
  then show ?case by simp
next
  case (Suc n)
  obtain r s1 where m: "cmd_AUTO_Z_MEASURE_OFFSET s = (r, s1)"
    by (cases "cmd_AUTO_Z_MEASURE_OFFSET s")
  show ?case
  proof (cases r)
    case (Inl e)
    with Suc.prems m show ?thesis by simp
  next
    case (Inr v)
    with Suc.prems m have "fst (measure_loop n (acc + v) s1) = Inr t" by simp
    from Suc.IH [OF this] show ?thesis using m Inr by simp
  qed
qed


lemma cmd_AUTO_Z_MEASURE_OFFSET_probes_done:
  "probes_done (machine (snd (cmd_AUTO_Z_MEASURE_OFFSET s))) =
     (case bed_outcome s of
        Inl e \<Rightarrow> Suc (probes_done (machine s))
      | Inr p \<Rightarrow> Suc (Suc (probes_done (machine s))))"
  by (simp add: cmd_AUTO_Z_MEASURE_OFFSET_def cmd_AUTO_Z_PROBE_result Let_def split_beta
      bed_outcome_def split: sum.splits)

lemma calibrate_finally_frame [simp]:
  "name (snd (calibrate_finally s)) = name s"
  "offset_samples (snd (calibrate_finally s)) = offset_samples s"
  "calibrated_z_offset (snd (calibrate_finally s)) = calibrated_z_offset s"
  "filter is_apply_or_persist (trace (machine (snd (calibrate_finally s)))) =
     filter is_apply_or_persist (trace (machine s))"
  by (simp_all add: calibrate_finally_def split_beta split: sum.splits)

lemma calibrate_finally_result:
  "fst (calibrate_finally s) =
     fst (restore_or_raise ((z_current_helper s)\<lparr>hold := False\<rparr>) (machine s))"
  "z_current_helper (snd (calibrate_finally s)) =
     (if fst (calibrate_finally s) = Inr ()
      then (z_current_helper s)\<lparr>is_reduced := False, hold := False\<rparr>
      else (z_current_helper s)\<lparr>hold := False\<rparr>)"
  "endstop (snd (calibrate_finally s)) =
     (if fst (calibrate_finally s) = Inr () then (endstop s)\<lparr>skip_prepare := False\<rparr>
      else endstop s)"
  by (simp_all add: calibrate_finally_def restore_or_raise_result split_beta
      split: sum.splits)

lemma calibrate_finally_settings:
  "fst (calibrate_finally s) = Inr () \<Longrightarrow>
     filter is_setting (trace (machine (snd (calibrate_finally s)))) =
       filter is_setting (trace (machine s)) @
         (if is_reduced (z_current_helper s) then map Script (restore_cmds (z_current_helper s))
          else [])"
  by (simp add: calibrate_finally_def restore_or_raise_result run_driver_commands_returns
      split_beta split: sum.splits if_splits)

lemma load_store_frame [simp]:
  "name (cmd_AUTO_Z_LOAD_OFFSET s) = name s"
  "calibrated_z_offset (cmd_AUTO_Z_LOAD_OFFSET s) = calibrated_z_offset s"
  "z_current_helper (cmd_AUTO_Z_LOAD_OFFSET s) = z_current_helper s"
  "endstop (cmd_AUTO_Z_LOAD_OFFSET s) = endstop s"
  "name (store_z_offset s) = name s"
  "calibrated_z_offset (store_z_offset s) = calibrated_z_offset s"
  "z_current_helper (store_z_offset s) = z_current_helper s"
  "endstop (store_z_offset s) = endstop s"
  "filter is_setting (trace (machine (cmd_AUTO_Z_LOAD_OFFSET s))) =
     filter is_setting (trace (machine s)) @ [Script (SET_GCODE_OFFSET (calibrated_z_offset s))]"
  "filter is_setting (trace (machine (store_z_offset s))) =
     filter is_setting (trace (machine s)) @
       [ConfigSet (name s) ''calibrated_z_offset'' (calibrated_z_offset s)]"
  "filter is_apply_or_persist (trace (machine (cmd_AUTO_Z_LOAD_OFFSET s))) =
     filter is_apply_or_persist (trace (machine s)) @
       [Script (SET_GCODE_OFFSET (calibrated_z_offset s))]"
  "filter is_apply_or_persist (trace (machine (store_z_offset s))) =
     filter is_apply_or_persist (trace (machine s)) @
       [ConfigSet (name s) ''calibrated_z_offset'' (calibrated_z_offset s)]"
  by (simp_all add: cmd_AUTO_Z_LOAD_OFFSET_def store_z_offset_def)

lemma cmd_AUTO_Z_CALIBRATE_result:
  "fst (cmd_AUTO_Z_CALIBRATE s) =
     (case fst (calibrate_begin s) of
        Inl e \<Rightarrow> Inl e
      | Inr u \<Rightarrow>
          (case fst (calibrate_finally
                       (snd (measure_loop (offset_samples s) 0 (snd (calibrate_begin s))))) of
             Inl e \<Rightarrow> Inl e
           | Inr u \<Rightarrow>
               (case fst (measure_loop (offset_samples s) 0 (snd (calibrate_begin s))) of
                  Inl e \<Rightarrow> Inl e
                | Inr t \<Rightarrow> if offset_samples s = 0 then Inl ZeroDivisionError else Inr ())))"
  by (simp add: cmd_AUTO_Z_CALIBRATE_def Let_def split_beta split: sum.splits)

lemma cmd_AUTO_Z_CALIBRATE_flags:
  "z_current_helper (snd (cmd_AUTO_Z_CALIBRATE s)) =
     (if fst (calibrate_begin s) = Inr ()
      then z_current_helper
             (snd (calibrate_finally
                     (snd (measure_loop (offset_samples s) 0 (snd (calibrate_begin s))))))
      else z_current_helper s)"
  "endstop (snd (cmd_AUTO_Z_CALIBRATE s)) =
     (if fst (calibrate_begin s) = Inr ()
      then endstop
             (snd (calibrate_finally
                     (snd (measure_loop (offset_samples s) 0 (snd (calibrate_begin s))))))
      else (endstop s)\<lparr>skip_prepare := True\<rparr>)"
  "name (snd (cmd_AUTO_Z_CALIBRATE s)) = name s"
  by (simp_all add: cmd_AUTO_Z_CALIBRATE_def calibrate_begin_result Let_def split_beta
      split: sum.splits)

lemma cmd_AUTO_Z_CALIBRATE_value:
  "calibrated_z_offset (snd (cmd_AUTO_Z_CALIBRATE s)) =
     (case fst (cmd_AUTO_Z_CALIBRATE s) of
        Inl e \<Rightarrow> calibrated_z_offset s
      | Inr u \<Rightarrow>
          - (sum_list (measured_offsets (offset_samples s) (snd (calibrate_begin s))) /
               real (offset_samples s)))"
proof (cases "fst (measure_loop (offset_samples s) 0 (snd (calibrate_begin s)))")
  case (Inl e)
  then show ?thesis
    by (simp add: cmd_AUTO_Z_CALIBRATE_def Let_def split_beta split: sum.splits)
next
  case (Inr t)
  from measure_loop_sum [OF this]
  have "t = sum_list (measured_offsets (offset_samples s) (snd (calibrate_begin s)))" by simp
  with Inr show ?thesis
    by (simp add: cmd_AUTO_Z_CALIBRATE_def Let_def split_beta split: sum.splits)
qed

lemma cmd_AUTO_Z_CALIBRATE_applied:
  "filter is_apply_or_persist (trace (machine (snd (cmd_AUTO_Z_CALIBRATE s)))) =
     filter is_apply_or_persist (trace (machine s)) @
       Script (SET_GCODE_OFFSET 0) #
       (case fst (cmd_AUTO_Z_CALIBRATE s) of
          Inl e \<Rightarrow> []
        | Inr u \<Rightarrow>
            [Script (SET_GCODE_OFFSET (calibrated_z_offset (snd (cmd_AUTO_Z_CALIBRATE s)))),
             ConfigSet (name s) ''calibrated_z_offset''
               (calibrated_z_offset (snd (cmd_AUTO_Z_CALIBRATE s)))])"
  by (simp add: cmd_AUTO_Z_CALIBRATE_def measure_loop_applied Let_def split_beta
      split: sum.splits)

lemma cmd_AUTO_Z_CALIBRATE_last:
  "fst (cmd_AUTO_Z_CALIBRATE s) = Inr () \<Longrightarrow>
     last (filter is_setting (trace (machine (snd (cmd_AUTO_Z_CALIBRATE s))))) =
       ConfigSet (name s) ''calibrated_z_offset''
         (calibrated_z_offset (snd (cmd_AUTO_Z_CALIBRATE s)))"
  by (simp add: cmd_AUTO_Z_CALIBRATE_def Let_def split_beta split: sum.splits if_splits)

lemma cmd_AUTO_Z_CALIBRATE_settings:
  assumes "fst (calibrate_begin s) = Inr ()"
    and "fst (calibrate_finally
                (snd (measure_loop (offset_samples s) 0 (snd (calibrate_begin s))))) = Inr ()"
  shows "filter is_setting (trace (machine (snd (cmd_AUTO_Z_CALIBRATE s)))) =
     filter is_setting (trace (machine s)) @
       [Script (SET_GCODE_OFFSET 0), Script PREPARE_GCODE] @
       (if is_reduced (z_current_helper s) then []
        else map Script (reduce_cmds (z_current_helper s))) @
       map Script (restore_cmds (z_current_helper s)) @
       (case fst (cmd_AUTO_Z_CALIBRATE s) of
          Inl e \<Rightarrow> []
        | Inr u \<Rightarrow>
            [Script (SET_GCODE_OFFSET (calibrated_z_offset (snd (cmd_AUTO_Z_CALIBRATE s)))),
             ConfigSet (name s) ''calibrated_z_offset''
               (calibrated_z_offset (snd (cmd_AUTO_Z_CALIBRATE s)))])"
proof -
  let ?b = "snd (calibrate_begin s)"
  let ?l = "measure_loop (offset_samples s) 0 ?b"
  have held: "is_reduced (z_current_helper ?b)" "hold (z_current_helper ?b)"
    using assms(1) by (simp_all add: calibrate_begin_result)
  note inv = measure_loop_held [OF held, of "offset_samples s" 0]
  have g: "is_reduced (z_current_helper (snd ?l))"
    using inv held by simp
  have t: "filter is_setting (trace (machine (snd ?l))) = filter is_setting (trace (machine ?b))"
    using inv by simp
  have c: "restore_cmds (z_current_helper (snd ?l)) = restore_cmds (z_current_helper s)"
    using inv assms(1) by (simp add: calibrate_begin_result)
  have f: "filter is_setting (trace (machine (snd (calibrate_finally (snd ?l))))) =
      filter is_setting (trace (machine s)) @
        [Script (SET_GCODE_OFFSET 0), Script PREPARE_GCODE] @
        (if is_reduced (z_current_helper s) then []
         else map Script (reduce_cmds (z_current_helper s))) @
        map Script (restore_cmds (z_current_helper s))"
    using g t c by (simp add: calibrate_finally_settings [OF assms(2)]
        calibrate_begin_settings [OF assms(1)])
  show ?thesis
    using assms f
    by (auto simp: cmd_AUTO_Z_CALIBRATE_def Let_def split_beta split: sum.splits)
qed

section \<open>Frame lemmas: the lite module\<close>

lemma get_z_frame [simp]:
  "get_z (run_script_from_command c m) = get_z m"
  "get_z (manual_move cx cy (Some z) speed m) = z"
  by (simp_all add: get_z_def manual_move_def split_beta)

lemma probing_move_frame [simp]:
  "fst (probing_move pos speed m) =
     (case outcomes m (probes_done m) of Inl e \<Rightarrow> Inl e | Inr z \<Rightarrow> Inr ())"
  "trace (snd (probing_move pos speed m)) =
     trace m @ [ProbingMove (fst pos) (fst (snd pos)) (fst (snd (snd pos))) speed]"
  "max_accel (snd (probing_move pos speed m)) = max_accel m"
  "outcomes (snd (probing_move pos speed m)) = outcomes m"
  "refuses (snd (probing_move pos speed m)) = refuses m"
  "probes_done (snd (probing_move pos speed m)) = Suc (probes_done m)"
  "get_z (snd (probing_move pos speed m)) =
     (case outcomes m (probes_done m) of Inl e \<Rightarrow> get_z m | Inr z \<Rightarrow> z)"
  by (simp_all add: probing_move_def next_outcome_def get_z_def split_beta split: sum.splits)

lemma run_probe_gcode_frame [simp]:
  "fst (run_probe_gcode m) =
     (case outcomes m (probes_done m) of Inl e \<Rightarrow> Inl e | Inr z \<Rightarrow> Inr ())"
  "trace (snd (run_probe_gcode m)) = trace m @ [ProbeGcode]"
  "max_accel (snd (run_probe_gcode m)) = max_accel m"
  "outcomes (snd (run_probe_gcode m)) = outcomes m"
  "refuses (snd (run_probe_gcode m)) = refuses m"
  "probes_done (snd (run_probe_gcode m)) = Suc (probes_done m)"
  "get_z (snd (run_probe_gcode m)) =
     (case outcomes m (probes_done m) of Inl e \<Rightarrow> get_z m | Inr z \<Rightarrow> z)"
  by (simp_all add: run_probe_gcode_def next_outcome_def get_z_def split_beta split: sum.splits)

lemma probe_bed_sensor_frame [simp]:
  "lite_name (snd (probe_bed_sensor s)) = lite_name s"
  "lite_z_offset (snd (probe_bed_sensor s)) = lite_z_offset s"
  "lite_probe_hop (snd (probe_bed_sensor s)) = lite_probe_hop s"
  "probe_speed (snd (probe_bed_sensor s)) = probe_speed s"
  "lite_lift_speed (snd (probe_bed_sensor s)) = lite_lift_speed s"
  "lite_probe_accel (snd (probe_bed_sensor s)) = lite_probe_accel s"
  "lite_offset_samples (snd (probe_bed_sensor s)) = lite_offset_samples s"
  "lite_calibrated_z_offset (snd (probe_bed_sensor s)) = lite_calibrated_z_offset s"
  "center_x (snd (probe_bed_sensor s)) = center_x s"
  "center_y (snd (probe_bed_sensor s)) = center_y s"
  "z_min (snd (probe_bed_sensor s)) = z_min s"
  "lite_skip_prepare (snd (probe_bed_sensor s)) = lite_skip_prepare s"
  "z_current (snd (probe_bed_sensor s)) = z_current s"
  "last_bed_z (snd (probe_bed_sensor s)) = last_bed_z s"
  "ind_x_off (snd (probe_bed_sensor s)) = ind_x_off s"
  "ind_y_off (snd (probe_bed_sensor s)) = ind_y_off s"
  "outcomes (lite_machine (snd (probe_bed_sensor s))) = outcomes (lite_machine s)"
  "refuses (lite_machine (snd (probe_bed_sensor s))) = refuses (lite_machine s)"
  "probes_done (lite_machine (snd (probe_bed_sensor s))) = Suc (probes_done (lite_machine s))"
  "max_accel (lite_machine (snd (probe_bed_sensor s))) = max_accel (lite_machine s)"
  by (simp_all add: probe_bed_sensor_def get_max_accel_def Let_def split_beta split: sum.splits)

lemma probe_bed_sensor_result:
  "fst (probe_bed_sensor s) = lite_bed_outcome s"
  by (simp add: probe_bed_sensor_def get_max_accel_def lite_bed_outcome_def Let_def split_beta
      split: sum.splits)

lemma probe_bed_sensor_trace:
  "trace (lite_machine (snd (probe_bed_sensor s))) =
     trace (lite_machine s) @
       (if lite_probe_accel s > 0 then [GetMaxAccel, Script (M204 (lite_probe_accel s))] else []) @
       [ProbingMove (fst (toolhead_position (lite_machine s)))
          (fst (snd (toolhead_position (lite_machine s)))) (z_min s) (probe_speed s)] @
       (if lite_probe_accel s > 0 then [Script (M204 (max_accel (lite_machine s)))] else [])"
  by (simp add: probe_bed_sensor_def get_max_accel_def Let_def split_beta split: sum.splits)


lemma lite_move_to_center_frame [simp]:
  "lite_name (lite_move_to_center s) = lite_name s"
  "lite_z_offset (lite_move_to_center s) = lite_z_offset s"
  "lite_probe_hop (lite_move_to_center s) = lite_probe_hop s"
  "probe_speed (lite_move_to_center s) = probe_speed s"
  "lite_lift_speed (lite_move_to_center s) = lite_lift_speed s"
  "lite_probe_accel (lite_move_to_center s) = lite_probe_accel s"
  "lite_offset_samples (lite_move_to_center s) = lite_offset_samples s"
  "lite_calibrated_z_offset (lite_move_to_center s) = lite_calibrated_z_offset s"
  "center_x (lite_move_to_center s) = center_x s"
  "center_y (lite_move_to_center s) = center_y s"
  "z_min (lite_move_to_center s) = z_min s"
  "lite_skip_prepare (lite_move_to_center s) = lite_skip_prepare s"
  "z_current (lite_move_to_center s) = z_current s"
  "last_bed_z (lite_move_to_center s) = last_bed_z s"
  "ind_x_off (lite_move_to_center s) = ind_x_off s"
  "ind_y_off (lite_move_to_center s) = ind_y_off s"
  "outcomes (lite_machine (lite_move_to_center s)) = outcomes (lite_machine s)"
  "refuses (lite_machine (lite_move_to_center s)) = refuses (lite_machine s)"
  "probes_done (lite_machine (lite_move_to_center s)) = probes_done (lite_machine s)"
  "max_accel (lite_machine (lite_move_to_center s)) = max_accel (lite_machine s)"
  "filter is_setting (trace (lite_machine (lite_move_to_center s))) =
     filter is_setting (trace (lite_machine s))"
  "responses (trace (lite_machine (lite_move_to_center s))) = responses (trace (lite_machine s))"
  "filter is_apply_or_persist (trace (lite_machine (lite_move_to_center s))) =
     filter is_apply_or_persist (trace (lite_machine s))"
  by (simp_all add: lite_move_to_center_def)

lemma lift_frame [simp]:
  "lite_name (lift s) = lite_name s"
  "lite_z_offset (lift s) = lite_z_offset s"
  "lite_probe_hop (lift s) = lite_probe_hop s"
  "probe_speed (lift s) = probe_speed s"
  "lite_lift_speed (lift s) = lite_lift_speed s"
  "lite_probe_accel (lift s) = lite_probe_accel s"
  "lite_offset_samples (lift s) = lite_offset_samples s"
  "lite_calibrated_z_offset (lift s) = lite_calibrated_z_offset s"
  "center_x (lift s) = center_x s"
  "center_y (lift s) = center_y s"
  "z_min (lift s) = z_min s"
  "lite_skip_prepare (lift s) = lite_skip_prepare s"
  "z_current (lift s) = z_current s"
  "last_bed_z (lift s) = last_bed_z s"
  "ind_x_off (lift s) = ind_x_off s"
  "ind_y_off (lift s) = ind_y_off s"
  "outcomes (lite_machine (lift s)) = outcomes (lite_machine s)"
  "refuses (lite_machine (lift s)) = refuses (lite_machine s)"
  "probes_done (lite_machine (lift s)) = probes_done (lite_machine s)"
  "max_accel (lite_machine (lift s)) = max_accel (lite_machine s)"
  "filter is_setting (trace (lite_machine (lift s))) = filter is_setting (trace (lite_machine s))"
  "responses (trace (lite_machine (lift s))) = responses (trace (lite_machine s))"
  by (simp_all add: lift_def)

lemma lite_bed_outcome_center [simp]: "lite_bed_outcome (lite_move_to_center s) = lite_bed_outcome s"
  by (simp add: lite_bed_outcome_def)

lemma cmd_probe_frame [simp]:
  "lite_name (snd (cmd_probe s)) = lite_name s"
  "lite_z_offset (snd (cmd_probe s)) = lite_z_offset s"
  "lite_probe_hop (snd (cmd_probe s)) = lite_probe_hop s"
  "probe_speed (snd (cmd_probe s)) = probe_speed s"
  "lite_lift_speed (snd (cmd_probe s)) = lite_lift_speed s"
  "lite_probe_accel (snd (cmd_probe s)) = lite_probe_accel s"
  "lite_offset_samples (snd (cmd_probe s)) = lite_offset_samples s"
  "lite_calibrated_z_offset (snd (cmd_probe s)) = lite_calibrated_z_offset s"
  "center_x (snd (cmd_probe s)) = center_x s"
  "center_y (snd (cmd_probe s)) = center_y s"
  "z_min (snd (cmd_probe s)) = z_min s"
  "lite_skip_prepare (snd (cmd_probe s)) = lite_skip_prepare s"
  "ind_x_off (snd (cmd_probe s)) = ind_x_off s"
  "ind_y_off (snd (cmd_probe s)) = ind_y_off s"
  "outcomes (lite_machine (snd (cmd_probe s))) = outcomes (lite_machine s)"
  "refuses (lite_machine (snd (cmd_probe s))) = refuses (lite_machine s)"
  "probes_done (lite_machine (snd (cmd_probe s))) = Suc (probes_done (lite_machine s))"
  "z_current (snd (cmd_probe s)) = (z_current s)\<lparr>is_reduced := hold (z_current s)\<rparr>"
  by (simp_all add: cmd_probe_def Let_def split_beta split: sum.splits)

lemma cmd_probe_result:
  "fst (cmd_probe s) = (case lite_bed_outcome s of Inl e \<Rightarrow> Inl e | Inr z \<Rightarrow> Inr ())"
  "last_bed_z (snd (cmd_probe s)) =
     (case lite_bed_outcome s of Inl e \<Rightarrow> last_bed_z s | Inr z \<Rightarrow> z)"
  by (simp_all add: cmd_probe_def probe_bed_sensor_result Let_def split_beta lite_bed_outcome_def
      split: sum.splits)

lemma cmd_probe_trace:
  "filter is_setting (trace (lite_machine (snd (cmd_probe s)))) =
     filter is_setting (trace (lite_machine s)) @
       (if lite_skip_prepare s then [] else [Script PREPARE_GCODE]) @
       (if is_reduced (z_current s) then [] else map Script (reduce_cmds (z_current s))) @
       (if hold (z_current s) then [] else map Script (restore_cmds (z_current s)))"
  "responses (trace (lite_machine (snd (cmd_probe s)))) =
     responses (trace (lite_machine s)) @
       (case lite_bed_outcome s of
          Inl e \<Rightarrow> []
        | Inr z \<Rightarrow> [BedSensorTriggerZ (lite_name s) z])"
  by (simp_all add: cmd_probe_def probe_bed_sensor_result probe_bed_sensor_trace Let_def split_beta
      lite_bed_outcome_def split: sum.splits)

lemma probe_inductive_frame [simp]:
  "lite_name (snd (probe_inductive s)) = lite_name s"
  "lite_z_offset (snd (probe_inductive s)) = lite_z_offset s"
  "lite_probe_hop (snd (probe_inductive s)) = lite_probe_hop s"
  "probe_speed (snd (probe_inductive s)) = probe_speed s"
  "lite_lift_speed (snd (probe_inductive s)) = lite_lift_speed s"
  "lite_probe_accel (snd (probe_inductive s)) = lite_probe_accel s"
  "lite_offset_samples (snd (probe_inductive s)) = lite_offset_samples s"
  "lite_calibrated_z_offset (snd (probe_inductive s)) = lite_calibrated_z_offset s"
  "center_x (snd (probe_inductive s)) = center_x s"
  "center_y (snd (probe_inductive s)) = center_y s"
  "z_min (snd (probe_inductive s)) = z_min s"
  "lite_skip_prepare (snd (probe_inductive s)) = lite_skip_prepare s"
  "z_current (snd (probe_inductive s)) = z_current s"
  "last_bed_z (snd (probe_inductive s)) = last_bed_z s"
  "ind_x_off (snd (probe_inductive s)) = ind_x_off s"
  "ind_y_off (snd (probe_inductive s)) = ind_y_off s"
  "outcomes (lite_machine (snd (probe_inductive s))) = outcomes (lite_machine s)"
  "refuses (lite_machine (snd (probe_inductive s))) = refuses (lite_machine s)"
  "probes_done (lite_machine (snd (probe_inductive s))) = Suc (probes_done (lite_machine s))"
  "trace (lite_machine (snd (probe_inductive s))) = trace (lite_machine s) @ [ProbeGcode]"
  "fst (probe_inductive s) = lite_bed_outcome s"
  by (simp_all add: probe_inductive_def lite_bed_outcome_def split_beta split: sum.splits)

lemma cmd_measure_offset_frame [simp]:
  "lite_name (snd (cmd_measure_offset s)) = lite_name s"
  "lite_z_offset (snd (cmd_measure_offset s)) = lite_z_offset s"
  "lite_probe_hop (snd (cmd_measure_offset s)) = lite_probe_hop s"
  "probe_speed (snd (cmd_measure_offset s)) = probe_speed s"
  "lite_lift_speed (snd (cmd_measure_offset s)) = lite_lift_speed s"
  "lite_probe_accel (snd (cmd_measure_offset s)) = lite_probe_accel s"
  "lite_offset_samples (snd (cmd_measure_offset s)) = lite_offset_samples s"
  "lite_calibrated_z_offset (snd (cmd_measure_offset s)) = lite_calibrated_z_offset s"
  "center_x (snd (cmd_measure_offset s)) = center_x s"
  "center_y (snd (cmd_measure_offset s)) = center_y s"
  "z_min (snd (cmd_measure_offset s)) = z_min s"
  "lite_skip_prepare (snd (cmd_measure_offset s)) = lite_skip_prepare s"
  "ind_x_off (snd (cmd_measure_offset s)) = ind_x_off s"
  "ind_y_off (snd (cmd_measure_offset s)) = ind_y_off s"
  "outcomes (lite_machine (snd (cmd_measure_offset s))) = outcomes (lite_machine s)"
  "refuses (lite_machine (snd (cmd_measure_offset s))) = refuses (lite_machine s)"
  "z_current (snd (cmd_measure_offset s)) = (z_current s)\<lparr>is_reduced := hold (z_current s)\<rparr>"
  by (simp_all add: cmd_measure_offset_def cmd_probe_result Let_def split_beta split: sum.splits)

lemma cmd_measure_offset_result:
  "fst (cmd_measure_offset s) =
     (case lite_bed_outcome s of
        Inl e \<Rightarrow> Inl e
      | Inr bed_z \<Rightarrow>
          (case lite_ind_outcome s of
             Inl e \<Rightarrow> Inl e
           | Inr inductive_z \<Rightarrow> Inr (bed_z - inductive_z)))"
  by (simp add: cmd_measure_offset_def cmd_probe_result Let_def split_beta
      lite_ind_outcome_def lite_bed_outcome_def split: sum.splits)

lemma cmd_measure_offset_probes_done:
  "probes_done (lite_machine (snd (cmd_measure_offset s))) =
     (case lite_bed_outcome s of
        Inl e \<Rightarrow> Suc (probes_done (lite_machine s))
      | Inr z \<Rightarrow> Suc (Suc (probes_done (lite_machine s))))"
  by (simp add: cmd_measure_offset_def cmd_probe_result Let_def split_beta
      lite_bed_outcome_def split: sum.splits)

lemma cmd_measure_offset_trace:
  "filter is_setting (trace (lite_machine (snd (cmd_measure_offset s)))) =
     filter is_setting (trace (lite_machine s)) @
       (if lite_skip_prepare s then [] else [Script PREPARE_GCODE]) @
       (if is_reduced (z_current s) then [] else map Script (reduce_cmds (z_current s))) @
       (if hold (z_current s) then [] else map Script (restore_cmds (z_current s)))"
  by (simp add: cmd_measure_offset_def cmd_probe_trace Let_def split_beta split: sum.splits)

lemma cmd_measure_offset_responses:
  "responses (trace (lite_machine (snd (cmd_measure_offset s)))) =
     responses (trace (lite_machine s)) @
       (case lite_bed_outcome s of
          Inl e \<Rightarrow> []
        | Inr bed_z \<Rightarrow>
            BedSensorTriggerZ (lite_name s) bed_z #
            (case lite_ind_outcome s of
               Inl e \<Rightarrow> []
             | Inr inductive_z \<Rightarrow>
                 [TrueNozzleOffset (lite_name s) (bed_z - inductive_z) bed_z inductive_z]))"
  by (simp add: cmd_measure_offset_def cmd_probe_trace cmd_probe_result
      Let_def split_beta lite_ind_outcome_def lite_bed_outcome_def split: sum.splits)


lemma lite_calibrate_begin_frame [simp]:
  "lite_name (snd (lite_calibrate_begin s)) = lite_name s"
  "lite_z_offset (snd (lite_calibrate_begin s)) = lite_z_offset s"
  "lite_probe_hop (snd (lite_calibrate_begin s)) = lite_probe_hop s"
  "probe_speed (snd (lite_calibrate_begin s)) = probe_speed s"
  "lite_lift_speed (snd (lite_calibrate_begin s)) = lite_lift_speed s"
  "lite_probe_accel (snd (lite_calibrate_begin s)) = lite_probe_accel s"
  "lite_offset_samples (snd (lite_calibrate_begin s)) = lite_offset_samples s"
  "lite_calibrated_z_offset (snd (lite_calibrate_begin s)) = lite_calibrated_z_offset s"
  "center_x (snd (lite_calibrate_begin s)) = center_x s"
  "center_y (snd (lite_calibrate_begin s)) = center_y s"
  "z_min (snd (lite_calibrate_begin s)) = z_min s"
  "last_bed_z (snd (lite_calibrate_begin s)) = last_bed_z s"
  "ind_x_off (snd (lite_calibrate_begin s)) = ind_x_off s"
  "ind_y_off (snd (lite_calibrate_begin s)) = ind_y_off s"
  "lite_skip_prepare (snd (lite_calibrate_begin s)) = True"
  "outcomes (lite_machine (snd (lite_calibrate_begin s))) = outcomes (lite_machine s)"
  "refuses (lite_machine (snd (lite_calibrate_begin s))) = refuses (lite_machine s)"
  "probes_done (lite_machine (snd (lite_calibrate_begin s))) = probes_done (lite_machine s)"
  "filter is_apply_or_persist (trace (lite_machine (snd (lite_calibrate_begin s)))) =
     filter is_apply_or_persist (trace (lite_machine s)) @ [Script (SET_GCODE_OFFSET 0)]"
  by (simp_all add: lite_calibrate_begin_def Let_def split_beta split: sum.splits)

lemma lite_calibrate_begin_result:
  "fst (lite_calibrate_begin s) =
     fst (reduce_or_raise (z_current s)
            (run_script_from_command PREPARE_GCODE
               (run_script_from_command (SET_GCODE_OFFSET 0) (lite_machine s))))"
  "z_current (snd (lite_calibrate_begin s)) =
     (if fst (lite_calibrate_begin s) = Inr ()
      then (z_current s)\<lparr>is_reduced := True, hold := True\<rparr>
      else z_current s)"
  by (simp_all add: lite_calibrate_begin_def reduce_or_raise_result Let_def split_beta
      split: sum.splits)

lemma lite_calibrate_begin_settings:
  "fst (lite_calibrate_begin s) = Inr () \<Longrightarrow>
     filter is_setting (trace (lite_machine (snd (lite_calibrate_begin s)))) =
       filter is_setting (trace (lite_machine s)) @
         [Script (SET_GCODE_OFFSET 0), Script PREPARE_GCODE] @
         (if is_reduced (z_current s) then [] else map Script (reduce_cmds (z_current s)))"
  by (simp add: lite_calibrate_begin_def reduce_or_raise_result run_driver_commands_returns
      Let_def split_beta split: sum.splits if_splits)

lemma lite_measure_loop_Suc:
  "lite_measure_loop (Suc n) acc s =
     (case fst (cmd_measure_offset s) of
        Inl e \<Rightarrow> (Inl e, snd (cmd_measure_offset s))
      | Inr r \<Rightarrow> lite_measure_loop n (acc + r) (snd (cmd_measure_offset s)))"
  by (simp add: split_beta split: sum.splits)

lemma lite_measure_loop_frame [simp]:
  "lite_name (snd (lite_measure_loop n acc s)) = lite_name s"
  "lite_probe_hop (snd (lite_measure_loop n acc s)) = lite_probe_hop s"
  "center_x (snd (lite_measure_loop n acc s)) = center_x s"
  "center_y (snd (lite_measure_loop n acc s)) = center_y s"
  "lite_offset_samples (snd (lite_measure_loop n acc s)) = lite_offset_samples s"
  "lite_calibrated_z_offset (snd (lite_measure_loop n acc s)) = lite_calibrated_z_offset s"
  "lite_skip_prepare (snd (lite_measure_loop n acc s)) = lite_skip_prepare s"
  "outcomes (lite_machine (snd (lite_measure_loop n acc s))) = outcomes (lite_machine s)"
  "refuses (lite_machine (snd (lite_measure_loop n acc s))) = refuses (lite_machine s)"
  by (induction n arbitrary: acc s;
      simp add: lite_measure_loop_Suc del: lite_measure_loop.simps(2) split: sum.splits)+

lemma lite_measure_loop_held:
  "is_reduced (z_current s) \<Longrightarrow> hold (z_current s) \<Longrightarrow> lite_skip_prepare s \<Longrightarrow>
     z_current (snd (lite_measure_loop n acc s)) = z_current s \<and>
     filter is_setting (trace (lite_machine (snd (lite_measure_loop n acc s)))) =
       filter is_setting (trace (lite_machine s))"
proof (induction n arbitrary: acc s)
  case 0
  then show ?case by simp
next
  case (Suc n)
  let ?s1 = "snd (cmd_measure_offset s)"
  have h1: "z_current ?s1 = z_current s"
    using Suc.prems by simp
  have t1: "filter is_setting (trace (lite_machine ?s1)) = filter is_setting (trace (lite_machine s))"
    using Suc.prems by (simp add: cmd_measure_offset_trace)
  show ?case
  proof (cases "fst (cmd_measure_offset s)")
    case (Inl e)
    then show ?thesis using h1 t1
      by (simp add: lite_measure_loop_Suc del: lite_measure_loop.simps(2))
  next
    case (Inr r)
    have "is_reduced (z_current ?s1)" "hold (z_current ?s1)" "lite_skip_prepare ?s1"
      using Suc.prems h1 by simp_all
    from Suc.IH [OF this, of "acc + r"] show ?thesis
      using Inr h1 t1 by (simp add: lite_measure_loop_Suc del: lite_measure_loop.simps(2))
  qed
qed

lemma cmd_measure_offset_applied:
  "filter is_apply_or_persist (trace (lite_machine (snd (cmd_measure_offset s)))) =
     filter is_apply_or_persist (trace (lite_machine s))"
proof -
  have "filter is_apply_or_persist
          (filter is_setting (trace (lite_machine (snd (cmd_measure_offset s))))) =
        filter is_apply_or_persist (filter is_setting (trace (lite_machine s)))"
    by (simp add: cmd_measure_offset_trace)
  then show ?thesis
    by (simp add: setting_and_apply)
qed

lemma lite_measure_loop_applied:
  "filter is_apply_or_persist (trace (lite_machine (snd (lite_measure_loop n acc s)))) =
     filter is_apply_or_persist (trace (lite_machine s))"
  by (induction n arbitrary: acc s)
    (simp_all add: lite_measure_loop_Suc cmd_measure_offset_applied
      del: lite_measure_loop.simps(2) split: sum.splits)

lemma lite_measure_loop_sum:
  "fst (lite_measure_loop n acc s) = Inr t \<Longrightarrow>
     t = acc + sum_list (lite_measured_offsets n s) \<and> length (lite_measured_offsets n s) = n"
proof (induction n arbitrary: acc s)
  case 0
  then show ?case by simp
next
  case (Suc n)
  obtain r s1 where m: "cmd_measure_offset s = (r, s1)"
    by (cases "cmd_measure_offset s")
  show ?case
  proof (cases r)
    case (Inl e)
    with Suc.prems m show ?thesis by simp
  next
    case (Inr v)
    with Suc.prems m have "fst (lite_measure_loop n (acc + v) s1) = Inr t" by simp
    from Suc.IH [OF this] show ?thesis using m Inr by simp
  qed
qed

lemma lite_calibrate_finally_frame [simp]:
  "lite_name (snd (lite_calibrate_finally s)) = lite_name s"
  "lite_probe_hop (snd (lite_calibrate_finally s)) = lite_probe_hop s"
  "center_x (snd (lite_calibrate_finally s)) = center_x s"
  "center_y (snd (lite_calibrate_finally s)) = center_y s"
  "lite_offset_samples (snd (lite_calibrate_finally s)) = lite_offset_samples s"
  "lite_calibrated_z_offset (snd (lite_calibrate_finally s)) = lite_calibrated_z_offset s"
  "filter is_apply_or_persist (trace (lite_machine (snd (lite_calibrate_finally s)))) =
     filter is_apply_or_persist (trace (lite_machine s))"
  by (simp_all add: lite_calibrate_finally_def split_beta split: sum.splits)

lemma lite_calibrate_finally_result:
  "fst (lite_calibrate_finally s) =
     fst (restore_or_raise ((z_current s)\<lparr>hold := False\<rparr>) (lite_machine s))"
  "z_current (snd (lite_calibrate_finally s)) =
     (if fst (lite_calibrate_finally s) = Inr ()
      then (z_current s)\<lparr>is_reduced := False, hold := False\<rparr>
      else (z_current s)\<lparr>hold := False\<rparr>)"
  "lite_skip_prepare (snd (lite_calibrate_finally s)) =
     (if fst (lite_calibrate_finally s) = Inr () then False else lite_skip_prepare s)"
  by (simp_all add: lite_calibrate_finally_def restore_or_raise_result split_beta
      split: sum.splits)

lemma lite_calibrate_finally_settings:
  "fst (lite_calibrate_finally s) = Inr () \<Longrightarrow>
     filter is_setting (trace (lite_machine (snd (lite_calibrate_finally s)))) =
       filter is_setting (trace (lite_machine s)) @
         (if is_reduced (z_current s) then map Script (restore_cmds (z_current s)) else [])"
  by (simp add: lite_calibrate_finally_def restore_or_raise_result run_driver_commands_returns
      split_beta split: sum.splits if_splits)

lemma lite_load_store_frame [simp]:
  "lite_name (cmd_load_offset s) = lite_name s"
  "lite_calibrated_z_offset (cmd_load_offset s) = lite_calibrated_z_offset s"
  "z_current (cmd_load_offset s) = z_current s"
  "lite_skip_prepare (cmd_load_offset s) = lite_skip_prepare s"
  "lite_name (store s) = lite_name s"
  "lite_calibrated_z_offset (store s) = lite_calibrated_z_offset s"
  "z_current (store s) = z_current s"
  "lite_skip_prepare (store s) = lite_skip_prepare s"
  "filter is_setting (trace (lite_machine (cmd_load_offset s))) =
     filter is_setting (trace (lite_machine s)) @
       [Script (SET_GCODE_OFFSET (lite_calibrated_z_offset s))]"
  "filter is_setting (trace (lite_machine (store s))) =
     filter is_setting (trace (lite_machine s)) @
       [ConfigSet (lite_name s) ''calibrated_z_offset'' (lite_calibrated_z_offset s)]"
  "filter is_apply_or_persist (trace (lite_machine (cmd_load_offset s))) =
     filter is_apply_or_persist (trace (lite_machine s)) @
       [Script (SET_GCODE_OFFSET (lite_calibrated_z_offset s))]"
  "filter is_apply_or_persist (trace (lite_machine (store s))) =
     filter is_apply_or_persist (trace (lite_machine s)) @
       [ConfigSet (lite_name s) ''calibrated_z_offset'' (lite_calibrated_z_offset s)]"
  by (simp_all add: cmd_load_offset_def store_def)

lemma cmd_calibrate_result:
  "fst (cmd_calibrate s) =
     (case fst (lite_calibrate_begin s) of
        Inl e \<Rightarrow> Inl e
      | Inr u \<Rightarrow>
          (case fst (lite_calibrate_finally
                       (snd (lite_measure_loop (lite_offset_samples s) 0
                               (snd (lite_calibrate_begin s))))) of
             Inl e \<Rightarrow> Inl e
           | Inr u \<Rightarrow>
               (case fst (lite_measure_loop (lite_offset_samples s) 0
                            (snd (lite_calibrate_begin s))) of
                  Inl e \<Rightarrow> Inl e
                | Inr t \<Rightarrow>
                    if lite_offset_samples s = 0 then Inl ZeroDivisionError else Inr ())))"
  by (simp add: cmd_calibrate_def Let_def split_beta split: sum.splits)

lemma cmd_calibrate_flags:
  "z_current (snd (cmd_calibrate s)) =
     (if fst (lite_calibrate_begin s) = Inr ()
      then z_current
             (snd (lite_calibrate_finally
                     (snd (lite_measure_loop (lite_offset_samples s) 0
                             (snd (lite_calibrate_begin s))))))
      else z_current s)"
  "lite_skip_prepare (snd (cmd_calibrate s)) =
     (if fst (lite_calibrate_begin s) = Inr ()
      then lite_skip_prepare
             (snd (lite_calibrate_finally
                     (snd (lite_measure_loop (lite_offset_samples s) 0
                             (snd (lite_calibrate_begin s))))))
      else True)"
  "lite_name (snd (cmd_calibrate s)) = lite_name s"
  by (simp_all add: cmd_calibrate_def lite_calibrate_begin_result Let_def split_beta
      split: sum.splits)

lemma cmd_calibrate_value:
  "lite_calibrated_z_offset (snd (cmd_calibrate s)) =
     (case fst (cmd_calibrate s) of
        Inl e \<Rightarrow> lite_calibrated_z_offset s
      | Inr u \<Rightarrow>
          - (sum_list (lite_measured_offsets (lite_offset_samples s)
                         (snd (lite_calibrate_begin s))) /
               real (lite_offset_samples s)))"
proof (cases "fst (lite_measure_loop (lite_offset_samples s) 0 (snd (lite_calibrate_begin s)))")
  case (Inl e)
  then show ?thesis
    by (simp add: cmd_calibrate_def Let_def split_beta split: sum.splits)
next
  case (Inr t)
  from lite_measure_loop_sum [OF this]
  have "t = sum_list (lite_measured_offsets (lite_offset_samples s)
                        (snd (lite_calibrate_begin s)))"
    by simp
  with Inr show ?thesis
    by (simp add: cmd_calibrate_def Let_def split_beta split: sum.splits)
qed

lemma cmd_calibrate_applied:
  "filter is_apply_or_persist (trace (lite_machine (snd (cmd_calibrate s)))) =
     filter is_apply_or_persist (trace (lite_machine s)) @
       Script (SET_GCODE_OFFSET 0) #
       (case fst (cmd_calibrate s) of
          Inl e \<Rightarrow> []
        | Inr u \<Rightarrow>
            [Script (SET_GCODE_OFFSET (lite_calibrated_z_offset (snd (cmd_calibrate s)))),
             ConfigSet (lite_name s) ''calibrated_z_offset''
               (lite_calibrated_z_offset (snd (cmd_calibrate s)))])"
  by (simp add: cmd_calibrate_def lite_measure_loop_applied Let_def split_beta
      split: sum.splits)

lemma cmd_calibrate_last:
  "fst (cmd_calibrate s) = Inr () \<Longrightarrow>
     last (filter is_setting (trace (lite_machine (snd (cmd_calibrate s))))) =
       ConfigSet (lite_name s) ''calibrated_z_offset''
         (lite_calibrated_z_offset (snd (cmd_calibrate s)))"
  by (simp add: cmd_calibrate_def Let_def split_beta split: sum.splits if_splits)

lemma cmd_calibrate_settings:
  assumes "fst (lite_calibrate_begin s) = Inr ()"
    and "fst (lite_calibrate_finally
                (snd (lite_measure_loop (lite_offset_samples s) 0
                        (snd (lite_calibrate_begin s))))) = Inr ()"
  shows "filter is_setting (trace (lite_machine (snd (cmd_calibrate s)))) =
     filter is_setting (trace (lite_machine s)) @
       [Script (SET_GCODE_OFFSET 0), Script PREPARE_GCODE] @
       (if is_reduced (z_current s) then [] else map Script (reduce_cmds (z_current s))) @
       map Script (restore_cmds (z_current s)) @
       (case fst (cmd_calibrate s) of
          Inl e \<Rightarrow> []
        | Inr u \<Rightarrow>
            [Script (SET_GCODE_OFFSET (lite_calibrated_z_offset (snd (cmd_calibrate s)))),
             ConfigSet (lite_name s) ''calibrated_z_offset''
               (lite_calibrated_z_offset (snd (cmd_calibrate s)))])"
proof -
  let ?b = "snd (lite_calibrate_begin s)"
  let ?l = "lite_measure_loop (lite_offset_samples s) 0 ?b"
  have held: "is_reduced (z_current ?b)" "hold (z_current ?b)" "lite_skip_prepare ?b"
    using assms(1) by (simp_all add: lite_calibrate_begin_result)
  note inv = lite_measure_loop_held [OF held, of "lite_offset_samples s" 0]
  have g: "is_reduced (z_current (snd ?l))"
    using inv held by simp
  have t: "filter is_setting (trace (lite_machine (snd ?l))) =
           filter is_setting (trace (lite_machine ?b))"
    using inv by simp
  have c: "restore_cmds (z_current (snd ?l)) = restore_cmds (z_current s)"
    using inv assms(1) by (simp add: lite_calibrate_begin_result)
  have f: "filter is_setting (trace (lite_machine (snd (lite_calibrate_finally (snd ?l))))) =
      filter is_setting (trace (lite_machine s)) @
        [Script (SET_GCODE_OFFSET 0), Script PREPARE_GCODE] @
        (if is_reduced (z_current s) then [] else map Script (reduce_cmds (z_current s))) @
        map Script (restore_cmds (z_current s))"
    using g t c by (simp add: lite_calibrate_finally_settings [OF assms(2)]
        lite_calibrate_begin_settings [OF assms(1)])
  show ?thesis
    using assms f
    by (auto simp: cmd_calibrate_def Let_def split_beta split: sum.splits)
qed

section \<open>The calibration command\<close>

lemma measured_offsets_Suc:
  "measured_offsets (Suc n) s =
     (case fst (cmd_AUTO_Z_MEASURE_OFFSET s) of
        Inl e \<Rightarrow> []
      | Inr r \<Rightarrow> r # measured_offsets n (snd (cmd_AUTO_Z_MEASURE_OFFSET s)))"
  by (simp add: split_beta split: sum.splits)

lemma lite_measured_offsets_Suc:
  "lite_measured_offsets (Suc n) s =
     (case fst (cmd_measure_offset s) of
        Inl e \<Rightarrow> []
      | Inr r \<Rightarrow> r # lite_measured_offsets n (snd (cmd_measure_offset s)))"
  by (simp add: split_beta split: sum.splits)

lemma example_fields [simp]:
  "name (full_example rs) = ''auto_z_offset''"
  "z_offset (full_example rs) = 0.2"
  "z_current_helper (full_example rs) = helper0"
  "calibrated_z_offset (full_example rs) = - 0.05"
  "offset_samples (full_example rs) = 3"
  "probe_accel (endstop (full_example rs)) = 0"
  "trace (machine (full_example rs)) = []"
  "max_accel (machine (full_example rs)) = 3000"
  "outcomes (machine (full_example rs)) = scripted rs"
  "refuses (machine (full_example rs)) = (\<lambda>calls c. False)"
  "probes_done (machine (full_example rs)) = 0"
  "lite_name (lite_example ls) = ''auto_z_offset''"
  "z_current (lite_example ls) = helper0"
  "lite_calibrated_z_offset (lite_example ls) = - 0.05"
  "lite_offset_samples (lite_example ls) = 3"
  "lite_probe_accel (lite_example ls) = 500"
  "z_min (lite_example ls) = - 2"
  "probe_speed (lite_example ls) = 5"
  "trace (lite_machine (lite_example ls)) = []"
  "toolhead_position (lite_machine (lite_example ls)) = (0, 0, 10, 0)"
  "max_accel (lite_machine (lite_example ls)) = 3000"
  "outcomes (lite_machine (lite_example ls)) = scripted ls"
  "refuses (lite_machine (lite_example ls)) = (\<lambda>calls c. False)"
  "probes_done (lite_machine (lite_example ls)) = 0"
  by (simp_all add: full_example_def lite_example_def)

lemma refusing_fields [simp]:
  "name (full_refusing v rs) = ''auto_z_offset''"
  "z_offset (full_refusing v rs) = 0.2"
  "z_current_helper (full_refusing v rs) = helper0"
  "calibrated_z_offset (full_refusing v rs) = - 0.05"
  "offset_samples (full_refusing v rs) = 3"
  "skip_prepare (endstop (full_refusing v rs)) = False"
  "trace (machine (full_refusing v rs)) = []"
  "outcomes (machine (full_refusing v rs)) = scripted rs"
  "refuses (machine (full_refusing v rs)) = refuses_current v"
  "probes_done (machine (full_refusing v rs)) = 0"
  "lite_name (lite_refusing v ls) = ''auto_z_offset''"
  "z_current (lite_refusing v ls) = helper0"
  "lite_calibrated_z_offset (lite_refusing v ls) = - 0.05"
  "lite_offset_samples (lite_refusing v ls) = 3"
  "lite_skip_prepare (lite_refusing v ls) = False"
  "trace (lite_machine (lite_refusing v ls)) = []"
  "outcomes (lite_machine (lite_refusing v ls)) = scripted ls"
  "refuses (lite_machine (lite_refusing v ls)) = refuses_current v"
  "probes_done (lite_machine (lite_refusing v ls)) = 0"
  by (simp_all add: full_refusing_def lite_refusing_def full_example_def lite_example_def)

lemma calibrate_accepted:
  assumes "\<And>calls c. \<not> refuses (machine s) calls c"
  shows "fst (calibrate_begin s) = Inr ()"
    and "fst (calibrate_finally (snd (measure_loop n acc (snd (calibrate_begin s))))) = Inr ()"
  using assms
  by (simp_all add: calibrate_begin_result calibrate_finally_result reduce_or_raise_accepted
      restore_or_raise_accepted run_prepare_gcode_def)

lemma lite_calibrate_accepted:
  assumes "\<And>calls c. \<not> refuses (lite_machine s) calls c"
  shows "fst (lite_calibrate_begin s) = Inr ()"
    and "fst (lite_calibrate_finally
               (snd (lite_measure_loop n acc (snd (lite_calibrate_begin s))))) = Inr ()"
  using assms
  by (simp_all add: lite_calibrate_begin_result lite_calibrate_finally_result
      reduce_or_raise_accepted restore_or_raise_accepted)

text \<open>
  C1. Whenever the calibration command returns normally, \<open>offset_samples\<close> is at
  least 1, every one of the \<open>offset_samples\<close> runs returned its true offset, and the
  stored \<open>calibrated_z_offset\<close> is the negated quotient of the sum of these
  offsets by \<open>offset_samples\<close>; the value written to the configuration is this
  stored value. This holds for the full module (state \<open>s\<close>) and for the lite module
  (state \<open>t\<close>). With three runs measuring 0.10, 0.12 and 0.11 the stored value is
  -0.11.
\<close>

theorem calibrate_average:
  "(fst (cmd_AUTO_Z_CALIBRATE s) = Inr () \<longrightarrow>
      1 \<le> offset_samples s \<and>
      length (measured_offsets (offset_samples s) (snd (calibrate_begin s))) = offset_samples s \<and>
      calibrated_z_offset (snd (cmd_AUTO_Z_CALIBRATE s)) =
        - (sum_list (measured_offsets (offset_samples s) (snd (calibrate_begin s))) /
             real (offset_samples s)) \<and>
      last (filter is_setting (trace (machine (snd (cmd_AUTO_Z_CALIBRATE s))))) =
        ConfigSet (name s) ''calibrated_z_offset''
          (calibrated_z_offset (snd (cmd_AUTO_Z_CALIBRATE s)))) \<and>
   (fst (cmd_calibrate t) = Inr () \<longrightarrow>
      1 \<le> lite_offset_samples t \<and>
      length (lite_measured_offsets (lite_offset_samples t) (snd (lite_calibrate_begin t))) =
        lite_offset_samples t \<and>
      lite_calibrated_z_offset (snd (cmd_calibrate t)) =
        - (sum_list (lite_measured_offsets (lite_offset_samples t)
                       (snd (lite_calibrate_begin t))) /
             real (lite_offset_samples t)) \<and>
      last (filter is_setting (trace (lite_machine (snd (cmd_calibrate t))))) =
        ConfigSet (lite_name t) ''calibrated_z_offset''
          (lite_calibrated_z_offset (snd (cmd_calibrate t))))"
proof (intro conjI impI)
  assume ok: "fst (cmd_AUTO_Z_CALIBRATE s) = Inr ()"
  then obtain v where
    loop: "fst (measure_loop (offset_samples s) 0 (snd (calibrate_begin s))) = Inr v"
    by (auto simp: cmd_AUTO_Z_CALIBRATE_result split: sum.splits)
  from ok show "1 \<le> offset_samples s"
    by (auto simp: cmd_AUTO_Z_CALIBRATE_result split: sum.splits if_splits)
  from measure_loop_sum [OF loop]
  show "length (measured_offsets (offset_samples s) (snd (calibrate_begin s))) =
        offset_samples s"
    by simp
  from ok show "calibrated_z_offset (snd (cmd_AUTO_Z_CALIBRATE s)) =
        - (sum_list (measured_offsets (offset_samples s) (snd (calibrate_begin s))) /
             real (offset_samples s))"
    by (simp add: cmd_AUTO_Z_CALIBRATE_value)
  from ok show "last (filter is_setting (trace (machine (snd (cmd_AUTO_Z_CALIBRATE s))))) =
        ConfigSet (name s) ''calibrated_z_offset''
          (calibrated_z_offset (snd (cmd_AUTO_Z_CALIBRATE s)))"
    by (rule cmd_AUTO_Z_CALIBRATE_last)
next
  assume ok: "fst (cmd_calibrate t) = Inr ()"
  then obtain v where
    loop: "fst (lite_measure_loop (lite_offset_samples t) 0 (snd (lite_calibrate_begin t))) =
           Inr v"
    by (auto simp: cmd_calibrate_result split: sum.splits)
  from ok show "1 \<le> lite_offset_samples t"
    by (auto simp: cmd_calibrate_result split: sum.splits if_splits)
  from lite_measure_loop_sum [OF loop]
  show "length (lite_measured_offsets (lite_offset_samples t) (snd (lite_calibrate_begin t))) =
        lite_offset_samples t"
    by simp
  from ok show "lite_calibrated_z_offset (snd (cmd_calibrate t)) =
        - (sum_list (lite_measured_offsets (lite_offset_samples t)
                       (snd (lite_calibrate_begin t))) /
             real (lite_offset_samples t))"
    by (simp add: cmd_calibrate_value)
  from ok show "last (filter is_setting (trace (lite_machine (snd (cmd_calibrate t))))) =
        ConfigSet (lite_name t) ''calibrated_z_offset''
          (lite_calibrated_z_offset (snd (cmd_calibrate t)))"
    by (rule cmd_calibrate_last)
qed

lemma full_three_runs_offsets:
  "measured_offsets 3 (snd (calibrate_begin (full_example three_runs))) = [0.10, 0.12, 0.11]"
  "measured_offsets 3 (snd (calibrate_begin (full_refusing v three_runs))) = [0.10, 0.12, 0.11]"
  by (simp_all add: numeral_3_eq_3 measured_offsets_Suc cmd_AUTO_Z_MEASURE_OFFSET_result
      cmd_AUTO_Z_MEASURE_OFFSET_probes_done bed_outcome_def ind_outcome_def
      three_runs_def scripted_def del: measured_offsets.simps(2))

lemma measure_loop_ok:
  "length (measured_offsets n s) = n \<Longrightarrow>
     fst (measure_loop n acc s) = Inr (acc + sum_list (measured_offsets n s))"
proof (induction n arbitrary: acc s)
  case 0
  then show ?case by simp
next
  case (Suc n)
  show ?case
  proof (cases "fst (cmd_AUTO_Z_MEASURE_OFFSET s)")
    case (Inl e)
    with Suc.prems show ?thesis
      by (simp add: measured_offsets_Suc del: measured_offsets.simps(2))
  next
    case (Inr r)
    with Suc.prems have "length (measured_offsets n (snd (cmd_AUTO_Z_MEASURE_OFFSET s))) = n"
      by (simp add: measured_offsets_Suc del: measured_offsets.simps(2))
    from Suc.IH [OF this, of "acc + r"] Inr show ?thesis
      by (simp add: measured_offsets_Suc measure_loop_Suc
          del: measured_offsets.simps(2) measure_loop.simps(2))
  qed
qed

lemma lite_measure_loop_ok:
  "length (lite_measured_offsets n s) = n \<Longrightarrow>
     fst (lite_measure_loop n acc s) = Inr (acc + sum_list (lite_measured_offsets n s))"
proof (induction n arbitrary: acc s)
  case 0
  then show ?case by simp
next
  case (Suc n)
  show ?case
  proof (cases "fst (cmd_measure_offset s)")
    case (Inl e)
    with Suc.prems show ?thesis
      by (simp add: lite_measured_offsets_Suc del: lite_measured_offsets.simps(2))
  next
    case (Inr r)
    with Suc.prems have "length (lite_measured_offsets n (snd (cmd_measure_offset s))) = n"
      by (simp add: lite_measured_offsets_Suc del: lite_measured_offsets.simps(2))
    from Suc.IH [OF this, of "acc + r"] Inr show ?thesis
      by (simp add: lite_measured_offsets_Suc lite_measure_loop_Suc
          del: lite_measured_offsets.simps(2) lite_measure_loop.simps(2))
  qed
qed

lemma lite_three_runs_offsets:
  "lite_measured_offsets 3 (snd (lite_calibrate_begin (lite_example lite_three_runs))) =
     [0.10, 0.12, 0.11]"
  "lite_measured_offsets 3 (snd (lite_calibrate_begin (lite_refusing v lite_three_runs))) =
     [0.10, 0.12, 0.11]"
  by (simp_all add: numeral_3_eq_3 lite_measured_offsets_Suc cmd_measure_offset_result
      cmd_measure_offset_probes_done lite_bed_outcome_def lite_ind_outcome_def
      lite_three_runs_def scripted_def del: lite_measured_offsets.simps(2))

lemma full_three_runs_ok: "fst (cmd_AUTO_Z_CALIBRATE (full_example three_runs)) = Inr ()"
proof -
  have "fst (measure_loop 3 0 (snd (calibrate_begin (full_example three_runs)))) =
      Inr (0 + sum_list (measured_offsets 3 (snd (calibrate_begin (full_example three_runs)))))"
    by (rule measure_loop_ok) (simp add: full_three_runs_offsets)
  then show ?thesis
    by (simp add: cmd_AUTO_Z_CALIBRATE_result calibrate_accepted)
qed

lemma lite_three_runs_ok: "fst (cmd_calibrate (lite_example lite_three_runs)) = Inr ()"
proof -
  have "fst (lite_measure_loop 3 0 (snd (lite_calibrate_begin (lite_example lite_three_runs)))) =
      Inr (0 + sum_list (lite_measured_offsets 3
             (snd (lite_calibrate_begin (lite_example lite_three_runs)))))"
    by (rule lite_measure_loop_ok) (simp add: lite_three_runs_offsets)
  then show ?thesis
    by (simp add: cmd_calibrate_result lite_calibrate_accepted)
qed

theorem calibrate_average_witness:
  "fst (cmd_AUTO_Z_CALIBRATE (full_example three_runs)) = Inr () \<and>
   measured_offsets 3 (snd (calibrate_begin (full_example three_runs))) = [0.10, 0.12, 0.11] \<and>
   calibrated_z_offset (snd (cmd_AUTO_Z_CALIBRATE (full_example three_runs))) = - 0.11 \<and>
   fst (cmd_calibrate (lite_example lite_three_runs)) = Inr () \<and>
   lite_measured_offsets 3 (snd (lite_calibrate_begin (lite_example lite_three_runs))) =
     [0.10, 0.12, 0.11] \<and>
   lite_calibrated_z_offset (snd (cmd_calibrate (lite_example lite_three_runs))) = - 0.11"
  using calibrate_average [of "full_example three_runs" "lite_example lite_three_runs"]
  by (simp add: full_three_runs_ok lite_three_runs_ok full_three_runs_offsets
      lite_three_runs_offsets)

text \<open>
  What the cleanup of the calibration command achieves. When its two calls of the guard
  return (as they do on a machine that refuses no driver command), then on both exits
  of the measuring loop the hold flag is cleared, the guard is not reduced, the prepare
  routine is no longer suppressed, and the driver commands issued are those of the
  initial \<open>reduce\<close> followed by those of the \<open>restore\<close> of the cleanup.
\<close>

lemma calibrate_cleanup_guard_returns:
  assumes "fst (calibrate_begin s) = Inr ()"
    and "fst (calibrate_finally
                (snd (measure_loop (offset_samples s) 0 (snd (calibrate_begin s))))) = Inr ()"
  shows "\<not> hold (z_current_helper (snd (cmd_AUTO_Z_CALIBRATE s)))"
    and "\<not> is_reduced (z_current_helper (snd (cmd_AUTO_Z_CALIBRATE s)))"
    and "\<not> skip_prepare (endstop (snd (cmd_AUTO_Z_CALIBRATE s)))"
    and "filter is_tmc (trace (machine (snd (cmd_AUTO_Z_CALIBRATE s)))) =
           filter is_tmc (trace (machine s)) @
             (if is_reduced (z_current_helper s) then []
              else map Script (reduce_cmds (z_current_helper s))) @
             map Script (restore_cmds (z_current_helper s))"
proof -
  show "\<not> hold (z_current_helper (snd (cmd_AUTO_Z_CALIBRATE s)))"
    "\<not> is_reduced (z_current_helper (snd (cmd_AUTO_Z_CALIBRATE s)))"
    "\<not> skip_prepare (endstop (snd (cmd_AUTO_Z_CALIBRATE s)))"
    using assms by (simp_all add: cmd_AUTO_Z_CALIBRATE_flags calibrate_finally_result)
  have "filter is_tmc (filter is_setting (trace (machine (snd (cmd_AUTO_Z_CALIBRATE s))))) =
     filter is_tmc (trace (machine s)) @
       (if is_reduced (z_current_helper s) then []
        else map Script (reduce_cmds (z_current_helper s))) @
       map Script (restore_cmds (z_current_helper s))"
    by (simp add: cmd_AUTO_Z_CALIBRATE_settings [OF assms] setting_and_tmc split: sum.splits)
  then show "filter is_tmc (trace (machine (snd (cmd_AUTO_Z_CALIBRATE s)))) =
           filter is_tmc (trace (machine s)) @
             (if is_reduced (z_current_helper s) then []
              else map Script (reduce_cmds (z_current_helper s))) @
             map Script (restore_cmds (z_current_helper s))"
    by (simp add: setting_and_tmc)
qed

lemma lite_calibrate_cleanup_guard_returns:
  assumes "fst (lite_calibrate_begin s) = Inr ()"
    and "fst (lite_calibrate_finally
                (snd (lite_measure_loop (lite_offset_samples s) 0
                        (snd (lite_calibrate_begin s))))) = Inr ()"
  shows "\<not> hold (z_current (snd (cmd_calibrate s)))"
    and "\<not> is_reduced (z_current (snd (cmd_calibrate s)))"
    and "\<not> lite_skip_prepare (snd (cmd_calibrate s))"
    and "filter is_tmc (trace (lite_machine (snd (cmd_calibrate s)))) =
           filter is_tmc (trace (lite_machine s)) @
             (if is_reduced (z_current s) then [] else map Script (reduce_cmds (z_current s))) @
             map Script (restore_cmds (z_current s))"
proof -
  show "\<not> hold (z_current (snd (cmd_calibrate s)))"
    "\<not> is_reduced (z_current (snd (cmd_calibrate s)))"
    "\<not> lite_skip_prepare (snd (cmd_calibrate s))"
    using assms by (simp_all add: cmd_calibrate_flags lite_calibrate_finally_result)
  have "filter is_tmc (filter is_setting (trace (lite_machine (snd (cmd_calibrate s))))) =
     filter is_tmc (trace (lite_machine s)) @
       (if is_reduced (z_current s) then [] else map Script (reduce_cmds (z_current s))) @
       map Script (restore_cmds (z_current s))"
    by (simp add: cmd_calibrate_settings [OF assms] setting_and_tmc split: sum.splits)
  then show "filter is_tmc (trace (lite_machine (snd (cmd_calibrate s)))) =
           filter is_tmc (trace (lite_machine s)) @
             (if is_reduced (z_current s) then [] else map Script (reduce_cmds (z_current s))) @
             map Script (restore_cmds (z_current s))"
    by (simp add: setting_and_tmc)
qed

lemma reduce_refused:
  "fst (calibrate_begin (full_refusing (1 / 2) rs)) = Inl CommandError"
  "fst (lite_calibrate_begin (lite_refusing (1 / 2) ls)) = Inl CommandError"
  by (simp_all add: calibrate_begin_result lite_calibrate_begin_result reduce_or_raise_result
      run_driver_commands_Cons run_prepare_gcode_def helper0_def reduce_cmds_def
      refuses_current_def del: run_driver_commands.simps(2))

lemma reduce_accepted:
  "fst (calibrate_begin (full_refusing 1 rs)) = Inr ()"
  "fst (lite_calibrate_begin (lite_refusing 1 ls)) = Inr ()"
  by (simp_all add: calibrate_begin_result lite_calibrate_begin_result reduce_or_raise_result
      run_driver_commands_Cons run_prepare_gcode_def helper0_def reduce_cmds_def
      refuses_current_def del: run_driver_commands.simps(2))

lemma held_in_loop:
  "z_current_helper (snd (measure_loop n acc (snd (calibrate_begin (full_refusing 1 rs))))) =
     helper0\<lparr>is_reduced := True, hold := True\<rparr>"
  "z_current (snd (lite_measure_loop n acc (snd (lite_calibrate_begin (lite_refusing 1 ls))))) =
     helper0\<lparr>is_reduced := True, hold := True\<rparr>"
proof -
  let ?b = "snd (calibrate_begin (full_refusing 1 rs))"
  have "is_reduced (z_current_helper ?b)" "hold (z_current_helper ?b)"
    by (simp_all add: calibrate_begin_result(2) reduce_accepted)
  from measure_loop_held [OF this, of n acc]
  show "z_current_helper (snd (measure_loop n acc ?b)) =
      helper0\<lparr>is_reduced := True, hold := True\<rparr>"
    by (simp add: calibrate_begin_result(2) reduce_accepted)
next
  let ?b = "snd (lite_calibrate_begin (lite_refusing 1 ls))"
  have "is_reduced (z_current ?b)" "hold (z_current ?b)" "lite_skip_prepare ?b"
    by (simp_all add: lite_calibrate_begin_result(2) reduce_accepted)
  from lite_measure_loop_held [OF this, of n acc]
  show "z_current (snd (lite_measure_loop n acc ?b)) =
      helper0\<lparr>is_reduced := True, hold := True\<rparr>"
    by (simp add: lite_calibrate_begin_result(2) reduce_accepted)
qed

lemma restore_refused:
  "fst (calibrate_finally
          (snd (measure_loop n acc (snd (calibrate_begin (full_refusing 1 rs)))))) =
     Inl CommandError"
  "fst (lite_calibrate_finally
          (snd (lite_measure_loop n acc (snd (lite_calibrate_begin (lite_refusing 1 ls)))))) =
     Inl CommandError"
  by (simp_all add: calibrate_finally_result(1) lite_calibrate_finally_result(1) held_in_loop
      restore_or_raise_result run_driver_commands_Cons helper0_def restore_cmds_def
      refuses_current_def del: run_driver_commands.simps(2))

lemma three_runs_measured:
  "fst (measure_loop 3 0 (snd (calibrate_begin (full_refusing 1 three_runs)))) =
     Inr (0.10 + 0.12 + 0.11)"
  "fst (lite_measure_loop 3 0 (snd (lite_calibrate_begin (lite_refusing 1 lite_three_runs)))) =
     Inr (0.10 + 0.12 + 0.11)"
proof -
  have "fst (measure_loop 3 0 (snd (calibrate_begin (full_refusing 1 three_runs)))) =
      Inr (0 + sum_list (measured_offsets 3
             (snd (calibrate_begin (full_refusing 1 three_runs)))))"
    by (rule measure_loop_ok) (simp add: full_three_runs_offsets)
  then show "fst (measure_loop 3 0 (snd (calibrate_begin (full_refusing 1 three_runs)))) =
     Inr (0.10 + 0.12 + 0.11)"
    by (simp add: full_three_runs_offsets)
next
  have "fst (lite_measure_loop 3 0
              (snd (lite_calibrate_begin (lite_refusing 1 lite_three_runs)))) =
      Inr (0 + sum_list (lite_measured_offsets 3
             (snd (lite_calibrate_begin (lite_refusing 1 lite_three_runs)))))"
    by (rule lite_measure_loop_ok) (simp add: lite_three_runs_offsets)
  then show "fst (lite_measure_loop 3 0
                    (snd (lite_calibrate_begin (lite_refusing 1 lite_three_runs)))) =
     Inr (0.10 + 0.12 + 0.11)"
    by (simp add: lite_three_runs_offsets)
qed

text \<open>
  C5 does not hold on the code. The cleanup of the calibration command is a
  \<^verbatim>\<open>finally\<close> clause, but \<^verbatim>\<open>skip_prepare = True\<close> and
  \<^verbatim>\<open>reduce()\<close> stand before \<^verbatim>\<open>try\<close>, and inside the clause
  \<^verbatim>\<open>restore()\<close> stands before \<^verbatim>\<open>skip_prepare = False\<close>. On a machine whose
  driver refuses the reduced current of 0.5 for \<^verbatim>\<open>stepper_z\<close>, the command raises
  before the first probe and leaves the prepare routine suppressed: the next
  \<^verbatim>\<open>multi_probe_begin\<close> of the full module does not run the prepare script. On a
  machine whose driver refuses the nominal current of 1, the three runs are measured,
  the command raises out of the cleanup, and it leaves the guard reduced and the prepare
  routine suppressed, with the hold flag cleared. Full module and lite module.
\<close>

theorem calibrate_cleanup_missed:
  "fst (cmd_AUTO_Z_CALIBRATE (full_refusing (1 / 2) three_runs)) = Inl CommandError \<and>
   probes_done (machine (snd (cmd_AUTO_Z_CALIBRATE (full_refusing (1 / 2) three_runs)))) = 0 \<and>
   skip_prepare (endstop (snd (cmd_AUTO_Z_CALIBRATE (full_refusing (1 / 2) three_runs)))) \<and>
   trace (multi_probe_begin
            (endstop (snd (cmd_AUTO_Z_CALIBRATE (full_refusing (1 / 2) three_runs)))) machine0) =
     [WrappedMultiBegin] \<and>
   fst (measure_loop 3 0 (snd (calibrate_begin (full_refusing 1 three_runs)))) =
     Inr (0.10 + 0.12 + 0.11) \<and>
   fst (cmd_AUTO_Z_CALIBRATE (full_refusing 1 three_runs)) = Inl CommandError \<and>
   \<not> hold (z_current_helper (snd (cmd_AUTO_Z_CALIBRATE (full_refusing 1 three_runs)))) \<and>
   is_reduced (z_current_helper (snd (cmd_AUTO_Z_CALIBRATE (full_refusing 1 three_runs)))) \<and>
   skip_prepare (endstop (snd (cmd_AUTO_Z_CALIBRATE (full_refusing 1 three_runs)))) \<and>
   fst (cmd_calibrate (lite_refusing (1 / 2) lite_three_runs)) = Inl CommandError \<and>
   probes_done (lite_machine (snd (cmd_calibrate (lite_refusing (1 / 2) lite_three_runs)))) = 0 \<and>
   lite_skip_prepare (snd (cmd_calibrate (lite_refusing (1 / 2) lite_three_runs))) \<and>
   fst (lite_measure_loop 3 0 (snd (lite_calibrate_begin (lite_refusing 1 lite_three_runs)))) =
     Inr (0.10 + 0.12 + 0.11) \<and>
   fst (cmd_calibrate (lite_refusing 1 lite_three_runs)) = Inl CommandError \<and>
   \<not> hold (z_current (snd (cmd_calibrate (lite_refusing 1 lite_three_runs)))) \<and>
   is_reduced (z_current (snd (cmd_calibrate (lite_refusing 1 lite_three_runs)))) \<and>
   lite_skip_prepare (snd (cmd_calibrate (lite_refusing 1 lite_three_runs)))"
proof -
  let ?a = "full_refusing (1 / 2) three_runs"
  let ?b = "full_refusing 1 three_runs"
  let ?c = "lite_refusing (1 / 2) lite_three_runs"
  let ?d = "lite_refusing 1 lite_three_runs"
  have a: "cmd_AUTO_Z_CALIBRATE ?a = (Inl CommandError, snd (calibrate_begin ?a))"
    by (simp add: cmd_AUTO_Z_CALIBRATE_def reduce_refused split_beta)
  have c: "cmd_calibrate ?c = (Inl CommandError, snd (lite_calibrate_begin ?c))"
    by (simp add: cmd_calibrate_def reduce_refused split_beta)
  have b: "fst (cmd_AUTO_Z_CALIBRATE ?b) = Inl CommandError"
    "\<not> hold (z_current_helper (snd (cmd_AUTO_Z_CALIBRATE ?b)))"
    "is_reduced (z_current_helper (snd (cmd_AUTO_Z_CALIBRATE ?b)))"
    "skip_prepare (endstop (snd (cmd_AUTO_Z_CALIBRATE ?b)))"
    by (simp_all add: cmd_AUTO_Z_CALIBRATE_result cmd_AUTO_Z_CALIBRATE_flags
        calibrate_finally_result(2,3) calibrate_begin_result(2) reduce_accepted restore_refused
        held_in_loop)
  have d: "fst (cmd_calibrate ?d) = Inl CommandError"
    "\<not> hold (z_current (snd (cmd_calibrate ?d)))"
    "is_reduced (z_current (snd (cmd_calibrate ?d)))"
    "lite_skip_prepare (snd (cmd_calibrate ?d))"
    by (simp_all add: cmd_calibrate_result cmd_calibrate_flags
        lite_calibrate_finally_result(2,3) lite_calibrate_begin_result(2) reduce_accepted
        restore_refused held_in_loop)
  show ?thesis
    by (simp add: a b c d three_runs_measured multi_probe_begin_def machine0_def)
qed

text \<open>
  C10. If the calibration command raises, \<open>calibrated_z_offset\<close> keeps its value,
  nothing is written to the configuration, and the only gcode offset command of the
  attempt is the clearing \<^verbatim>\<open>SET_GCODE_OFFSET Z=0\<close> issued before the first run;
  if it returns normally, all \<open>offset_samples\<close> runs have returned a value. Full
  module (state \<open>s\<close>) and lite module (state \<open>t\<close>).
\<close>

theorem calibrate_atomic:
  "(fst (cmd_AUTO_Z_CALIBRATE s) \<noteq> Inr () \<longrightarrow>
      calibrated_z_offset (snd (cmd_AUTO_Z_CALIBRATE s)) = calibrated_z_offset s \<and>
      filter is_apply_or_persist (trace (machine (snd (cmd_AUTO_Z_CALIBRATE s)))) =
        filter is_apply_or_persist (trace (machine s)) @ [Script (SET_GCODE_OFFSET 0)]) \<and>
   (fst (cmd_AUTO_Z_CALIBRATE s) = Inr () \<longrightarrow>
      length (measured_offsets (offset_samples s) (snd (calibrate_begin s))) =
        offset_samples s) \<and>
   (fst (cmd_calibrate t) \<noteq> Inr () \<longrightarrow>
      lite_calibrated_z_offset (snd (cmd_calibrate t)) = lite_calibrated_z_offset t \<and>
      filter is_apply_or_persist (trace (lite_machine (snd (cmd_calibrate t)))) =
        filter is_apply_or_persist (trace (lite_machine t)) @ [Script (SET_GCODE_OFFSET 0)]) \<and>
   (fst (cmd_calibrate t) = Inr () \<longrightarrow>
      length (lite_measured_offsets (lite_offset_samples t) (snd (lite_calibrate_begin t))) =
        lite_offset_samples t)"
proof (intro conjI impI)
  assume bad: "fst (cmd_AUTO_Z_CALIBRATE s) \<noteq> Inr ()"
  then obtain e where e: "fst (cmd_AUTO_Z_CALIBRATE s) = Inl e"
    by (cases "fst (cmd_AUTO_Z_CALIBRATE s)") auto
  then show "calibrated_z_offset (snd (cmd_AUTO_Z_CALIBRATE s)) = calibrated_z_offset s"
    by (simp add: cmd_AUTO_Z_CALIBRATE_value)
  from e show "filter is_apply_or_persist (trace (machine (snd (cmd_AUTO_Z_CALIBRATE s)))) =
        filter is_apply_or_persist (trace (machine s)) @ [Script (SET_GCODE_OFFSET 0)]"
    by (simp add: cmd_AUTO_Z_CALIBRATE_applied)
next
  assume "fst (cmd_AUTO_Z_CALIBRATE s) = Inr ()"
  then obtain v where
    "fst (measure_loop (offset_samples s) 0 (snd (calibrate_begin s))) = Inr v"
    by (auto simp: cmd_AUTO_Z_CALIBRATE_result split: sum.splits)
  from measure_loop_sum [OF this]
  show "length (measured_offsets (offset_samples s) (snd (calibrate_begin s))) =
        offset_samples s"
    by simp
next
  assume bad: "fst (cmd_calibrate t) \<noteq> Inr ()"
  then obtain e where e: "fst (cmd_calibrate t) = Inl e"
    by (cases "fst (cmd_calibrate t)") auto
  then show "lite_calibrated_z_offset (snd (cmd_calibrate t)) = lite_calibrated_z_offset t"
    by (simp add: cmd_calibrate_value)
  from e show "filter is_apply_or_persist (trace (lite_machine (snd (cmd_calibrate t)))) =
        filter is_apply_or_persist (trace (lite_machine t)) @ [Script (SET_GCODE_OFFSET 0)]"
    by (simp add: cmd_calibrate_applied)
next
  assume "fst (cmd_calibrate t) = Inr ()"
  then obtain v where
    "fst (lite_measure_loop (lite_offset_samples t) 0 (snd (lite_calibrate_begin t))) = Inr v"
    by (auto simp: cmd_calibrate_result split: sum.splits)
  from lite_measure_loop_sum [OF this]
  show "length (lite_measured_offsets (lite_offset_samples t) (snd (lite_calibrate_begin t))) =
        lite_offset_samples t"
    by simp
qed

lemma full_faulty_result:
  "fst (measure_loop 3 0 (snd (calibrate_begin (full_example faulty_runs)))) = Inl ProbeFault"
  by (simp add: numeral_3_eq_3 measure_loop_Suc cmd_AUTO_Z_MEASURE_OFFSET_result
      cmd_AUTO_Z_MEASURE_OFFSET_probes_done bed_outcome_def ind_outcome_def
      faulty_runs_def scripted_def del: measure_loop.simps(2))

lemma lite_faulty_result:
  "fst (lite_measure_loop 3 0 (snd (lite_calibrate_begin (lite_example lite_faulty_runs)))) =
     Inl ProbeFault"
  by (simp add: numeral_3_eq_3 lite_measure_loop_Suc cmd_measure_offset_result
      cmd_measure_offset_probes_done lite_bed_outcome_def lite_ind_outcome_def
      lite_faulty_runs_def scripted_def del: lite_measure_loop.simps(2))

lemma faulty_calibrate:
  "fst (cmd_AUTO_Z_CALIBRATE (full_example faulty_runs)) = Inl ProbeFault"
  "fst (cmd_calibrate (lite_example lite_faulty_runs)) = Inl ProbeFault"
  by (simp_all add: cmd_AUTO_Z_CALIBRATE_result cmd_calibrate_result calibrate_accepted
      lite_calibrate_accepted full_faulty_result lite_faulty_result)

theorem calibrate_atomic_witness:
  "fst (cmd_AUTO_Z_CALIBRATE (full_example faulty_runs)) \<noteq> Inr () \<and>
   calibrated_z_offset (snd (cmd_AUTO_Z_CALIBRATE (full_example faulty_runs))) = - 0.05 \<and>
   filter is_apply_or_persist
     (trace (machine (snd (cmd_AUTO_Z_CALIBRATE (full_example faulty_runs))))) =
     [Script (SET_GCODE_OFFSET 0)] \<and>
   fst (cmd_calibrate (lite_example lite_faulty_runs)) \<noteq> Inr () \<and>
   lite_calibrated_z_offset (snd (cmd_calibrate (lite_example lite_faulty_runs))) = - 0.05 \<and>
   filter is_apply_or_persist
     (trace (lite_machine (snd (cmd_calibrate (lite_example lite_faulty_runs))))) =
     [Script (SET_GCODE_OFFSET 0)] \<and>
   fst (cmd_AUTO_Z_CALIBRATE (full_example three_runs)) = Inr () \<and>
   length (measured_offsets 3 (snd (calibrate_begin (full_example three_runs)))) = 3 \<and>
   fst (cmd_calibrate (lite_example lite_three_runs)) = Inr () \<and>
   length (lite_measured_offsets 3 (snd (lite_calibrate_begin (lite_example lite_three_runs)))) = 3"
  using calibrate_atomic [of "full_example faulty_runs" "lite_example lite_faulty_runs"]
    calibrate_atomic [of "full_example three_runs" "lite_example lite_three_runs"]
  by (simp add: faulty_calibrate full_three_runs_ok lite_three_runs_ok)


section \<open>A single offset measurement\<close>

lemma measure_last_reading:
  "last_z_result (snd (cmd_AUTO_Z_MEASURE_OFFSET s)) =
     (case bed_outcome s of Inl e \<Rightarrow> last_z_result s | Inr p \<Rightarrow> get_pos_z p + z_offset s)"
  "last_bed_z (snd (cmd_measure_offset t)) =
     (case lite_bed_outcome t of Inl e \<Rightarrow> last_bed_z t | Inr z \<Rightarrow> z)"
  by (simp_all add: cmd_AUTO_Z_MEASURE_OFFSET_def cmd_AUTO_Z_PROBE_result
      cmd_measure_offset_def cmd_probe_result Let_def split_beta split: sum.splits)

text \<open>
  C7 (amended). When both probes of a measurement return, the recorded bed reading is
  the bed sensor's reading (plus the air gap \<open>z_offset\<close> in the full module), the
  value returned is this bed reading minus the reference reading, and a loop of one run
  adds exactly this value to its accumulator. The full module's message reports the
  returned value times -1; the lite module's message reports the returned value itself,
  with both readings.
\<close>

theorem measure_offset_value:
  "(bed_outcome s = Inr p_bed \<and> ind_outcome s = Inr p_ind \<longrightarrow>
      last_z_result (snd (cmd_AUTO_Z_MEASURE_OFFSET s)) = get_pos_z p_bed + z_offset s \<and>
      fst (cmd_AUTO_Z_MEASURE_OFFSET s) =
        Inr (last_z_result (snd (cmd_AUTO_Z_MEASURE_OFFSET s)) - get_pos_z p_ind) \<and>
      responses (trace (machine (snd (cmd_AUTO_Z_MEASURE_OFFSET s)))) =
        responses (trace (machine s)) @
          [BedSensorMeasured (name s) ((get_pos_z p_bed + z_offset s) * - 1),
           CalculatedTrueNozzleOffset (name s)
             ((last_z_result (snd (cmd_AUTO_Z_MEASURE_OFFSET s)) - get_pos_z p_ind) * - 1)] \<and>
      fst (measure_loop (Suc 0) acc s) =
        Inr (acc + (last_z_result (snd (cmd_AUTO_Z_MEASURE_OFFSET s)) - get_pos_z p_ind))) \<and>
   (lite_bed_outcome t = Inr bed_z \<and> lite_ind_outcome t = Inr inductive_z \<longrightarrow>
      last_bed_z (snd (cmd_measure_offset t)) = bed_z \<and>
      fst (cmd_measure_offset t) = Inr (bed_z - inductive_z) \<and>
      responses (trace (lite_machine (snd (cmd_measure_offset t)))) =
        responses (trace (lite_machine t)) @
          [BedSensorTriggerZ (lite_name t) bed_z,
           TrueNozzleOffset (lite_name t) (bed_z - inductive_z) bed_z inductive_z] \<and>
      fst (lite_measure_loop (Suc 0) acc t) = Inr (acc + (bed_z - inductive_z)))"
  by (simp add: measure_last_reading cmd_AUTO_Z_MEASURE_OFFSET_result
      cmd_AUTO_Z_MEASURE_OFFSET_responses cmd_measure_offset_result cmd_measure_offset_responses
      measure_loop_Suc lite_measure_loop_Suc del: measure_loop.simps(2) lite_measure_loop.simps(2))

lemma one_run_outcomes:
  "bed_outcome (full_example one_run) = Inr (Plain 150 150 0.30)"
  "ind_outcome (full_example one_run) = Inr (Plain 125 150 0.25)"
  "lite_bed_outcome (lite_example lite_one_run) = Inr 0.30"
  "lite_ind_outcome (lite_example lite_one_run) = Inr 0.05"
  by (simp_all add: bed_outcome_def ind_outcome_def lite_bed_outcome_def lite_ind_outcome_def
      full_example_def lite_example_def one_run_def lite_one_run_def scripted_def)

theorem measure_offset_value_witness:
  "bed_outcome (full_example one_run) = Inr (Plain 150 150 0.30) \<and>
   ind_outcome (full_example one_run) = Inr (Plain 125 150 0.25) \<and>
   fst (cmd_AUTO_Z_MEASURE_OFFSET (full_example one_run)) = Inr 0.25 \<and>
   responses (trace (machine (snd (cmd_AUTO_Z_MEASURE_OFFSET (full_example one_run))))) =
     [BedSensorMeasured ''auto_z_offset'' (- 0.5),
      CalculatedTrueNozzleOffset ''auto_z_offset'' (- 0.25)] \<and>
   lite_bed_outcome (lite_example lite_one_run) = Inr 0.30 \<and>
   lite_ind_outcome (lite_example lite_one_run) = Inr 0.05 \<and>
   fst (cmd_measure_offset (lite_example lite_one_run)) = Inr 0.25 \<and>
   responses (trace (lite_machine (snd (cmd_measure_offset (lite_example lite_one_run))))) =
     [BedSensorTriggerZ ''auto_z_offset'' 0.30, TrueNozzleOffset ''auto_z_offset'' 0.25 0.30 0.05]"
  using measure_offset_value [of "full_example one_run" "Plain 150 150 0.30" "Plain 125 150 0.25" 0
      "lite_example lite_one_run" "0.30" "0.05"]
  by (simp add: one_run_outcomes)

text \<open>
  C7 as stated fails in the lite module: for readings 0.30 and 0.05 the measurement
  returns 0.25 and its message reports 0.25, not -0.25.
\<close>

theorem measure_offset_display_counterexample:
  "fst (cmd_measure_offset (lite_example lite_one_run)) = Inr 0.25 \<and>
   reported_offset
     (last (responses (trace (lite_machine (snd (cmd_measure_offset (lite_example lite_one_run))))))) =
     Some 0.25 \<and>
   reported_offset
     (last (responses (trace (lite_machine (snd (cmd_measure_offset (lite_example lite_one_run))))))) \<noteq>
     Some (0.25 * - 1)"
  by (simp add: cmd_measure_offset_result cmd_measure_offset_responses one_run_outcomes)


section \<open>The status query\<close>

text \<open>
  C8 (amended). The status query changes no state. In the full module it exposes
  exactly \<^verbatim>\<open>name\<close>, \<^verbatim>\<open>last_probe_position\<close> and
  \<^verbatim>\<open>last_z_result\<close> (the bed reading), and no
  \<^verbatim>\<open>calibrated_z_offset\<close>; in the lite module it exposes exactly
  \<^verbatim>\<open>last_bed_z\<close> and \<^verbatim>\<open>calibrated_z_offset\<close>, and no
  \<^verbatim>\<open>last_probe_position\<close>.
\<close>

theorem status_snapshot:
  "snd (get_status s) = s \<and>
   map fst (fst (get_status s)) = [''name'', ''last_probe_position'', ''last_z_result''] \<and>
   map_of (fst (get_status s)) ''name'' = Some (StatusName (name s)) \<and>
   map_of (fst (get_status s)) ''last_probe_position'' =
     Some (StatusCoord (last_probe_position s)) \<and>
   map_of (fst (get_status s)) ''last_z_result'' = Some (StatusNumber (last_z_result s)) \<and>
   map_of (fst (get_status s)) ''calibrated_z_offset'' = None \<and>
   snd (lite_get_status t) = t \<and>
   map fst (fst (lite_get_status t)) = [''last_bed_z'', ''calibrated_z_offset''] \<and>
   map_of (fst (lite_get_status t)) ''last_bed_z'' = Some (StatusNumber (last_bed_z t)) \<and>
   map_of (fst (lite_get_status t)) ''calibrated_z_offset'' =
     Some (StatusNumber (lite_calibrated_z_offset t)) \<and>
   map_of (fst (lite_get_status t)) ''last_probe_position'' = None"
  by (simp add: get_status_def lite_get_status_def)

text \<open>
  C8 as stated fails: the full module's status has no key
  \<^verbatim>\<open>calibrated_z_offset\<close> and no key \<^verbatim>\<open>last_bed_z\<close>, the lite
  module's status has no key \<^verbatim>\<open>last_probe_position\<close>.
\<close>

theorem status_keys_counterexample:
  "map_of (fst (get_status (full_example one_run))) ''calibrated_z_offset'' = None \<and>
   map_of (fst (get_status (full_example one_run))) ''last_bed_z'' = None \<and>
   map_of (fst (lite_get_status (lite_example lite_one_run))) ''last_probe_position'' = None"
  by (simp add: get_status_def lite_get_status_def)

section \<open>The acceleration override\<close>

text \<open>
  C6. Lite module, \<^verbatim>\<open>_probe_bed_sensor\<close>: with a positive
  \<^verbatim>\<open>probe_accel\<close> the calls made are, in this order, the read of the
  acceleration limit, \<^verbatim>\<open>M204\<close> with the override, the probing move, and
  \<^verbatim>\<open>M204\<close> with the limit read before; with \<^verbatim>\<open>probe_accel\<close>
  zero the probing move is the only call; in both cases the limit afterwards is the limit
  before, whether the probing move returned or raised (the result is the move's
  outcome). Full module: with a positive \<^verbatim>\<open>probe_accel\<close>,
  \<^verbatim>\<open>probe_prepare\<close> reads the limit and sets the override, and the
  \<^verbatim>\<open>probe_finish\<close> that follows sets the limit read by
  \<^verbatim>\<open>probe_prepare\<close>, whatever state \<open>m2\<close> the move has left; with
  \<^verbatim>\<open>probe_accel\<close> zero neither of them reads or sets the limit. The option is
  read with \<^verbatim>\<open>minval=0.0\<close>, so it is positive or zero.
\<close>

theorem accel_guard:
  "(0 < lite_probe_accel t \<longrightarrow>
      trace (lite_machine (snd (probe_bed_sensor t))) =
        trace (lite_machine t) @
          [GetMaxAccel, Script (M204 (lite_probe_accel t)),
           ProbingMove (fst (toolhead_position (lite_machine t)))
             (fst (snd (toolhead_position (lite_machine t)))) (z_min t) (probe_speed t),
           Script (M204 (max_accel (lite_machine t)))]) \<and>
   (lite_probe_accel t = 0 \<longrightarrow>
      trace (lite_machine (snd (probe_bed_sensor t))) =
        trace (lite_machine t) @
          [ProbingMove (fst (toolhead_position (lite_machine t)))
             (fst (snd (toolhead_position (lite_machine t)))) (z_min t) (probe_speed t)]) \<and>
   max_accel (lite_machine (snd (probe_bed_sensor t))) = max_accel (lite_machine t) \<and>
   fst (probe_bed_sensor t) = lite_bed_outcome t \<and>
   (0 < probe_accel w \<longrightarrow>
      trace (snd (probe_prepare w m)) =
        trace m @ [WrappedPrepare, GetMaxAccel, Script (M204 (probe_accel w))] \<and>
      max_accel (snd (probe_prepare w m)) = probe_accel w \<and>
      (\<forall>m2. probe_finish (fst (probe_prepare w m)) m2 =
         (Inr (), emit WrappedFinish (run_script_from_command (M204 (max_accel m)) m2)) \<and>
         max_accel (snd (probe_finish (fst (probe_prepare w m)) m2)) = max_accel m)) \<and>
   (probe_accel w = 0 \<longrightarrow>
      probe_prepare w m = (w, emit WrappedPrepare m) \<and>
      (\<forall>m2. probe_finish w m2 = (Inr (), emit WrappedFinish m2)))"
  by (simp add: probe_bed_sensor_trace probe_bed_sensor_result probe_prepare_def
      probe_finish_def get_max_accel_def Let_def)


theorem accel_guard_witness:
  "trace (lite_machine (snd (probe_bed_sensor (lite_example [])))) =
     [GetMaxAccel, Script (M204 500), ProbingMove 0 0 (- 2) 5, Script (M204 3000)] \<and>
   fst (probe_bed_sensor (lite_example [])) = Inl ProbeFault \<and>
   max_accel (lite_machine (snd (probe_bed_sensor (lite_example [])))) = 3000 \<and>
   trace (lite_machine (snd (probe_bed_sensor (lite_example lite_one_run)))) =
     [GetMaxAccel, Script (M204 500), ProbingMove 0 0 (- 2) 5, Script (M204 3000)] \<and>
   fst (probe_bed_sensor (lite_example lite_one_run)) = Inr 0.30 \<and>
   trace (lite_machine (snd (probe_bed_sensor ((lite_example [])\<lparr>lite_probe_accel := 0\<rparr>)))) =
     [ProbingMove 0 0 (- 2) 5] \<and>
   trace (snd (probe_prepare wrapper_example (machine (full_example [])))) =
     [WrappedPrepare, GetMaxAccel, Script (M204 500)] \<and>
   max_accel (snd (probe_prepare wrapper_example (machine (full_example [])))) = 500 \<and>
   max_accel
     (snd (probe_finish (fst (probe_prepare wrapper_example (machine (full_example []))))
        (snd (probe_prepare wrapper_example (machine (full_example [])))))) = 3000 \<and>
   probe_prepare (endstop (full_example [])) (machine (full_example [])) =
     (endstop (full_example []), emit WrappedPrepare (machine (full_example [])))"
  using accel_guard [of "lite_example []" wrapper_example "machine (full_example [])"]
    accel_guard [of "lite_example lite_one_run" "endstop (full_example [])"
      "machine (full_example [])"]
    accel_guard [of "(lite_example [])\<lparr>lite_probe_accel := 0\<rparr>" wrapper_example
      "machine (full_example [])"]
  by (auto simp: wrapper_example_def lite_bed_outcome_def scripted_def lite_one_run_def)

section \<open>The sampled probe\<close>

lemma sorted_hd_Min: "sorted xs \<Longrightarrow> xs \<noteq> [] \<Longrightarrow> hd xs = Min (set (xs :: real list))"
  by (cases xs) (auto intro!: Min_eqI [symmetric])

lemma sorted_last_Max: "sorted xs \<Longrightarrow> xs \<noteq> [] \<Longrightarrow> last xs = Max (set (xs :: real list))"
proof (induction xs)
  case Nil
  then show ?case by simp
next
  case (Cons x xs)
  show ?case
  proof (cases "xs = []")
    case True
    then show ?thesis by simp
  next
    case False
    with Cons have l: "last xs = Max (set xs)" by simp
    have "last xs \<in> set xs" using False by simp
    with Cons.prems have "x \<le> last xs" by simp
    with l have "x \<le> Max (set xs)" by simp
    with l False show ?thesis by (simp add: max_def)
  qed
qed

lemma ends_split: "2 \<le> length xs \<Longrightarrow> xs = hd xs # butlast (tl xs) @ [last xs]"
proof (cases xs)
  case Nil
  then show "2 \<le> length xs \<Longrightarrow> ?thesis" by simp
next
  case (Cons a ys)
  assume "2 \<le> length xs"
  with Cons have "ys \<noteq> []" by auto
  with Cons show ?thesis by simp
qed

lemma trim_split:
  assumes "2 \<le> length ps"
  shows "sort_key get_pos_z ps =
           hd (sort_key get_pos_z ps) # trim ps @ [last (sort_key get_pos_z ps)]"
  using ends_split [of "sort_key get_pos_z ps"] assms by (simp add: trim_def)

lemma trim_ends:
  assumes "ps \<noteq> []"
  shows "get_pos_z (hd (sort_key get_pos_z ps)) = Min (set (map get_pos_z ps))"
    and "get_pos_z (last (sort_key get_pos_z ps)) = Max (set (map get_pos_z ps))"
proof -
  let ?s = "sort_key get_pos_z ps"
  have "length ?s = length ps" by simp
  with assms have ne0: "?s \<noteq> []" by (metis length_0_conv)
  then have ne: "map get_pos_z ?s \<noteq> []" by simp
  have srt: "sorted (map get_pos_z ?s)" by (rule sorted_sort_key)
  have st: "set (map get_pos_z ?s) = set (map get_pos_z ps)" by simp
  from sorted_hd_Min [OF srt ne] st
  show "get_pos_z (hd ?s) = Min (set (map get_pos_z ps))"
    using ne0 by (simp add: hd_map)
  from sorted_last_Max [OF srt ne] st
  show "get_pos_z (last ?s) = Max (set (map get_pos_z ps))"
    using ne0 by (simp add: last_map)
qed

lemma trim_discards:
  assumes "2 \<le> length ps"
  shows "\<exists>lo hi. mset ps = {#lo#} + mset (trim ps) + {#hi#} \<and>
           get_pos_z lo = Min (set (map get_pos_z ps)) \<and>
           get_pos_z hi = Max (set (map get_pos_z ps))"
proof -
  let ?s = "sort_key get_pos_z ps"
  from assms have ne: "ps \<noteq> []" by auto
  have "mset ps = mset ?s" by simp
  also have "\<dots> = mset (hd ?s # trim ps @ [last ?s])"
    using trim_split [OF assms] by simp
  finally have "mset ps = {#hd ?s#} + mset (trim ps) + {#last ?s#}" by simp
  with trim_ends [OF ne] show ?thesis by blast
qed

lemma trim_sorted: "sorted (map get_pos_z (trim ps))"
proof -
  have "sorted (map get_pos_z (sort_key get_pos_z ps))" by (rule sorted_sort_key)
  then have "sorted (tl (map get_pos_z (sort_key get_pos_z ps)))"
    by (rule sorted_tl)
  then have "sorted (butlast (tl (map get_pos_z (sort_key get_pos_z ps))))"
    by (rule sorted_butlast [rotated]) 
  then show ?thesis by (simp add: trim_def map_butlast map_tl)
qed

lemma trim_length: "length (trim ps) = length ps - 2"
  by (simp add: trim_def)


lemma sample_loop_done:
  "\<not> int (length positions) < samples params \<Longrightarrow>
     sample_loop params probexy retries positions m = (Inr positions, m)"
  by (subst sample_loop.simps) simp

lemma sample_loop_fault:
  "int (length positions) < samples params \<Longrightarrow> probe m = (Inl e, m1) \<Longrightarrow>
     sample_loop params probexy retries positions m = (Inl e, m1)"
  by (subst sample_loop.simps) simp

lemma sample_loop_exhausted:
  "int (length positions) < samples params \<Longrightarrow> probe m = (Inr pos, m1) \<Longrightarrow>
   samples_tolerance params < spread (map get_pos_z (positions @ [pos])) \<Longrightarrow>
   samples_tolerance_retries params \<le> int retries \<Longrightarrow>
     sample_loop params probexy retries positions m = (Inl SamplesExceedTolerance, m1)"
  by (subst sample_loop.simps) simp

lemma sample_loop_retry:
  "int (length positions) < samples params \<Longrightarrow> probe m = (Inr pos, m1) \<Longrightarrow>
   samples_tolerance params < spread (map get_pos_z (positions @ [pos])) \<Longrightarrow>
   int retries < samples_tolerance_retries params \<Longrightarrow>
     sample_loop params probexy retries positions m =
       sample_loop params probexy (Suc retries) []
         (retract params probexy [] (emit (RespondInfo RetryingMsg) m1))"
  by (subst sample_loop.simps) simp

lemma sample_loop_keep:
  "int (length positions) < samples params \<Longrightarrow> probe m = (Inr pos, m1) \<Longrightarrow>
   spread (map get_pos_z (positions @ [pos])) \<le> samples_tolerance params \<Longrightarrow>
     sample_loop params probexy retries positions m =
       sample_loop params probexy retries (positions @ [pos])
         (retract params probexy (positions @ [pos]) m1)"
  by (subst sample_loop.simps) simp

lemma sample_loop_accepts:
  "sample_loop params probexy retries positions m = (Inr qs, m') \<Longrightarrow>
   positions = [] \<or> spread (map get_pos_z positions) \<le> samples_tolerance params \<Longrightarrow>
   int (length positions) \<le> samples params \<Longrightarrow>
   (qs = [] \<or> spread (map get_pos_z qs) \<le> samples_tolerance params) \<and>
   int (length qs) = samples params"
proof (induction params probexy retries positions m rule: sample_loop.induct)
  case (1 params probexy retries positions m)
  show ?case
  proof (cases "int (length positions) < samples params")
    case False
    with "1.prems" show ?thesis by (simp add: sample_loop_done)
  next
    case more: True
    obtain r m1 where p: "probe m = (r, m1)" by (cases "probe m")
    show ?thesis
    proof (cases r)
      case (Inl e)
      with more p "1.prems"(1) show ?thesis by (simp add: sample_loop_fault)
    next
      case (Inr pos)
      note p' = p [unfolded Inr]
      show ?thesis
      proof (cases "samples_tolerance params < spread (map get_pos_z (positions @ [pos]))")
        case exceed: True
        show ?thesis
        proof (cases "samples_tolerance_retries params \<le> int retries")
          case True
          with more p' exceed "1.prems"(1) show ?thesis by (simp add: sample_loop_exhausted)
        next
          case left: False
          then have lt: "int retries < samples_tolerance_retries params" by simp
          from "1.prems"(1)
          have again: "sample_loop params probexy (Suc retries) []
              (retract params probexy [] (emit (RespondInfo RetryingMsg) m1)) = (Inr qs, m')"
            by (simp add: sample_loop_retry [OF more p' exceed lt])
          from more have "int (length ([] :: position list)) \<le> samples params" by simp
          with "1.IH"(1) [OF more p [symmetric] Inr exceed left again] show ?thesis by simp
        qed
      next
        case within: False
        then have le: "spread (map get_pos_z (positions @ [pos])) \<le> samples_tolerance params"
          by simp
        from "1.prems"(1)
        have again: "sample_loop params probexy retries (positions @ [pos])
            (retract params probexy (positions @ [pos]) m1) = (Inr qs, m')"
          by (simp add: sample_loop_keep [OF more p' le])
        from more have "int (length (positions @ [pos])) \<le> samples params" by simp
        with "1.IH"(2) [OF more p [symmetric] Inr within again] le show ?thesis by simp
      qed
    qed
  qed
qed


lemmas machine_eval =
  probe_def next_outcome_def emit_def halt_at_def retract_def manual_move_def get_z_def
  scripted_def spread_def

lemma four_samples_loop:
  "fst (sample_loop (params_example 4 10 0) (150, 150) 0 []
     (session_machine (session_example four_samples))) = Inr four_samples"
  by (simp add: sample_loop.simps params_example_def session_example_def four_samples_def
      machine_eval)

lemma four_samples_trim:
  "trim four_samples = [Plain 150 150 2.0, Plain 150 150 2.1]"
  by (simp add: trim_def four_samples_def)


lemma adjust_z [simp]: "get_pos_z (adjust_pos_z_offset p z_off) = get_pos_z p - z_off"
  by (cases p) simp_all

lemma run_probe_accept:
  "hw_probe_session s \<Longrightarrow>
   sample_loop params
     (fst (toolhead_position (session_machine s)), fst (snd (toolhead_position (session_machine s))))
     0 [] (session_machine s) = (Inr ps, m1) \<Longrightarrow>
   run_probe calc params s =
     (case calc (map (\<lambda>p. adjust_pos_z_offset p (probe_z_offset s)) (trim ps))
             (samples_result params) of
        Inl e \<Rightarrow> (Inl e, s\<lparr>session_machine := m1\<rparr>)
      | Inr epos \<Rightarrow> (Inr (), s\<lparr>results := results s @ [epos], session_machine := m1\<rparr>))"
  by (simp add: run_probe_def Let_def split_beta split: sum.splits)

lemma run_probe_returns:
  assumes "run_probe calc params s = (Inr (), s')"
  shows "\<exists>qs m1 v.
           sample_loop params
             (fst (toolhead_position (session_machine s)),
              fst (snd (toolhead_position (session_machine s))))
             0 [] (session_machine s) = (Inr qs, m1) \<and>
           calc (map (\<lambda>p. adjust_pos_z_offset p (probe_z_offset s)) (trim qs))
             (samples_result params) = Inr v \<and>
           results s' = results s @ [v]"
proof -
  let ?xy = "(fst (toolhead_position (session_machine s)),
              fst (snd (toolhead_position (session_machine s))))"
  obtain r m1 where l: "sample_loop params ?xy 0 [] (session_machine s) = (r, m1)"
    by (cases "sample_loop params ?xy 0 [] (session_machine s)")
  from assms have hw: "hw_probe_session s"
    by (auto simp: run_probe_def split: if_splits)
  show ?thesis
  proof (cases r)
    case (Inl e)
    with assms hw l show ?thesis by (simp add: run_probe_def Let_def split_beta)
  next
    case (Inr qs)
    with l have l': "sample_loop params ?xy 0 [] (session_machine s) = (Inr qs, m1)" by simp
    from assms run_probe_accept [OF hw l', of calc]
    obtain v where
      "calc (map (\<lambda>p. adjust_pos_z_offset p (probe_z_offset s)) (trim qs))
         (samples_result params) = Inr v" "results s' = results s @ [v]"
      by (auto split: sum.splits)
    with l' show ?thesis by blast
  qed
qed

text \<open>
  C2. One round of the sampling loop, after a raw sample \<open>pos\<close> was added to the
  samples of the current attempt: if the spread of these samples exceeds
  \<open>samples_tolerance\<close> and the retries taken have reached
  \<open>samples_tolerance_retries\<close>, the session fails with the sampling-tolerance error;
  if the spread exceeds the tolerance and retries are left, the loop goes on from the
  empty sample list with one more retry counted; otherwise the sample is kept. Whatever
  the machine does, a sample list accepted by the loop is empty (only for a sample count
  below 1) or has a spread within the tolerance, and every result that
  \<^verbatim>\<open>run_probe\<close> appends was computed from such a list.
\<close>

theorem tolerance_retry:
  "(int (length positions) < samples params \<and> probe m = (Inr pos, m1) \<and>
    samples_tolerance params < spread (map get_pos_z (positions @ [pos])) \<and>
    samples_tolerance_retries params \<le> int retries \<longrightarrow>
      sample_loop params probexy retries positions m = (Inl SamplesExceedTolerance, m1)) \<and>
   (int (length positions) < samples params \<and> probe m = (Inr pos, m1) \<and>
    samples_tolerance params < spread (map get_pos_z (positions @ [pos])) \<and>
    int retries < samples_tolerance_retries params \<longrightarrow>
      sample_loop params probexy retries positions m =
        sample_loop params probexy (Suc retries) []
          (retract params probexy [] (emit (RespondInfo RetryingMsg) m1))) \<and>
   (int (length positions) < samples params \<and> probe m = (Inr pos, m1) \<and>
    spread (map get_pos_z (positions @ [pos])) \<le> samples_tolerance params \<longrightarrow>
      sample_loop params probexy retries positions m =
        sample_loop params probexy retries (positions @ [pos])
          (retract params probexy (positions @ [pos]) m1)) \<and>
   (sample_loop params probexy 0 [] m = (Inr qs, m') \<longrightarrow>
      qs = [] \<or> spread (map get_pos_z qs) \<le> samples_tolerance params) \<and>
   (run_probe calc params s = (Inr (), s') \<longrightarrow>
      (\<exists>ps m2 v.
         sample_loop params
           (fst (toolhead_position (session_machine s)),
            fst (snd (toolhead_position (session_machine s))))
           0 [] (session_machine s) = (Inr ps, m2) \<and>
         (ps = [] \<or> spread (map get_pos_z ps) \<le> samples_tolerance params) \<and>
         calc (map (\<lambda>p. adjust_pos_z_offset p (probe_z_offset s)) (trim ps))
           (samples_result params) = Inr v \<and>
         results s' = results s @ [v]))"
proof (intro conjI impI)
  assume "sample_loop params probexy 0 [] m = (Inr qs, m')"
  from sample_loop_accepts [OF this]
  show "qs = [] \<or> spread (map get_pos_z qs) \<le> samples_tolerance params"
    by (cases "0 \<le> samples params")
      (use \<open>sample_loop params probexy 0 [] m = (Inr qs, m')\<close> in
        \<open>simp_all add: sample_loop_done\<close>)
next
  assume "run_probe calc params s = (Inr (), s')"
  from run_probe_returns [OF this] obtain ps m2 v where
    r: "sample_loop params
           (fst (toolhead_position (session_machine s)),
            fst (snd (toolhead_position (session_machine s))))
           0 [] (session_machine s) = (Inr ps, m2)"
      "calc (map (\<lambda>p. adjust_pos_z_offset p (probe_z_offset s)) (trim ps))
           (samples_result params) = Inr v"
      "results s' = results s @ [v]"
    by blast
  have "ps = [] \<or> spread (map get_pos_z ps) \<le> samples_tolerance params"
  proof (cases "0 \<le> samples params")
    case True
    with sample_loop_accepts [OF r(1)] show ?thesis by simp
  next
    case False
    with r(1) show ?thesis by (simp add: sample_loop_done)
  qed
  with r show "\<exists>ps m2 v.
         sample_loop params
           (fst (toolhead_position (session_machine s)),
            fst (snd (toolhead_position (session_machine s))))
           0 [] (session_machine s) = (Inr ps, m2) \<and>
         (ps = [] \<or> spread (map get_pos_z ps) \<le> samples_tolerance params) \<and>
         calc (map (\<lambda>p. adjust_pos_z_offset p (probe_z_offset s)) (trim ps))
           (samples_result params) = Inr v \<and>
         results s' = results s @ [v]"
    by blast
qed (simp_all add: sample_loop_exhausted sample_loop_retry sample_loop_keep)


lemma session_fields [simp]:
  "hw_probe_session (session_example rs)"
  "probe_z_offset (session_example rs) = 0"
  "results (session_example rs) = []"
  "toolhead_position (session_machine (session_example rs)) = (150, 150, 10, 0)"
  by (simp_all add: session_example_def)

lemma retry_samples_loop:
  "fst (sample_loop (params_example 3 0.01 1) (150, 150) 0 []
     (session_machine (session_example retry_samples))) =
   Inr [Plain 150 150 2.0, Plain 150 150 2.005, Plain 150 150 2.0]"
  "fst (sample_loop (params_example 3 0.01 0) (150, 150) 0 []
     (session_machine (session_example retry_samples))) = Inl SamplesExceedTolerance"
  by (simp_all add: sample_loop.simps params_example_def session_example_def retry_samples_def
      machine_eval)

lemma retry_samples_run:
  "fst (run_probe calc_probe_z_average (params_example 3 0.01 1) (session_example retry_samples)) =
     Inr ()"
  "results (snd (run_probe calc_probe_z_average (params_example 3 0.01 1)
     (session_example retry_samples))) = [2.0]"
  "fst (run_probe calc_probe_z_average (params_example 3 0.01 0) (session_example retry_samples)) =
     Inl SamplesExceedTolerance"
  using retry_samples_loop
  by (simp_all add: run_probe_def Let_def split_beta trim_def calc_probe_z_average_def mean_def
      params_example_def split: sum.splits)

theorem tolerance_retry_witness:
  "sample_loop (params_example 3 0.01 0) (150, 150) 0 [Plain 150 150 1.0]
     (session_machine (session_example [Plain 150 150 1.5])) =
     (Inl SamplesExceedTolerance,
      snd (probe (session_machine (session_example [Plain 150 150 1.5])))) \<and>
   sample_loop (params_example 3 0.01 1) (150, 150) 0 [Plain 150 150 1.0]
     (session_machine (session_example [Plain 150 150 1.5])) =
     sample_loop (params_example 3 0.01 1) (150, 150) (Suc 0) []
       (retract (params_example 3 0.01 1) (150, 150) []
          (emit (RespondInfo RetryingMsg)
             (snd (probe (session_machine (session_example [Plain 150 150 1.5])))))) \<and>
   sample_loop (params_example 3 0.01 1) (150, 150) 0 [Plain 150 150 1.0]
     (session_machine (session_example [Plain 150 150 1.005])) =
     sample_loop (params_example 3 0.01 1) (150, 150) 0 [Plain 150 150 1.0, Plain 150 150 1.005]
       (retract (params_example 3 0.01 1) (150, 150) [Plain 150 150 1.0, Plain 150 150 1.005]
          (snd (probe (session_machine (session_example [Plain 150 150 1.005]))))) \<and>
   fst (sample_loop (params_example 3 0.01 1) (150, 150) 0 []
     (session_machine (session_example retry_samples))) =
     Inr [Plain 150 150 2.0, Plain 150 150 2.005, Plain 150 150 2.0] \<and>
   spread (map get_pos_z [Plain 150 150 2.0, Plain 150 150 2.005, Plain 150 150 2.0]) \<le> 0.01 \<and>
   fst (run_probe calc_probe_z_average (params_example 3 0.01 1) (session_example retry_samples)) =
     Inr () \<and>
   (\<exists>v. results (snd (run_probe calc_probe_z_average (params_example 3 0.01 1)
      (session_example retry_samples))) = [v]) \<and>
   fst (run_probe calc_probe_z_average (params_example 3 0.01 0) (session_example retry_samples)) =
     Inl SamplesExceedTolerance"
proof -
  let ?m = "session_machine (session_example [Plain 150 150 1.5])"
  let ?m' = "session_machine (session_example [Plain 150 150 1.005])"
  have p: "probe ?m = (Inr (Plain 150 150 1.5), snd (probe ?m))"
    "probe ?m' = (Inr (Plain 150 150 1.005), snd (probe ?m'))"
    by (simp_all add: probe_def next_outcome_def session_example_def scripted_def)
  have sp: "0.01 < spread (map get_pos_z ([Plain 150 150 1.0] @ [Plain 150 150 1.5]))"
    "spread (map get_pos_z ([Plain 150 150 1.0] @ [Plain 150 150 1.005])) \<le> 0.01"
    by (simp_all add: spread_def)
  let ?P = "params_example 3 0.01 1"
  let ?S = "session_example retry_samples"
  let ?l = "sample_loop ?P (150, 150) 0 [] (session_machine ?S)"
  let ?r = "run_probe calc_probe_z_average ?P ?S"
  have l: "?l = (Inr [Plain 150 150 2.0, Plain 150 150 2.005, Plain 150 150 2.0], snd ?l)"
    using retry_samples_loop(1) by (simp add: prod_eq_iff)
  have r: "?r = (Inr (), snd ?r)"
    using retry_samples_run(1) by (simp add: prod_eq_iff)
  from tolerance_retry [of "[]" ?P "session_machine ?S" "Plain 0 0 0" "session_machine ?S" 0
      "(150, 150)" "[Plain 150 150 2.0, Plain 150 150 2.005, Plain 150 150 2.0]" "snd ?l"
      calc_probe_z_average ?S "snd ?r",
      THEN conjunct2, THEN conjunct2, THEN conjunct2, THEN conjunct1] l
  have d: "spread (map get_pos_z [Plain 150 150 2.0, Plain 150 150 2.005, Plain 150 150 2.0]) \<le> 0.01"
    by (simp add: params_example_def)
  from tolerance_retry [of "[]" ?P "session_machine ?S" "Plain 0 0 0" "session_machine ?S" 0
      "(150, 150)" "[]" "snd ?l" calc_probe_z_average ?S "snd ?r",
      THEN conjunct2, THEN conjunct2, THEN conjunct2, THEN conjunct2] r
  have e: "\<exists>v. results (snd ?r) = [v]"
    by auto
  note t0 = tolerance_retry [of "[Plain 150 150 1.0]" "params_example 3 0.01 0" ?m
      "Plain 150 150 1.5" "snd (probe ?m)" 0 "(150, 150)", THEN conjunct1]
  note t1 = tolerance_retry [of "[Plain 150 150 1.0]" "params_example 3 0.01 1" ?m
      "Plain 150 150 1.5" "snd (probe ?m)" 0 "(150, 150)", THEN conjunct2, THEN conjunct1]
  note t2 = tolerance_retry [of "[Plain 150 150 1.0]" "params_example 3 0.01 1" ?m'
      "Plain 150 150 1.005" "snd (probe ?m')" 0 "(150, 150)",
      THEN conjunct2, THEN conjunct2, THEN conjunct1]
  have a: "sample_loop (params_example 3 0.01 0) (150, 150) 0 [Plain 150 150 1.0] ?m =
      (Inl SamplesExceedTolerance, snd (probe ?m))"
    using t0 p sp by (simp add: params_example_def)
  have b: "sample_loop (params_example 3 0.01 1) (150, 150) 0 [Plain 150 150 1.0] ?m =
     sample_loop (params_example 3 0.01 1) (150, 150) (Suc 0) []
       (retract (params_example 3 0.01 1) (150, 150) []
          (emit (RespondInfo RetryingMsg) (snd (probe ?m))))"
    using t1 p sp by (simp add: params_example_def)
  have c: "sample_loop (params_example 3 0.01 1) (150, 150) 0 [Plain 150 150 1.0] ?m' =
     sample_loop (params_example 3 0.01 1) (150, 150) 0 [Plain 150 150 1.0, Plain 150 150 1.005]
       (retract (params_example 3 0.01 1) (150, 150) [Plain 150 150 1.0, Plain 150 150 1.005]
          (snd (probe ?m')))"
    using t2 p sp by (simp add: params_example_def)
  from a b c d e retry_samples_loop retry_samples_run show ?thesis
    by simp
qed


text \<open>
  C3. Once the loop has accepted the samples \<open>ps\<close> (\<open>samples\<close> many),
  \<^verbatim>\<open>run_probe\<close> appends the value of the result policy on the trimmed
  samples, each with the probe's z offset subtracted from its z. Trimming sorts by z and
  drops the first and the last element; for two or more samples these are one sample of
  minimal and one of maximal z, and all other samples are kept. The default policy is
  the arithmetic mean of the z values. For the samples 1.0, 5.0, 2.0, 2.1 the trimmed
  set is 2.0, 2.1 and the mean is 2.05.
\<close>

theorem trimmed_result:
  "(hw_probe_session s \<and>
    sample_loop params
      (fst (toolhead_position (session_machine s)), fst (snd (toolhead_position (session_machine s))))
      0 [] (session_machine s) = (Inr ps, m1) \<and>
    calc (map (\<lambda>p. adjust_pos_z_offset p (probe_z_offset s)) (trim ps)) (samples_result params) =
      Inr v \<longrightarrow>
      run_probe calc params s =
        (Inr (), s\<lparr>results := results s @ [v], session_machine := m1\<rparr>) \<and>
      (0 \<le> samples params \<longrightarrow> int (length ps) = samples params)) \<and>
   trim qs = butlast (tl (sort_key get_pos_z qs)) \<and>
   sorted (map get_pos_z (sort_key get_pos_z qs)) \<and>
   sorted (map get_pos_z (trim qs)) \<and>
   mset (sort_key get_pos_z qs) = mset qs \<and>
   (2 \<le> length qs \<longrightarrow>
      (\<exists>lo hi. mset qs = {#lo#} + mset (trim qs) + {#hi#} \<and>
         get_pos_z lo = Min (set (map get_pos_z qs)) \<and>
         get_pos_z hi = Max (set (map get_pos_z qs)))) \<and>
   get_pos_z (adjust_pos_z_offset p z_off) = get_pos_z p - z_off \<and>
   calc_probe_z_average qs Average =
     (if qs = [] then Inl ZeroDivisionError
      else Inr (sum_list (map get_pos_z qs) / real (length qs)))"
proof (intro conjI impI)
  assume a: "hw_probe_session s \<and>
    sample_loop params
      (fst (toolhead_position (session_machine s)), fst (snd (toolhead_position (session_machine s))))
      0 [] (session_machine s) = (Inr ps, m1) \<and>
    calc (map (\<lambda>p. adjust_pos_z_offset p (probe_z_offset s)) (trim ps)) (samples_result params) =
      Inr v"
  then show "run_probe calc params s =
        (Inr (), s\<lparr>results := results s @ [v], session_machine := m1\<rparr>)"
    using run_probe_accept [of s params ps m1 calc] by simp
  assume "0 \<le> samples params"
  moreover from a have "sample_loop params
      (fst (toolhead_position (session_machine s)), fst (snd (toolhead_position (session_machine s))))
      0 [] (session_machine s) = (Inr ps, m1)" by simp
  ultimately show "int (length ps) = samples params"
    using sample_loop_accepts by simp
next
  assume "2 \<le> length qs"
  then show "\<exists>lo hi. mset qs = {#lo#} + mset (trim qs) + {#hi#} \<and>
         get_pos_z lo = Min (set (map get_pos_z qs)) \<and>
         get_pos_z hi = Max (set (map get_pos_z qs))"
    by (rule trim_discards)
next
  show "trim qs = butlast (tl (sort_key get_pos_z qs))" by (simp add: trim_def)
next
  show "sorted (map get_pos_z (trim qs))" by (rule trim_sorted)
qed (simp_all add: calc_probe_z_average_def mean_def)

theorem trimmed_result_witness:
  "run_probe calc_probe_z_average (params_example 4 10 0) (session_example four_samples) =
     (Inr (),
      (session_example four_samples)
        \<lparr>results := [2.05],
         session_machine :=
           snd (sample_loop (params_example 4 10 0) (150, 150) 0 []
                  (session_machine (session_example four_samples)))\<rparr>) \<and>
   map get_pos_z (trim four_samples) = [2.0, 2.1] \<and>
   calc_probe_z_average (trim four_samples) Average = Inr 2.05 \<and>
   (\<exists>lo hi. mset four_samples = {#lo#} + mset (trim four_samples) + {#hi#} \<and>
      get_pos_z lo = 1.0 \<and> get_pos_z hi = 5.0)"
proof -
  let ?S = "session_example four_samples"
  let ?P = "params_example 4 10 0"
  let ?l = "sample_loop ?P (150, 150) 0 [] (session_machine ?S)"
  have l: "?l = (Inr four_samples, snd ?l)"
    using four_samples_loop by (simp add: prod_eq_iff)
  have c: "calc_probe_z_average
      (map (\<lambda>p. adjust_pos_z_offset p (probe_z_offset ?S)) (trim four_samples))
      (samples_result ?P) = Inr 2.05"
    by (simp add: four_samples_trim calc_probe_z_average_def mean_def params_example_def)
  note t = trimmed_result [of ?S ?P four_samples "snd ?l" calc_probe_z_average "2.05"
      four_samples "Plain 0 0 0" 0]
  from t [THEN conjunct1] l c
  have run: "run_probe calc_probe_z_average ?P ?S =
      (Inr (), ?S\<lparr>results := [2.05], session_machine := snd ?l\<rparr>)"
    by simp
  have "2 \<le> length four_samples" by (simp add: four_samples_def)
  with t [THEN conjunct2, THEN conjunct2, THEN conjunct2, THEN conjunct2, THEN conjunct2,
      THEN conjunct1]
  have "\<exists>lo hi. mset four_samples = {#lo#} + mset (trim four_samples) + {#hi#} \<and>
      get_pos_z lo = Min (set (map get_pos_z four_samples)) \<and>
      get_pos_z hi = Max (set (map get_pos_z four_samples))"
    by simp
  moreover have "Min (set (map get_pos_z four_samples)) = 1.0"
    "Max (set (map get_pos_z four_samples)) = 5.0"
    by (simp_all add: four_samples_def)
  ultimately have ends: "\<exists>lo hi. mset four_samples = {#lo#} + mset (trim four_samples) + {#hi#} \<and>
      get_pos_z lo = 1.0 \<and> get_pos_z hi = 5.0"
    by simp
  have "map get_pos_z (trim four_samples) = [2.0, 2.1]"
    "calc_probe_z_average (trim four_samples) Average = Inr 2.05"
    by (simp_all add: four_samples_trim calc_probe_z_average_def mean_def)
  with run ends show ?thesis by simp
qed

text \<open>
  The trim always removes two samples (or all, when there are fewer). A session with a
  sample count of 3 or more keeps \<open>samples - 2\<close> of them. With a sample count of 2
  or less the trimmed list is empty, and \<^verbatim>\<open>run_probe\<close>, which has no check of
  the sample count, hands the empty list to the result policy.
\<close>

lemma trim_by_sample_count:
  "length (trim qs) = length qs - 2 \<and>
   (samples params \<le> 2 \<and> sample_loop params probexy 0 [] m = (Inr ps, m') \<longrightarrow> trim ps = []) \<and>
   (3 \<le> samples params \<and> sample_loop params probexy 0 [] m = (Inr ps, m') \<longrightarrow>
      int (length (trim ps)) = samples params - 2) \<and>
   (hw_probe_session s \<and> samples params \<le> 2 \<and>
    sample_loop params
      (fst (toolhead_position (session_machine s)), fst (snd (toolhead_position (session_machine s))))
      0 [] (session_machine s) = (Inr ps, m1) \<longrightarrow>
      run_probe calc params s =
        (case calc [] (samples_result params) of
           Inl e \<Rightarrow> (Inl e, s\<lparr>session_machine := m1\<rparr>)
         | Inr epos \<Rightarrow> (Inr (), s\<lparr>results := results s @ [epos], session_machine := m1\<rparr>)))"
proof -
  have small: "trim ps = []"
    if "samples params \<le> 2" "sample_loop params xy 0 [] m = (Inr ps, m')" for xy m ps m'
  proof (cases "0 \<le> samples params")
    case True
    with sample_loop_accepts [OF that(2)] that(1) have "length ps \<le> 2" by simp
    then have "length (trim ps) = 0" by (simp add: trim_length)
    then show ?thesis by simp
  next
    case False
    with that(2) have "ps = []" by (simp add: sample_loop_done)
    then show ?thesis by (simp add: trim_def)
  qed
  have large: "int (length (trim ps)) = samples params - 2"
    if "3 \<le> samples params" "sample_loop params xy 0 [] m = (Inr ps, m')" for xy m ps m'
    using sample_loop_accepts [OF that(2)] that(1) by (simp add: trim_length)
  show ?thesis
  proof (intro conjI impI)
    show "length (trim qs) = length qs - 2" by (rule trim_length)
  next
    assume "samples params \<le> 2 \<and> sample_loop params probexy 0 [] m = (Inr ps, m')"
    then show "trim ps = []" using small by blast
  next
    assume "3 \<le> samples params \<and> sample_loop params probexy 0 [] m = (Inr ps, m')"
    then show "int (length (trim ps)) = samples params - 2" using large by blast
  next
    assume a: "hw_probe_session s \<and> samples params \<le> 2 \<and>
      sample_loop params
        (fst (toolhead_position (session_machine s)),
         fst (snd (toolhead_position (session_machine s))))
        0 [] (session_machine s) = (Inr ps, m1)"
    then have "trim ps = []" using small by blast
    with a show "run_probe calc params s =
        (case calc [] (samples_result params) of
           Inl e \<Rightarrow> (Inl e, s\<lparr>session_machine := m1\<rparr>)
         | Inr epos \<Rightarrow> (Inr (), s\<lparr>results := results s @ [epos], session_machine := m1\<rparr>))"
      by (simp add: run_probe_accept)
  qed
qed

text \<open>
  C9 does not hold on the code. The trim needs a sample count of at least 3, but
  \<^verbatim>\<open>run_probe\<close> rejects no sample count: with a sample count of 2 the session
  probes twice, accepts both samples, trims them to the empty list and passes it on to
  the averaging, which divides by the number of samples, zero. The command ends in
  \<^verbatim>\<open>ZeroDivisionError\<close> after both probes, and no result is recorded.
\<close>

theorem run_probe_two_samples:
  "fst (sample_loop (params_example 2 0.01 0) (150, 150) 0 []
     (session_machine (session_example two_samples))) = Inr two_samples \<and>
   trim two_samples = [] \<and>
   fst (run_probe calc_probe_z_average (params_example 2 0.01 0) (session_example two_samples)) =
     Inl ZeroDivisionError \<and>
   probes_done (session_machine
     (snd (run_probe calc_probe_z_average (params_example 2 0.01 0)
        (session_example two_samples)))) = 2 \<and>
   results (snd (run_probe calc_probe_z_average (params_example 2 0.01 0)
     (session_example two_samples))) = []"
  by (simp add: run_probe_def Let_def split_beta sample_loop.simps trim_def
      calc_probe_z_average_def mean_def params_example_def session_example_def two_samples_def
      machine_eval)

section \<open>Properties of the current guard\<close>

text \<open>
  C4. \<open>restore\<close> changes neither the guard nor the machine (so it issues no driver
  command) whenever the hold flag is set or the guard is not reduced; \<open>reduce\<close> on
  a reduced guard changes nothing; after any \<open>reduce\<close> the guard is reduced and a
  second \<open>reduce\<close> changes nothing, so two calls in a row on a guard that was not
  reduced add the set-current commands to the trace exactly once.
\<close>

theorem current_guard_invariant:
  "(hold h \<or> \<not> is_reduced h \<longrightarrow> restore h m = (h, m)) \<and>
   (is_reduced h \<longrightarrow> reduce h m = (h, m)) \<and>
   (case reduce h m of (h1, m1) \<Rightarrow> is_reduced h1 \<and> reduce h1 m1 = (h1, m1)) \<and>
   (\<not> is_reduced h \<longrightarrow>
      (case reduce h m of (h1, m1) \<Rightarrow>
         trace m1 = trace m @ map Script (reduce_cmds h) \<and>
         (case reduce h1 m1 of (h2, m2) \<Rightarrow>
            trace m2 = trace m @ map Script (reduce_cmds h))))"
  by (auto simp: reduce_def restore_def)

theorem current_guard_invariant_witness:
  "restore guard0 machine0 = (guard0, machine0) \<and>
   (case reduce guard0 machine0 of (h1, m1) \<Rightarrow>
      is_reduced h1 \<and> reduce h1 m1 = (h1, m1) \<and>
      trace m1 = [Script (SET_TMC_CURRENT ''stepper_z'' (1 / 2))] \<and>
      (case reduce h1 m1 of (h2, m2) \<Rightarrow>
         trace m2 = [Script (SET_TMC_CURRENT ''stepper_z'' (1 / 2))]))"
  using current_guard_invariant [of guard0 machine0]
  by (simp add: guard0_def machine0_def reduce_cmds_def split: prod.splits)

end
